theory Spec2Isabelle
  imports Complex_Main "HOL-Library.Log_Nat"
begin

section \<open>Numbers, errors and vectors\<close>

text \<open>
  The trajectory engine computes with JavaScript numbers. The flight paths are embedded
  twice. First over the reals: \<open>+\<close>, \<open>*\<close>, \<open>/\<close> and \<open>Math.sqrt\<close> are the exact operations,
  every real is a finite number (so the finiteness check of the \<open>Vec2\<close> constructor never
  fires), and the places where the source divides by zero or reads past an array are
  written out as branches. Then, further down, over binary64 numbers with the rounding of
  every operation, for the statements that say where a path is at exactly \<open>t_max\<close>: there
  \<open>(t1 + t2) - t1\<close> need not be \<open>t2\<close>. Every \<open>throw\<close> of the source is a value of type
  \<open>error\<close>.
\<close>

datatype error =
    DivisionByZero      \<comment> \<open>\<open>Vec2.div\<close>: 'Division by zero'\<close>
  | ZeroVector          \<comment> \<open>\<open>Vec2.norm\<close>: 'Cannot normalize zero vector'\<close>
  | InvalidAMax         \<comment> \<open>'a_max must be positive number'\<close>
  | NegativeTime        \<comment> \<open>'Time cannot be negative'\<close>
  | OutOfRange          \<comment> \<open>\<open>getStateAtTime\<close>: 'Time t is outside valid range'\<close>
  | UndefinedRead       \<comment> \<open>a read past the array (\<open>undefined\<close>) that is returned or dereferenced\<close>
  | NotFinite           \<comment> \<open>\<open>Vec2\<close> constructor: 'Vec2 coordinates must be finite numbers'\<close>

definition bind_err :: "error + 'a \<Rightarrow> ('a \<Rightarrow> error + 'b) \<Rightarrow> error + 'b" where
  "bind_err r f = (case r of Inl e \<Rightarrow> Inl e | Inr v \<Rightarrow> f v)"

datatype Vec2 = Vec2 (vx: real) (vy: real)

definition Vec2_zero :: Vec2 where
  "Vec2_zero = Vec2 0 0"

definition Vec2_add :: "Vec2 \<Rightarrow> Vec2 \<Rightarrow> Vec2" where
  "Vec2_add a v = Vec2 (vx a + vx v) (vy a + vy v)"

definition Vec2_sub :: "Vec2 \<Rightarrow> Vec2 \<Rightarrow> Vec2" where
  "Vec2_sub a v = Vec2 (vx a - vx v) (vy a - vy v)"

definition Vec2_mul :: "Vec2 \<Rightarrow> real \<Rightarrow> Vec2" where
  "Vec2_mul a s = Vec2 (vx a * s) (vy a * s)"

definition Vec2_div :: "Vec2 \<Rightarrow> real \<Rightarrow> error + Vec2" where
  "Vec2_div a s = (if s = 0 then Inl DivisionByZero else Inr (Vec2 (vx a / s) (vy a / s)))"

definition Vec2_length :: "Vec2 \<Rightarrow> real" where
  "Vec2_length a = sqrt (vx a * vx a + vy a * vy a)"

definition Vec2_norm :: "Vec2 \<Rightarrow> error + Vec2" where
  "Vec2_norm a = (let len = Vec2_length a in if len = 0 then Inl ZeroVector else Vec2_div a len)"

definition Vec2_normOrZero :: "Vec2 \<Rightarrow> error + Vec2" where
  "Vec2_normOrZero a = (let l = Vec2_length a in if l = 0 then Inr Vec2_zero else Vec2_div a l)"

definition Vec2_dot :: "Vec2 \<Rightarrow> Vec2 \<Rightarrow> real" where
  "Vec2_dot a v = vx a * vx v + vy a * vy v"

definition Vec2_cross :: "Vec2 \<Rightarrow> Vec2 \<Rightarrow> real" where
  "Vec2_cross a v = vx a * vy v - vy a * vx v"

definition Vec2_equals :: "Vec2 \<Rightarrow> Vec2 \<Rightarrow> bool" where
  "Vec2_equals a v \<longleftrightarrow> vx a = vx v \<and> vy a = vy v"

section \<open>The abstract flight path and its sampling cache\<close>

record TrajectoryState =
  position :: Vec2
  velocity :: Vec2
  time :: real

text \<open>
  \<open>FlightPath\<close> is the abstract base class: the duration \<open>t_max\<close>, the two abstract
  methods (given by each subclass), and the private field \<open>_cachedPoints\<close>, \<open>null\<close> until
  the first call of \<open>getCachedPoints\<close>. The private \<open>_cacheResolution\<close> is 50 in every
  instance.
\<close>

record FlightPath =
  t_max :: real
  rocketPosition :: "real \<Rightarrow> error + Vec2"
  rocketVelocity :: "real \<Rightarrow> error + Vec2"
  cachedPoints :: "TrajectoryState list option"

definition cacheResolution :: nat where
  "cacheResolution = 50"

definition getMaxTime :: "FlightPath \<Rightarrow> real" where
  "getMaxTime p = t_max p"

text \<open>\<open>Array.from({length: n}, (_, i) => f i)\<close>: the entries are computed in order, and
  the first \<open>throw\<close> leaves the call.\<close>

fun sequence_err :: "(error + 'a) list \<Rightarrow> error + 'a list" where
  "sequence_err [] = Inr []"
| "sequence_err (r # rs) =
     bind_err r (\<lambda>v. bind_err (sequence_err rs) (\<lambda>vs. Inr (v # vs)))"

definition Array_from :: "nat \<Rightarrow> (nat \<Rightarrow> error + 'a) \<Rightarrow> error + 'a list" where
  "Array_from n f = sequence_err (map f [0..<n])"

definition samplePoint :: "FlightPath \<Rightarrow> nat \<Rightarrow> error + TrajectoryState" where
  "samplePoint p i =
     (let t = (t_max p / real cacheResolution) * real i in
      bind_err (rocketPosition p t) (\<lambda>pos.
      bind_err (rocketVelocity p t) (\<lambda>vel.
      Inr \<lparr>position = pos, velocity = vel, time = t\<rparr>)))"

text \<open>\<open>getCachedPoints\<close> returns the points and the path with its cache filled in.\<close>

definition getCachedPoints :: "FlightPath \<Rightarrow> error + (TrajectoryState list \<times> FlightPath)" where
  "getCachedPoints p =
     (case cachedPoints p of
        Some pts \<Rightarrow> Inr (pts, p)
      | None \<Rightarrow>
          bind_err (Array_from (cacheResolution + 1) (samplePoint p)) (\<lambda>pts.
          Inr (pts, p\<lparr>cachedPoints := Some pts\<rparr>)))"

text \<open>\<open>points[i]\<close>: \<open>undefined\<close> outside the array.\<close>

definition array_get :: "'a list \<Rightarrow> int \<Rightarrow> error + 'a" where
  "array_get xs i = (if 0 \<le> i \<and> i < int (length xs) then Inr (xs ! nat i) else Inl UndefinedRead)"

text \<open>
  \<open>getStateAtTime\<close>. After the range check, \<open>timeStep = 0\<close> happens only for
  \<open>t_max = 0\<close> and \<open>t = 0\<close>; there \<open>t / timeStep\<close> is \<open>0 / 0 = NaN\<close>, \<open>Math.floor\<close> keeps
  the \<open>NaN\<close>, both edge-case comparisons are false on it, \<open>points[NaN]\<close> is \<open>undefined\<close>
  and reading \<open>p1.time\<close> throws a \<open>TypeError\<close>.
\<close>

definition getStateAtTime :: "FlightPath \<Rightarrow> real \<Rightarrow> error + (TrajectoryState \<times> FlightPath)" where
  "getStateAtTime p t =
     (if t < 0 \<or> t > t_max p then Inl OutOfRange
      else
        bind_err (getCachedPoints p) (\<lambda>(points, p').
        let timeStep = t_max p / real cacheResolution in
        if timeStep = 0 then Inl UndefinedRead
        else
          let index = \<lfloor>t / timeStep\<rfloor> in
          if index \<ge> int (length points) - 1 then
            bind_err (array_get points (int (length points) - 1)) (\<lambda>s. Inr (s, p'))
          else if index < 0 then
            bind_err (array_get points 0) (\<lambda>s. Inr (s, p'))
          else
            bind_err (array_get points index) (\<lambda>p1.
            bind_err (array_get points (index + 1)) (\<lambda>p2.
            let alpha = (t - time p1) / timeStep in
            Inr (\<lparr>position = Vec2_add (position p1) (Vec2_mul (Vec2_sub (position p2) (position p1)) alpha),
                  velocity = Vec2_add (velocity p1) (Vec2_mul (Vec2_sub (velocity p2) (velocity p1)) alpha),
                  time = t\<rparr>, p')))))"

section \<open>BreakFlightPath\<close>

record BreakFlightPath =
  time_to_break :: real
  dist_to_break :: real
  break_norm :: Vec2
  break_p_end :: Vec2
  break_a_max :: real

definition BreakFlightPath_new :: "Vec2 \<Rightarrow> real \<Rightarrow> Vec2 \<Rightarrow> error + BreakFlightPath" where
  "BreakFlightPath_new p_start a_max initial_v =
     (if a_max \<le> 0 then Inl InvalidAMax
      else
        let ttb = Vec2_length initial_v / a_max;
            dtb = 0.5 * a_max * ttb * ttb in
        bind_err (Vec2_normOrZero initial_v) (\<lambda>nrm.
        Inr \<lparr>time_to_break = ttb,
             dist_to_break = dtb,
             break_norm = nrm,
             break_p_end = Vec2_add p_start (Vec2_mul nrm dtb),
             break_a_max = a_max\<rparr>))"

definition Break_rocketPosition :: "BreakFlightPath \<Rightarrow> real \<Rightarrow> error + Vec2" where
  "Break_rocketPosition b t =
     (if t < 0 then Inl NegativeTime
      else if t \<le> time_to_break b then
        (let remaining = time_to_break b - t in
         Inr (Vec2_sub (break_p_end b) (Vec2_mul (break_norm b) (0.5 * break_a_max b * remaining * remaining))))
      else Inr (break_p_end b))"

definition Break_rocketVelocity :: "BreakFlightPath \<Rightarrow> real \<Rightarrow> error + Vec2" where
  "Break_rocketVelocity b t =
     (if t < 0 then Inl NegativeTime
      else if t \<le> time_to_break b then
        (let remaining = time_to_break b - t in
         Inr (Vec2_mul (break_norm b) (break_a_max b * remaining)))
      else Inr Vec2_zero)"

definition getEndPosition :: "BreakFlightPath \<Rightarrow> Vec2" where
  "getEndPosition b = break_p_end b"

definition getTimeToBreak :: "BreakFlightPath \<Rightarrow> real" where
  "getTimeToBreak b = time_to_break b"

definition getDistanceToBreak :: "BreakFlightPath \<Rightarrow> real" where
  "getDistanceToBreak b = dist_to_break b"

text \<open>A \<open>BreakFlightPath\<close> seen as a \<open>FlightPath\<close>: \<open>t_max = time_to_break\<close>, empty cache.\<close>

definition Break_path :: "BreakFlightPath \<Rightarrow> FlightPath" where
  "Break_path b =
     \<lparr>t_max = time_to_break b,
      rocketPosition = Break_rocketPosition b,
      rocketVelocity = Break_rocketVelocity b,
      cachedPoints = None\<rparr>"

section \<open>LineFlightPath\<close>

record LineFlightPath =
  line_p_start :: Vec2
  line_p_end :: Vec2
  line_a_max :: real
  line_distance :: real
  line_direction :: Vec2
  line_t_max :: real

definition LineFlightPath_new :: "Vec2 \<Rightarrow> Vec2 \<Rightarrow> real \<Rightarrow> error + LineFlightPath" where
  "LineFlightPath_new p_start p_end a_max =
     (if a_max \<le> 0 then Inl InvalidAMax
      else
        let dd = Vec2_sub p_end p_start;
            distance = Vec2_length dd in
        if distance = 0 then
          Inr \<lparr>line_p_start = p_start, line_p_end = p_end, line_a_max = a_max,
               line_distance = distance, line_direction = Vec2_zero, line_t_max = 0\<rparr>
        else
          bind_err (Vec2_div dd distance) (\<lambda>direction.
          Inr \<lparr>line_p_start = p_start, line_p_end = p_end, line_a_max = a_max,
               line_distance = distance, line_direction = direction,
               line_t_max = 2 * sqrt (distance / a_max)\<rparr>))"

definition Line_rocketPosition :: "LineFlightPath \<Rightarrow> real \<Rightarrow> error + Vec2" where
  "Line_rocketPosition l t =
     (if t < 0 then Inl NegativeTime
      else if line_distance l = 0 then Inr (line_p_start l)
      else if t \<le> line_t_max l / 2 then
        Inr (Vec2_add (line_p_start l) (Vec2_mul (line_direction l) (0.5 * line_a_max l * t * t)))
      else if t \<le> line_t_max l then
        (let t_decel = line_t_max l - t in
         Inr (Vec2_add (line_p_end l) (Vec2_mul (line_direction l) (- 0.5 * line_a_max l * t_decel * t_decel))))
      else Inr (line_p_end l))"

definition Line_rocketVelocity :: "LineFlightPath \<Rightarrow> real \<Rightarrow> error + Vec2" where
  "Line_rocketVelocity l t =
     (if t < 0 then Inl NegativeTime
      else if line_distance l = 0 then Inr Vec2_zero
      else if t \<le> line_t_max l / 2 then
        Inr (Vec2_mul (line_direction l) (line_a_max l * t))
      else if t \<le> line_t_max l then
        (let t_decel = t - line_t_max l / 2 in
         Inr (Vec2_mul (line_direction l) (line_a_max l * (line_t_max l / 2 - t_decel))))
      else Inr Vec2_zero)"

definition Line_path :: "LineFlightPath \<Rightarrow> FlightPath" where
  "Line_path l =
     \<lparr>t_max = line_t_max l,
      rocketPosition = Line_rocketPosition l,
      rocketVelocity = Line_rocketVelocity l,
      cachedPoints = None\<rparr>"

section \<open>combinePath and CompositePath\<close>

definition combinePath :: "FlightPath \<Rightarrow> FlightPath \<Rightarrow> FlightPath" where
  "combinePath path1 path2 =
     \<lparr>t_max = getMaxTime path1 + getMaxTime path2,
      rocketPosition = (\<lambda>t.
        if t < 0 then Inl NegativeTime
        else if t \<le> getMaxTime path1 then rocketPosition path1 t
        else rocketPosition path2 (t - getMaxTime path1)),
      rocketVelocity = (\<lambda>t.
        if t < 0 then Inl NegativeTime
        else if t \<le> getMaxTime path1 then rocketVelocity path1 t
        else rocketVelocity path2 (t - getMaxTime path1)),
      cachedPoints = None\<rparr>"

definition CompositePath :: "real \<Rightarrow> (real \<Rightarrow> error + Vec2) \<Rightarrow> (real \<Rightarrow> error + Vec2) \<Rightarrow> FlightPath" where
  "CompositePath maxTime positionFn velocityFn =
     \<lparr>t_max = maxTime,
      rocketPosition = positionFn,
      rocketVelocity = velocityFn,
      cachedPoints = None\<rparr>"

section \<open>DirectedInitialVFlightPath\<close>

text \<open>
  \<open>DirectedInitialVFlightPath\<close> and \<open>InitialVFlightPath\<close> hold a private
  \<open>implementation\<close> path and their own \<open>t_max\<close>; their \<open>rocketPosition(t)\<close> and
  \<open>rocketVelocity(t)\<close> return \<open>this.implementation.rocketPosition(t)\<close> and
  \<open>this.implementation.rocketVelocity(t)\<close>.
\<close>

definition delegating :: "real \<Rightarrow> FlightPath \<Rightarrow> FlightPath" where
  "delegating tm implementation =
     \<lparr>t_max = tm,
      rocketPosition = (\<lambda>t. rocketPosition implementation t),
      rocketVelocity = (\<lambda>t. rocketVelocity implementation t),
      cachedPoints = None\<rparr>"

text \<open>The class of \<open>src/core/DirectedInitialVFlightPath.ts\<close>.\<close>

definition DirectedInitialVFlightPath_new :: "Vec2 \<Rightarrow> Vec2 \<Rightarrow> real \<Rightarrow> real \<Rightarrow> error + FlightPath" where
  "DirectedInitialVFlightPath_new p_start p_end a_max initial_v =
     (if a_max \<le> 0 then Inl InvalidAMax
      else
        let dd = Vec2_sub p_end p_start;
            distance = Vec2_length dd in
        if distance = 0 then
          bind_err (BreakFlightPath_new p_start a_max (Vec2 initial_v 0)) (\<lambda>b.
          let implementation = Break_path b in
          Inr (delegating (getMaxTime implementation) implementation))
        else
          bind_err (Vec2_div dd distance) (\<lambda>direction.
          bind_err (BreakFlightPath_new p_start a_max (Vec2_mul direction initial_v)) (\<lambda>break_path.
          if initial_v < 0 \<or> getDistanceToBreak break_path > distance then
            bind_err (LineFlightPath_new (getEndPosition break_path) p_end a_max) (\<lambda>final_path.
            let implementation = combinePath (Break_path break_path) (Line_path final_path) in
            Inr (delegating (getMaxTime implementation) implementation))
          else
            let fictive_start = Vec2_sub p_start (Vec2_mul direction (getDistanceToBreak break_path));
                time_to_initial_v = getTimeToBreak break_path in
            bind_err (LineFlightPath_new fictive_start p_end a_max) (\<lambda>actual_path.
            let implementation = Line_path actual_path in
            Inr (delegating (getMaxTime (Line_path actual_path) - time_to_initial_v) implementation)))))"

text \<open>
  The same class in the JavaScript module with input validation (the classes after the
  tests in \<open>src/test/trajectory.test.ts\<close>; \<open>src/trajectory.js\<close> has the same two
  assignments in its lines 160 to 162). Its \<open>BreakFlightPath\<close>, \<open>LineFlightPath\<close> and
  \<open>combinePath\<close> are those above. The object takes over the methods of the inner path;
  in the last branch they are
  \<open>t => actual_path.rocketPosition(t + time_to_initial_v)\<close> and
  \<open>t => actual_path.rocketVelocity(t + time_to_initial_v)\<close>.
\<close>

definition DirectedInitialVFlightPath_js :: "Vec2 \<Rightarrow> Vec2 \<Rightarrow> real \<Rightarrow> real \<Rightarrow> error + FlightPath" where
  "DirectedInitialVFlightPath_js p_start p_end a_max initial_v =
     (if a_max \<le> 0 then Inl InvalidAMax
      else
        let dd = Vec2_sub p_end p_start;
            distance = Vec2_length dd in
        if distance = 0 then
          bind_err (BreakFlightPath_new p_start a_max (Vec2 initial_v 0)) (\<lambda>break_path.
          Inr \<lparr>t_max = time_to_break break_path,
               rocketPosition = Break_rocketPosition break_path,
               rocketVelocity = Break_rocketVelocity break_path,
               cachedPoints = None\<rparr>)
        else
          bind_err (Vec2_div dd distance) (\<lambda>direction.
          bind_err (BreakFlightPath_new p_start a_max (Vec2_mul direction initial_v)) (\<lambda>break_path.
          if initial_v < 0 \<or> dist_to_break break_path > distance then
            bind_err (LineFlightPath_new (break_p_end break_path) p_end a_max) (\<lambda>final_path.
            let combined = combinePath (Break_path break_path) (Line_path final_path) in
            Inr \<lparr>t_max = t_max combined,
                 rocketPosition = rocketPosition combined,
                 rocketVelocity = rocketVelocity combined,
                 cachedPoints = None\<rparr>)
          else
            let fictive_start = Vec2_sub p_start (Vec2_mul direction (dist_to_break break_path));
                time_to_initial_v = time_to_break break_path in
            bind_err (LineFlightPath_new fictive_start p_end a_max) (\<lambda>actual_path.
            Inr \<lparr>t_max = line_t_max actual_path - time_to_initial_v,
                 rocketPosition = (\<lambda>t. Line_rocketPosition actual_path (t + time_to_initial_v)),
                 rocketVelocity = (\<lambda>t. Line_rocketVelocity actual_path (t + time_to_initial_v)),
                 cachedPoints = None\<rparr>))))"

section \<open>InitialVFlightPath\<close>

definition calculatePositionAfterCancel :: "BreakFlightPath \<Rightarrow> Vec2 \<Rightarrow> real \<Rightarrow> Vec2" where
  "calculatePositionAfterCancel cancelPath v0_parallel tm =
     Vec2_add (getEndPosition cancelPath) (Vec2_mul v0_parallel tm)"

definition calculatePositionAfterAlign :: "Vec2 \<Rightarrow> Vec2 \<Rightarrow> Vec2 \<Rightarrow> real \<Rightarrow> real \<Rightarrow> Vec2" where
  "calculatePositionAfterAlign startPos v0_parallel v0_perp_direction a_max tm =
     Vec2_sub (Vec2_add startPos (Vec2_mul v0_parallel tm))
              (Vec2_mul v0_perp_direction (0.5 * a_max * tm * tm))"

definition calculateVelocityAfterAlign :: "Vec2 \<Rightarrow> Vec2 \<Rightarrow> real \<Rightarrow> real \<Rightarrow> Vec2" where
  "calculateVelocityAfterAlign v0_parallel v0_perp_direction a_max tm =
     Vec2_sub v0_parallel (Vec2_mul v0_perp_direction (a_max * tm))"

text \<open>\<open>undefined\<close> is \<open>None\<close>. \<open>Math.sqrt\<close> is only reached with \<open>inner \<ge> 0\<close>.\<close>

definition calculateAlignmentTime :: "Vec2 \<Rightarrow> Vec2 \<Rightarrow> real \<Rightarrow> Vec2 \<Rightarrow> Vec2 \<Rightarrow> real \<Rightarrow> real option" where
  "calculateAlignmentTime p_end pos_after_cancel_v0 v0_parallel_len u v0_perp_u a_max =
     (if v0_parallel_len = 0 then None
      else
        let changeBase = (\<lambda>v. Vec2 (Vec2_dot v u) (Vec2_dot v v0_perp_u));
            start = changeBase pos_after_cancel_v0;
            endv = Vec2_sub (changeBase p_end) start;
            inner = (a_max * vx endv) ^ 2 + 2 * a_max * v0_parallel_len * v0_parallel_len * vy endv in
        if inner < 0 then None
        else
          let q = ((- a_max * vx endv) + sqrt inner) / (- a_max * v0_parallel_len);
              x = v0_parallel_len * q in
          if q < 0 \<or> x < 0 then None else Some q)"

definition InitialVFlightPath_new :: "Vec2 \<Rightarrow> Vec2 \<Rightarrow> real \<Rightarrow> Vec2 \<Rightarrow> error + FlightPath" where
  "InitialVFlightPath_new p_start p_end a_max v0 =
     (if a_max \<le> 0 then Inl InvalidAMax
      else
        let dd = Vec2_sub p_end p_start in
        if Vec2_length dd = 0 then
          bind_err (BreakFlightPath_new p_start a_max v0) (\<lambda>break_path.
          let implementation =
                CompositePath (getMaxTime (Break_path break_path))
                  (\<lambda>t. if t < 0 then Inl NegativeTime
                       else bind_err (Break_rocketPosition break_path t) (\<lambda>pos.
                            Inr (if t \<ge> getMaxTime (Break_path break_path) then p_start else pos)))
                  (\<lambda>t. Break_rocketVelocity break_path t) in
          Inr (delegating (getMaxTime (Break_path break_path)) implementation))
        else
          bind_err (Vec2_div dd (Vec2_length dd)) (\<lambda>direction.
          let v0_parallel_len = Vec2_dot v0 direction;
              v0_parallel = Vec2_mul direction v0_parallel_len;
              v0_perp = Vec2_sub v0 v0_parallel;
              v0_perp_len = Vec2_length v0_perp in
          if v0_perp_len = 0 then
            bind_err (DirectedInitialVFlightPath_new p_start p_end a_max v0_parallel_len) (\<lambda>implementation.
            Inr (delegating (getMaxTime implementation) implementation))
          else
            bind_err (Vec2_div v0_perp v0_perp_len) (\<lambda>v0_perp_direction.
            bind_err (BreakFlightPath_new p_start a_max v0_perp) (\<lambda>v0_cancel_path.
            let time_to_cancel_v0 = getTimeToBreak v0_cancel_path;
                pos_after_cancel = calculatePositionAfterCancel v0_cancel_path v0_parallel time_to_cancel_v0 in
            case calculateAlignmentTime p_end pos_after_cancel v0_parallel_len direction v0_perp_direction a_max of
              None \<Rightarrow>
                bind_err (BreakFlightPath_new p_start a_max v0) (\<lambda>full_break_path.
                bind_err (DirectedInitialVFlightPath_new (getEndPosition full_break_path) p_end a_max 0) (\<lambda>final_path.
                let implementation = combinePath (Break_path full_break_path) final_path in
                Inr (delegating (getMaxTime implementation) implementation)))
            | Some alignTime \<Rightarrow>
                let pos_after_align =
                      calculatePositionAfterAlign (getEndPosition v0_cancel_path) v0_parallel v0_perp_direction a_max alignTime;
                    vel_after_align =
                      calculateVelocityAfterAlign v0_parallel v0_perp_direction a_max alignTime in
                bind_err (DirectedInitialVFlightPath_new pos_after_align p_end a_max (Vec2_length vel_after_align)) (\<lambda>final_path.
                let totalTime = time_to_cancel_v0 + alignTime + getMaxTime final_path;
                    implementation =
                      CompositePath totalTime
                        (\<lambda>t. if t < 0 then Inl NegativeTime
                             else if t \<le> time_to_cancel_v0 then
                               bind_err (Break_rocketPosition v0_cancel_path t) (\<lambda>pos.
                               Inr (Vec2_add pos (Vec2_mul v0_parallel t)))
                             else if t \<le> time_to_cancel_v0 + alignTime then
                               (let align_t = t - time_to_cancel_v0 in
                                Inr (Vec2_sub (Vec2_add (getEndPosition v0_cancel_path) (Vec2_mul v0_parallel align_t))
                                              (Vec2_mul v0_perp_direction (0.5 * a_max * align_t * align_t))))
                             else rocketPosition final_path (t - time_to_cancel_v0 - alignTime))
                        (\<lambda>t. if t < 0 then Inl NegativeTime
                             else if t \<le> time_to_cancel_v0 then
                               bind_err (Break_rocketVelocity v0_cancel_path t) (\<lambda>vel.
                               Inr (Vec2_add vel v0_parallel))
                             else if t \<le> time_to_cancel_v0 + alignTime then
                               (let align_t = t - time_to_cancel_v0 in
                                Inr (Vec2_sub v0_parallel (Vec2_mul v0_perp_direction (a_max * align_t))))
                             else rocketVelocity final_path (t - time_to_cancel_v0 - alignTime)) in
                Inr (delegating totalTime implementation))))))"

section \<open>Vectors of JavaScript numbers\<close>

text \<open>
  \<open>Vec2.equals\<close> compares components with \<open>===\<close>, and \<open>add\<close> and \<open>sub\<close> round their
  results, so for the algebra of \<open>add\<close>, \<open>sub\<close> and \<open>equals\<close> the components are embedded
  as what they are: IEEE 754 binary64 numbers. A finite number is \<open>mant * 2 ^ expo\<close> with an
  integer \<open>mant\<close> of at most 53 bits, \<open>expo \<ge> -1074\<close> and a magnitude below \<open>2 ^ 1024\<close>
  (a number may have several such pairs; \<open>===\<close> compares the values, so that \<open>-0\<close> and
  \<open>0\<close> are equal).
\<close>

record double =
  mant :: int
  expo :: int

definition f64_value :: "double \<Rightarrow> real" where
  "f64_value d = of_int (mant d) * 2 ^ nat (expo d) / 2 ^ nat (- expo d)"

definition is_f64 :: "double \<Rightarrow> bool" where
  "is_f64 d \<longleftrightarrow>
     \<bar>mant d\<bar> \<le> 2 ^ 53 \<and> - 1074 \<le> expo d \<and>
     \<bar>mant d\<bar> * 2 ^ nat (expo d) < 2 ^ 1024 * 2 ^ nat (- expo d)"

text \<open>The result of \<open>+\<close> or \<open>-\<close> on finite numbers is a finite number or an infinity.\<close>

datatype number = Finite double | Infinite

text \<open>\<open>M / 2 ^ k\<close> rounded to the nearest integer, a tie to the even one.\<close>

definition round_to_even :: "int \<Rightarrow> nat \<Rightarrow> int" where
  "round_to_even M k =
     (let q = M div 2 ^ k; r = M mod 2 ^ k in
      if 2 * r < 2 ^ k then q
      else if 2 * r > 2 ^ k then q + 1
      else if even q then q else q + 1)"

text \<open>
  The number nearest to the exact value \<open>M * 2 ^ e\<close> (round to nearest, ties to even):
  the bits of \<open>M\<close> beyond the 53rd are rounded away; a result of magnitude \<open>2 ^ 1024\<close> or
  more is an infinity. For sums and differences of numbers \<open>e \<ge> -1074\<close>, so that no
  result is below the subnormal spacing.
\<close>

definition f64_round :: "int \<Rightarrow> int \<Rightarrow> number" where
  "f64_round M e =
     (let k = nat (bitlen \<bar>M\<bar> - 53);
          d = \<lparr>mant = round_to_even M k, expo = e + int k\<rparr>
      in if is_f64 d then Finite d else Infinite)"

definition f64_add :: "double \<Rightarrow> double \<Rightarrow> number" where
  "f64_add a b =
     (let e = min (expo a) (expo b) in
      f64_round (mant a * 2 ^ nat (expo a - e) + mant b * 2 ^ nat (expo b - e)) e)"

definition f64_sub :: "double \<Rightarrow> double \<Rightarrow> number" where
  "f64_sub a b =
     (let e = min (expo a) (expo b) in
      f64_round (mant a * 2 ^ nat (expo a - e) - mant b * 2 ^ nat (expo b - e)) e)"

text \<open>\<open>a === b\<close> on finite numbers.\<close>

definition f64_eq :: "double \<Rightarrow> double \<Rightarrow> bool" where
  "f64_eq a b \<longleftrightarrow>
     (let e = min (expo a) (expo b) in
      mant a * 2 ^ nat (expo a - e) = mant b * 2 ^ nat (expo b - e))"

datatype Vec2_f64 = Vec2_f64 (fx: double) (fy: double)

text \<open>The constructor: \<open>Number.isFinite\<close> of both coordinates, or the error.\<close>

definition Vec2_f64_new :: "number \<Rightarrow> number \<Rightarrow> error + Vec2_f64" where
  "Vec2_f64_new x y =
     (case x of
        Infinite \<Rightarrow> Inl NotFinite
      | Finite a \<Rightarrow> (case y of Infinite \<Rightarrow> Inl NotFinite | Finite b \<Rightarrow> Inr (Vec2_f64 a b)))"

definition Vec2_f64_add :: "Vec2_f64 \<Rightarrow> Vec2_f64 \<Rightarrow> error + Vec2_f64" where
  "Vec2_f64_add a v = Vec2_f64_new (f64_add (fx a) (fx v)) (f64_add (fy a) (fy v))"

definition Vec2_f64_sub :: "Vec2_f64 \<Rightarrow> Vec2_f64 \<Rightarrow> error + Vec2_f64" where
  "Vec2_f64_sub a v = Vec2_f64_new (f64_sub (fx a) (fx v)) (f64_sub (fy a) (fy v))"

definition Vec2_f64_equals :: "Vec2_f64 \<Rightarrow> Vec2_f64 \<Rightarrow> bool" where
  "Vec2_f64_equals a v \<longleftrightarrow> f64_eq (fx a) (fx v) \<and> f64_eq (fy a) (fy v)"

section \<open>Binary64 numbers\<close>

text \<open>
  Whether a path is exactly at its target at exactly \<open>t_max\<close> depends on the rounding of
  every operation, so the line path and the general path are embedded a second time, over
  the numbers the code computes with. A JavaScript number is a finite number
  \<open>mant * 2 ^ expo\<close> (the record \<open>double\<close> above), the negative zero, an infinity or
  \<open>NaN\<close>. A pair with the mantissa 0 is the zero \<open>+0\<close>, and \<open>NegZero\<close> is \<open>-0\<close>. A finite
  number may have several pairs \<open>(mant, expo)\<close>; every operation builds its result from
  the exact integers.
\<close>

datatype b64 = Num double | NegZero | PosInf | NegInf | NaN

definition b64_zero :: b64 where
  "b64_zero = Num \<lparr>mant = 0, expo = 0\<rparr>"

definition b64_half :: b64 where
  "b64_half = Num \<lparr>mant = 1, expo = - 1\<rparr>"

definition b64_two :: b64 where
  "b64_two = Num \<lparr>mant = 2, expo = 0\<rparr>"

definition b64_is_nan :: "b64 \<Rightarrow> bool" where
  "b64_is_nan x = (case x of NaN \<Rightarrow> True | Num d \<Rightarrow> False | NegZero \<Rightarrow> False | PosInf \<Rightarrow> False | NegInf \<Rightarrow> False)"

definition b64_finite :: "b64 \<Rightarrow> bool" where
  "b64_finite x = (case x of Num d \<Rightarrow> True | NegZero \<Rightarrow> True | PosInf \<Rightarrow> False | NegInf \<Rightarrow> False | NaN \<Rightarrow> False)"

definition b64_mant :: "b64 \<Rightarrow> int" where
  "b64_mant x = (case x of Num d \<Rightarrow> mant d | NegZero \<Rightarrow> 0 | PosInf \<Rightarrow> 0 | NegInf \<Rightarrow> 0 | NaN \<Rightarrow> 0)"

definition b64_expo :: "b64 \<Rightarrow> int" where
  "b64_expo x = (case x of Num d \<Rightarrow> expo d | NegZero \<Rightarrow> 0 | PosInf \<Rightarrow> 0 | NegInf \<Rightarrow> 0 | NaN \<Rightarrow> 0)"

definition b64_negative :: "b64 \<Rightarrow> bool" where
  "b64_negative x = (case x of Num d \<Rightarrow> mant d < 0 | NegZero \<Rightarrow> True | PosInf \<Rightarrow> False | NegInf \<Rightarrow> True | NaN \<Rightarrow> False)"

definition b64_is_zero :: "b64 \<Rightarrow> bool" where
  "b64_is_zero x = (case x of Num d \<Rightarrow> mant d = 0 | NegZero \<Rightarrow> True | PosInf \<Rightarrow> False | NegInf \<Rightarrow> False | NaN \<Rightarrow> False)"

definition b64_signed_zero :: "bool \<Rightarrow> b64" where
  "b64_signed_zero neg = (if neg then NegZero else b64_zero)"

definition b64_signed_inf :: "bool \<Rightarrow> b64" where
  "b64_signed_inf neg = (if neg then NegInf else PosInf)"

text \<open>
  Every operation computes its exact result as an integer times a power of two,
  \<open>M * 2 ^ e\<close>, and rounds it once, to nearest, ties to even: the bits of \<open>M\<close> beyond the
  53rd are rounded away, and so are the bits below the subnormal spacing \<open>2 ^ -1074\<close>
  (underflow, possibly to a zero, which keeps the sign). A result of magnitude \<open>2 ^ 1024\<close> or
  more is an infinity.
\<close>

definition b64_round :: "int \<Rightarrow> int \<Rightarrow> b64" where
  "b64_round M e =
     (let k = nat (max (bitlen \<bar>M\<bar> - 53) (- 1074 - e));
          m = round_to_even M k;
          d = \<lparr>mant = m, expo = e + int k\<rparr>
      in if m = 0 then b64_signed_zero (M < 0)
         else if is_f64 d then Num d
         else b64_signed_inf (M < 0))"

definition b64_neg :: "b64 \<Rightarrow> b64" where
  "b64_neg x =
     (case x of
        Num d \<Rightarrow> (if mant d = 0 then NegZero else Num \<lparr>mant = - mant d, expo = expo d\<rparr>)
      | NegZero \<Rightarrow> b64_zero
      | PosInf \<Rightarrow> NegInf
      | NegInf \<Rightarrow> PosInf
      | NaN \<Rightarrow> NaN)"

definition b64_add :: "b64 \<Rightarrow> b64 \<Rightarrow> b64" where
  "b64_add x y =
     (if b64_is_nan x \<or> b64_is_nan y then NaN
      else if \<not> b64_finite x then
        (if \<not> b64_finite y \<and> b64_negative x \<noteq> b64_negative y then NaN else x)
      else if \<not> b64_finite y then y
      else
        let e = min (b64_expo x) (b64_expo y);
            M = b64_mant x * 2 ^ nat (b64_expo x - e) + b64_mant y * 2 ^ nat (b64_expo y - e) in
        if M = 0 then b64_signed_zero (b64_negative x \<and> b64_negative y)
        else b64_round M e)"

definition b64_sub :: "b64 \<Rightarrow> b64 \<Rightarrow> b64" where
  "b64_sub x y = b64_add x (b64_neg y)"

definition b64_mul :: "b64 \<Rightarrow> b64 \<Rightarrow> b64" where
  "b64_mul x y =
     (if b64_is_nan x \<or> b64_is_nan y then NaN
      else if \<not> b64_finite x \<or> \<not> b64_finite y then
        (if b64_is_zero x \<or> b64_is_zero y then NaN
         else b64_signed_inf (b64_negative x \<noteq> b64_negative y))
      else
        let M = b64_mant x * b64_mant y in
        if M = 0 then b64_signed_zero (b64_negative x \<noteq> b64_negative y)
        else b64_round M (b64_expo x + b64_expo y))"

text \<open>
  The quotient of the mantissas is computed to 55 bits or more, with one more bit that says
  whether a remainder was left, and rounded; that is the correctly rounded quotient.
\<close>

definition b64_div :: "b64 \<Rightarrow> b64 \<Rightarrow> b64" where
  "b64_div x y =
     (if b64_is_nan x \<or> b64_is_nan y then NaN
      else if \<not> b64_finite x then
        (if \<not> b64_finite y then NaN else b64_signed_inf (b64_negative x \<noteq> b64_negative y))
      else if \<not> b64_finite y then b64_signed_zero (b64_negative x \<noteq> b64_negative y)
      else if b64_is_zero y then
        (if b64_is_zero x then NaN else b64_signed_inf (b64_negative x \<noteq> b64_negative y))
      else if b64_is_zero x then b64_signed_zero (b64_negative x \<noteq> b64_negative y)
      else
        let A = \<bar>b64_mant x\<bar>;
            B = \<bar>b64_mant y\<bar>;
            sh = nat (bitlen B - bitlen A + 55);
            N = A * 2 ^ sh;
            q = N div B;
            st = (if N mod B = 0 then 0 else 1);
            Mq = 2 * q + st
        in b64_round (if b64_negative x \<noteq> b64_negative y then - Mq else Mq)
                     (b64_expo x - b64_expo y - int sh - 1))"

text \<open>
  \<open>Math.sqrt\<close>: the integer square root (\<open>isqrt\<close>, found bit by bit) of the mantissa shifted
  to 110 bits or more with an even exponent, with one more bit that says whether the root is
  inexact, and rounded.
\<close>

fun isqrt_aux :: "nat \<Rightarrow> int \<Rightarrow> int \<Rightarrow> int" where
  "isqrt_aux 0 r N = r"
| "isqrt_aux (Suc n) r N =
     (let r' = r + 2 ^ n in if r' * r' \<le> N then isqrt_aux n r' N else isqrt_aux n r N)"

definition isqrt :: "int \<Rightarrow> int" where
  "isqrt N = isqrt_aux (nat ((bitlen N + 1) div 2)) 0 N"

definition b64_sqrt :: "b64 \<Rightarrow> b64" where
  "b64_sqrt x =
     (case x of
        NaN \<Rightarrow> NaN
      | NegInf \<Rightarrow> NaN
      | PosInf \<Rightarrow> PosInf
      | NegZero \<Rightarrow> NegZero
      | Num d \<Rightarrow>
          if mant d = 0 then x
          else if mant d < 0 then NaN
          else
            let sh0 = nat (110 - bitlen (mant d));
                sh = (if even (expo d - int sh0) then sh0 else sh0 + 1);
                N = mant d * 2 ^ sh;
                r = isqrt N;
                st = (if r * r = N then 0 else 1)
            in b64_round (2 * r + st) ((expo d - int sh) div 2 - 1))"

text \<open>
  The comparisons \<open>===\<close>, \<open><\<close>, \<open><=\<close>, \<open>>\<close> and \<open>>=\<close>: all false when an operand is \<open>NaN\<close>;
  \<open>-0\<close> and \<open>0\<close> are equal.
\<close>

definition b64_eq :: "b64 \<Rightarrow> b64 \<Rightarrow> bool" where
  "b64_eq x y =
     (if b64_is_nan x \<or> b64_is_nan y then False
      else if \<not> b64_finite x \<or> \<not> b64_finite y then
        \<not> b64_finite x \<and> \<not> b64_finite y \<and> b64_negative x = b64_negative y
      else
        let e = min (b64_expo x) (b64_expo y) in
        b64_mant x * 2 ^ nat (b64_expo x - e) = b64_mant y * 2 ^ nat (b64_expo y - e))"

definition b64_lt :: "b64 \<Rightarrow> b64 \<Rightarrow> bool" where
  "b64_lt x y =
     (if b64_is_nan x \<or> b64_is_nan y then False
      else if \<not> b64_finite x then b64_negative x \<and> \<not> (\<not> b64_finite y \<and> b64_negative y)
      else if \<not> b64_finite y then \<not> b64_negative y
      else
        let e = min (b64_expo x) (b64_expo y) in
        b64_mant x * 2 ^ nat (b64_expo x - e) < b64_mant y * 2 ^ nat (b64_expo y - e))"

definition b64_le :: "b64 \<Rightarrow> b64 \<Rightarrow> bool" where
  "b64_le x y \<longleftrightarrow> b64_lt x y \<or> b64_eq x y"

definition b64_gt :: "b64 \<Rightarrow> b64 \<Rightarrow> bool" where
  "b64_gt x y \<longleftrightarrow> b64_lt y x"

definition b64_ge :: "b64 \<Rightarrow> b64 \<Rightarrow> bool" where
  "b64_ge x y \<longleftrightarrow> b64_le y x"

text \<open>
  A \<open>b64\<close> is a number when its pair is one (\<open>is_f64\<close>); the value of a finite one is a
  real.
\<close>

definition is_b64 :: "b64 \<Rightarrow> bool" where
  "is_b64 x = (case x of Num d \<Rightarrow> is_f64 d | NegZero \<Rightarrow> True | PosInf \<Rightarrow> True | NegInf \<Rightarrow> True | NaN \<Rightarrow> True)"

definition b64_value :: "b64 \<Rightarrow> real" where
  "b64_value x = f64_value \<lparr>mant = b64_mant x, expo = b64_expo x\<rparr>"

section \<open>The classes over binary64 numbers\<close>

text \<open>
  The classes of the engine once more, operation by operation in the order of the source.
  The constructor of \<open>Vec2\<close> throws unless \<open>Number.isFinite\<close> holds of both coordinates, so
  every method that builds a vector can fail. \<open>Math.pow(z, 2)\<close> is taken to be the rounded
  product \<open>z * z\<close>.
\<close>

datatype Vec2_b64 = Vec2_b64 (x64: b64) (y64: b64)

definition Vec2_b64_new :: "b64 \<Rightarrow> b64 \<Rightarrow> error + Vec2_b64" where
  "Vec2_b64_new x y = (if b64_finite x \<and> b64_finite y then Inr (Vec2_b64 x y) else Inl NotFinite)"

definition Vec2_b64_zero :: Vec2_b64 where
  "Vec2_b64_zero = Vec2_b64 b64_zero b64_zero"

definition Vec2_b64_add :: "Vec2_b64 \<Rightarrow> Vec2_b64 \<Rightarrow> error + Vec2_b64" where
  "Vec2_b64_add a v = Vec2_b64_new (b64_add (x64 a) (x64 v)) (b64_add (y64 a) (y64 v))"

definition Vec2_b64_sub :: "Vec2_b64 \<Rightarrow> Vec2_b64 \<Rightarrow> error + Vec2_b64" where
  "Vec2_b64_sub a v = Vec2_b64_new (b64_sub (x64 a) (x64 v)) (b64_sub (y64 a) (y64 v))"

definition Vec2_b64_mul :: "Vec2_b64 \<Rightarrow> b64 \<Rightarrow> error + Vec2_b64" where
  "Vec2_b64_mul a s = Vec2_b64_new (b64_mul (x64 a) s) (b64_mul (y64 a) s)"

definition Vec2_b64_div :: "Vec2_b64 \<Rightarrow> b64 \<Rightarrow> error + Vec2_b64" where
  "Vec2_b64_div a s =
     (if b64_eq s b64_zero then Inl DivisionByZero
      else Vec2_b64_new (b64_div (x64 a) s) (b64_div (y64 a) s))"

definition Vec2_b64_length :: "Vec2_b64 \<Rightarrow> b64" where
  "Vec2_b64_length a = b64_sqrt (b64_add (b64_mul (x64 a) (x64 a)) (b64_mul (y64 a) (y64 a)))"

definition Vec2_b64_normOrZero :: "Vec2_b64 \<Rightarrow> error + Vec2_b64" where
  "Vec2_b64_normOrZero a =
     (let l = Vec2_b64_length a in
      if b64_eq l b64_zero then Inr Vec2_b64_zero else Vec2_b64_div a l)"

definition Vec2_b64_dot :: "Vec2_b64 \<Rightarrow> Vec2_b64 \<Rightarrow> b64" where
  "Vec2_b64_dot a v = b64_add (b64_mul (x64 a) (x64 v)) (b64_mul (y64 a) (y64 v))"

definition Vec2_b64_equals :: "Vec2_b64 \<Rightarrow> Vec2_b64 \<Rightarrow> bool" where
  "Vec2_b64_equals a v \<longleftrightarrow> b64_eq (x64 a) (x64 v) \<and> b64_eq (y64 a) (y64 v)"

record FlightPath_b64 =
  t_max64 :: b64
  rocketPosition64 :: "b64 \<Rightarrow> error + Vec2_b64"
  rocketVelocity64 :: "b64 \<Rightarrow> error + Vec2_b64"

definition getMaxTime64 :: "FlightPath_b64 \<Rightarrow> b64" where
  "getMaxTime64 p = t_max64 p"

record BreakFlightPath_b64 =
  time_to_break64 :: b64
  dist_to_break64 :: b64
  break_norm64 :: Vec2_b64
  break_p_end64 :: Vec2_b64
  break_a_max64 :: b64

definition BreakFlightPath_b64_new :: "Vec2_b64 \<Rightarrow> b64 \<Rightarrow> Vec2_b64 \<Rightarrow> error + BreakFlightPath_b64" where
  "BreakFlightPath_b64_new p_start a_max initial_v =
     (if b64_le a_max b64_zero then Inl InvalidAMax
      else
        let ttb = b64_div (Vec2_b64_length initial_v) a_max;
            dtb = b64_mul (b64_mul (b64_mul b64_half a_max) ttb) ttb in
        bind_err (Vec2_b64_normOrZero initial_v) (\<lambda>nrm.
        bind_err (Vec2_b64_mul nrm dtb) (\<lambda>d.
        bind_err (Vec2_b64_add p_start d) (\<lambda>p_end.
        Inr \<lparr>time_to_break64 = ttb,
             dist_to_break64 = dtb,
             break_norm64 = nrm,
             break_p_end64 = p_end,
             break_a_max64 = a_max\<rparr>))))"

definition Break_b64_rocketPosition :: "BreakFlightPath_b64 \<Rightarrow> b64 \<Rightarrow> error + Vec2_b64" where
  "Break_b64_rocketPosition b t =
     (if b64_lt t b64_zero then Inl NegativeTime
      else if b64_le t (time_to_break64 b) then
        (let remaining = b64_sub (time_to_break64 b) t in
         bind_err (Vec2_b64_mul (break_norm64 b)
                     (b64_mul (b64_mul (b64_mul b64_half (break_a_max64 b)) remaining) remaining)) (\<lambda>d.
         Vec2_b64_sub (break_p_end64 b) d))
      else Inr (break_p_end64 b))"

definition Break_b64_rocketVelocity :: "BreakFlightPath_b64 \<Rightarrow> b64 \<Rightarrow> error + Vec2_b64" where
  "Break_b64_rocketVelocity b t =
     (if b64_lt t b64_zero then Inl NegativeTime
      else if b64_le t (time_to_break64 b) then
        (let remaining = b64_sub (time_to_break64 b) t in
         Vec2_b64_mul (break_norm64 b) (b64_mul (break_a_max64 b) remaining))
      else Inr Vec2_b64_zero)"

definition Break_b64_path :: "BreakFlightPath_b64 \<Rightarrow> FlightPath_b64" where
  "Break_b64_path b =
     \<lparr>t_max64 = time_to_break64 b,
      rocketPosition64 = Break_b64_rocketPosition b,
      rocketVelocity64 = Break_b64_rocketVelocity b\<rparr>"

record LineFlightPath_b64 =
  line_p_start64 :: Vec2_b64
  line_p_end64 :: Vec2_b64
  line_a_max64 :: b64
  line_distance64 :: b64
  line_direction64 :: Vec2_b64
  line_t_max64 :: b64

definition LineFlightPath_b64_new :: "Vec2_b64 \<Rightarrow> Vec2_b64 \<Rightarrow> b64 \<Rightarrow> error + LineFlightPath_b64" where
  "LineFlightPath_b64_new p_start p_end a_max =
     (if b64_le a_max b64_zero then Inl InvalidAMax
      else
        bind_err (Vec2_b64_sub p_end p_start) (\<lambda>dd.
        let distance = Vec2_b64_length dd in
        if b64_eq distance b64_zero then
          Inr \<lparr>line_p_start64 = p_start, line_p_end64 = p_end, line_a_max64 = a_max,
               line_distance64 = distance, line_direction64 = Vec2_b64_zero, line_t_max64 = b64_zero\<rparr>
        else
          bind_err (Vec2_b64_div dd distance) (\<lambda>direction.
          Inr \<lparr>line_p_start64 = p_start, line_p_end64 = p_end, line_a_max64 = a_max,
               line_distance64 = distance, line_direction64 = direction,
               line_t_max64 = b64_mul b64_two (b64_sqrt (b64_div distance a_max))\<rparr>)))"

definition Line_b64_rocketPosition :: "LineFlightPath_b64 \<Rightarrow> b64 \<Rightarrow> error + Vec2_b64" where
  "Line_b64_rocketPosition l t =
     (if b64_lt t b64_zero then Inl NegativeTime
      else if b64_eq (line_distance64 l) b64_zero then Inr (line_p_start64 l)
      else if b64_le t (b64_div (line_t_max64 l) b64_two) then
        bind_err (Vec2_b64_mul (line_direction64 l)
                    (b64_mul (b64_mul (b64_mul b64_half (line_a_max64 l)) t) t)) (\<lambda>d.
        Vec2_b64_add (line_p_start64 l) d)
      else if b64_le t (line_t_max64 l) then
        (let t_decel = b64_sub (line_t_max64 l) t in
         bind_err (Vec2_b64_mul (line_direction64 l)
                     (b64_mul (b64_mul (b64_mul (b64_neg b64_half) (line_a_max64 l)) t_decel) t_decel)) (\<lambda>d.
         Vec2_b64_add (line_p_end64 l) d))
      else Inr (line_p_end64 l))"

definition Line_b64_rocketVelocity :: "LineFlightPath_b64 \<Rightarrow> b64 \<Rightarrow> error + Vec2_b64" where
  "Line_b64_rocketVelocity l t =
     (if b64_lt t b64_zero then Inl NegativeTime
      else if b64_eq (line_distance64 l) b64_zero then Inr Vec2_b64_zero
      else if b64_le t (b64_div (line_t_max64 l) b64_two) then
        Vec2_b64_mul (line_direction64 l) (b64_mul (line_a_max64 l) t)
      else if b64_le t (line_t_max64 l) then
        (let t_decel = b64_sub t (b64_div (line_t_max64 l) b64_two) in
         Vec2_b64_mul (line_direction64 l)
           (b64_mul (line_a_max64 l) (b64_sub (b64_div (line_t_max64 l) b64_two) t_decel)))
      else Inr Vec2_b64_zero)"

definition Line_b64_path :: "LineFlightPath_b64 \<Rightarrow> FlightPath_b64" where
  "Line_b64_path l =
     \<lparr>t_max64 = line_t_max64 l,
      rocketPosition64 = Line_b64_rocketPosition l,
      rocketVelocity64 = Line_b64_rocketVelocity l\<rparr>"

definition combinePath_b64 :: "FlightPath_b64 \<Rightarrow> FlightPath_b64 \<Rightarrow> FlightPath_b64" where
  "combinePath_b64 path1 path2 =
     \<lparr>t_max64 = b64_add (getMaxTime64 path1) (getMaxTime64 path2),
      rocketPosition64 = (\<lambda>t.
        if b64_lt t b64_zero then Inl NegativeTime
        else if b64_le t (getMaxTime64 path1) then rocketPosition64 path1 t
        else rocketPosition64 path2 (b64_sub t (getMaxTime64 path1))),
      rocketVelocity64 = (\<lambda>t.
        if b64_lt t b64_zero then Inl NegativeTime
        else if b64_le t (getMaxTime64 path1) then rocketVelocity64 path1 t
        else rocketVelocity64 path2 (b64_sub t (getMaxTime64 path1)))\<rparr>"

definition CompositePath_b64 :: "b64 \<Rightarrow> (b64 \<Rightarrow> error + Vec2_b64) \<Rightarrow> (b64 \<Rightarrow> error + Vec2_b64) \<Rightarrow> FlightPath_b64" where
  "CompositePath_b64 maxTime positionFn velocityFn =
     \<lparr>t_max64 = maxTime, rocketPosition64 = positionFn, rocketVelocity64 = velocityFn\<rparr>"

text \<open>A class that keeps its path in \<open>implementation\<close> and hands every call on to it.\<close>

definition delegating_b64 :: "b64 \<Rightarrow> FlightPath_b64 \<Rightarrow> FlightPath_b64" where
  "delegating_b64 tm implementation =
     \<lparr>t_max64 = tm,
      rocketPosition64 = (\<lambda>t. rocketPosition64 implementation t),
      rocketVelocity64 = (\<lambda>t. rocketVelocity64 implementation t)\<rparr>"

definition DirectedInitialVFlightPath_b64_new :: "Vec2_b64 \<Rightarrow> Vec2_b64 \<Rightarrow> b64 \<Rightarrow> b64 \<Rightarrow> error + FlightPath_b64" where
  "DirectedInitialVFlightPath_b64_new p_start p_end a_max initial_v =
     (if b64_le a_max b64_zero then Inl InvalidAMax
      else
        bind_err (Vec2_b64_sub p_end p_start) (\<lambda>dd.
        let distance = Vec2_b64_length dd in
        if b64_eq distance b64_zero then
          bind_err (Vec2_b64_new initial_v b64_zero) (\<lambda>v.
          bind_err (BreakFlightPath_b64_new p_start a_max v) (\<lambda>b.
          let implementation = Break_b64_path b in
          Inr (delegating_b64 (getMaxTime64 implementation) implementation)))
        else
          bind_err (Vec2_b64_div dd distance) (\<lambda>direction.
          bind_err (Vec2_b64_mul direction initial_v) (\<lambda>v.
          bind_err (BreakFlightPath_b64_new p_start a_max v) (\<lambda>break_path.
          if b64_lt initial_v b64_zero \<or> b64_gt (dist_to_break64 break_path) distance then
            bind_err (LineFlightPath_b64_new (break_p_end64 break_path) p_end a_max) (\<lambda>final_path.
            let implementation = combinePath_b64 (Break_b64_path break_path) (Line_b64_path final_path) in
            Inr (delegating_b64 (getMaxTime64 implementation) implementation))
          else
            bind_err (Vec2_b64_mul direction (dist_to_break64 break_path)) (\<lambda>d.
            bind_err (Vec2_b64_sub p_start d) (\<lambda>fictive_start.
            let time_to_initial_v = time_to_break64 break_path in
            bind_err (LineFlightPath_b64_new fictive_start p_end a_max) (\<lambda>actual_path.
            let implementation = Line_b64_path actual_path in
            Inr (delegating_b64 (b64_sub (getMaxTime64 (Line_b64_path actual_path)) time_to_initial_v)
                   implementation)))))))))"

definition calculatePositionAfterCancel_b64 :: "BreakFlightPath_b64 \<Rightarrow> Vec2_b64 \<Rightarrow> b64 \<Rightarrow> error + Vec2_b64" where
  "calculatePositionAfterCancel_b64 cancelPath v0_parallel tm =
     bind_err (Vec2_b64_mul v0_parallel tm) (\<lambda>d.
     Vec2_b64_add (break_p_end64 cancelPath) d)"

definition calculatePositionAfterAlign_b64 :: "Vec2_b64 \<Rightarrow> Vec2_b64 \<Rightarrow> Vec2_b64 \<Rightarrow> b64 \<Rightarrow> b64 \<Rightarrow> error + Vec2_b64" where
  "calculatePositionAfterAlign_b64 startPos v0_parallel v0_perp_direction a_max tm =
     bind_err (Vec2_b64_mul v0_parallel tm) (\<lambda>d1.
     bind_err (Vec2_b64_add startPos d1) (\<lambda>s1.
     bind_err (Vec2_b64_mul v0_perp_direction (b64_mul (b64_mul (b64_mul b64_half a_max) tm) tm)) (\<lambda>d2.
     Vec2_b64_sub s1 d2)))"

definition calculateVelocityAfterAlign_b64 :: "Vec2_b64 \<Rightarrow> Vec2_b64 \<Rightarrow> b64 \<Rightarrow> b64 \<Rightarrow> error + Vec2_b64" where
  "calculateVelocityAfterAlign_b64 v0_parallel v0_perp_direction a_max tm =
     bind_err (Vec2_b64_mul v0_perp_direction (b64_mul a_max tm)) (\<lambda>d.
     Vec2_b64_sub v0_parallel d)"

definition calculateAlignmentTime_b64 :: "Vec2_b64 \<Rightarrow> Vec2_b64 \<Rightarrow> b64 \<Rightarrow> Vec2_b64 \<Rightarrow> Vec2_b64 \<Rightarrow> b64 \<Rightarrow> error + b64 option" where
  "calculateAlignmentTime_b64 p_end pos_after_cancel_v0 v0_parallel_len u v0_perp_u a_max =
     (if b64_eq v0_parallel_len b64_zero then Inr None
      else
        let changeBase = (\<lambda>v. Vec2_b64_new (Vec2_b64_dot v u) (Vec2_b64_dot v v0_perp_u)) in
        bind_err (changeBase pos_after_cancel_v0) (\<lambda>start.
        bind_err (changeBase p_end) (\<lambda>pe.
        bind_err (Vec2_b64_sub pe start) (\<lambda>endv.
        let z = b64_mul a_max (x64 endv);
            inner = b64_add (b64_mul z z)
                      (b64_mul (b64_mul (b64_mul (b64_mul b64_two a_max) v0_parallel_len) v0_parallel_len) (y64 endv)) in
        if b64_lt inner b64_zero then Inr None
        else
          let q = b64_div (b64_add (b64_mul (b64_neg a_max) (x64 endv)) (b64_sqrt inner))
                          (b64_mul (b64_neg a_max) v0_parallel_len);
              x = b64_mul v0_parallel_len q in
          if b64_lt q b64_zero \<or> b64_lt x b64_zero then Inr None else Inr (Some q)))))"

definition InitialVFlightPath_b64_new :: "Vec2_b64 \<Rightarrow> Vec2_b64 \<Rightarrow> b64 \<Rightarrow> Vec2_b64 \<Rightarrow> error + FlightPath_b64" where
  "InitialVFlightPath_b64_new p_start p_end a_max v0 =
     (if b64_le a_max b64_zero then Inl InvalidAMax
      else
        bind_err (Vec2_b64_sub p_end p_start) (\<lambda>dd.
        if b64_eq (Vec2_b64_length dd) b64_zero then
          bind_err (BreakFlightPath_b64_new p_start a_max v0) (\<lambda>break_path.
          let implementation =
                CompositePath_b64 (getMaxTime64 (Break_b64_path break_path))
                  (\<lambda>t. if b64_lt t b64_zero then Inl NegativeTime
                       else bind_err (Break_b64_rocketPosition break_path t) (\<lambda>pos.
                            Inr (if b64_ge t (getMaxTime64 (Break_b64_path break_path)) then p_start else pos)))
                  (\<lambda>t. Break_b64_rocketVelocity break_path t) in
          Inr (delegating_b64 (getMaxTime64 (Break_b64_path break_path)) implementation))
        else
          bind_err (Vec2_b64_div dd (Vec2_b64_length dd)) (\<lambda>direction.
          let v0_parallel_len = Vec2_b64_dot v0 direction in
          bind_err (Vec2_b64_mul direction v0_parallel_len) (\<lambda>v0_parallel.
          bind_err (Vec2_b64_sub v0 v0_parallel) (\<lambda>v0_perp.
          let v0_perp_len = Vec2_b64_length v0_perp in
          if b64_eq v0_perp_len b64_zero then
            bind_err (DirectedInitialVFlightPath_b64_new p_start p_end a_max v0_parallel_len) (\<lambda>implementation.
            Inr (delegating_b64 (getMaxTime64 implementation) implementation))
          else
            bind_err (Vec2_b64_div v0_perp v0_perp_len) (\<lambda>v0_perp_direction.
            bind_err (BreakFlightPath_b64_new p_start a_max v0_perp) (\<lambda>v0_cancel_path.
            let time_to_cancel_v0 = time_to_break64 v0_cancel_path in
            bind_err (calculatePositionAfterCancel_b64 v0_cancel_path v0_parallel time_to_cancel_v0) (\<lambda>pos_after_cancel.
            bind_err (calculateAlignmentTime_b64 p_end pos_after_cancel v0_parallel_len direction
                        v0_perp_direction a_max) (\<lambda>time_to_align.
            case time_to_align of
              None \<Rightarrow>
                bind_err (BreakFlightPath_b64_new p_start a_max v0) (\<lambda>full_break_path.
                bind_err (DirectedInitialVFlightPath_b64_new (break_p_end64 full_break_path) p_end a_max b64_zero) (\<lambda>final_path.
                let implementation = combinePath_b64 (Break_b64_path full_break_path) final_path in
                Inr (delegating_b64 (getMaxTime64 implementation) implementation)))
            | Some alignTime \<Rightarrow>
                bind_err (calculatePositionAfterAlign_b64 (break_p_end64 v0_cancel_path) v0_parallel
                            v0_perp_direction a_max alignTime) (\<lambda>pos_after_align.
                bind_err (calculateVelocityAfterAlign_b64 v0_parallel v0_perp_direction a_max alignTime) (\<lambda>vel_after_align.
                bind_err (DirectedInitialVFlightPath_b64_new pos_after_align p_end a_max
                            (Vec2_b64_length vel_after_align)) (\<lambda>final_path.
                let totalTime = b64_add (b64_add time_to_cancel_v0 alignTime) (getMaxTime64 final_path);
                    implementation =
                      CompositePath_b64 totalTime
                        (\<lambda>t. if b64_lt t b64_zero then Inl NegativeTime
                             else if b64_le t time_to_cancel_v0 then
                               bind_err (Break_b64_rocketPosition v0_cancel_path t) (\<lambda>pos.
                               bind_err (Vec2_b64_mul v0_parallel t) (\<lambda>d.
                               Vec2_b64_add pos d))
                             else if b64_le t (b64_add time_to_cancel_v0 alignTime) then
                               (let align_t = b64_sub t time_to_cancel_v0 in
                                bind_err (Vec2_b64_mul v0_parallel align_t) (\<lambda>e1.
                                bind_err (Vec2_b64_add (break_p_end64 v0_cancel_path) e1) (\<lambda>e2.
                                bind_err (Vec2_b64_mul v0_perp_direction
                                            (b64_mul (b64_mul (b64_mul b64_half a_max) align_t) align_t)) (\<lambda>e3.
                                Vec2_b64_sub e2 e3))))
                             else rocketPosition64 final_path
                                    (b64_sub (b64_sub t time_to_cancel_v0) alignTime))
                        (\<lambda>t. if b64_lt t b64_zero then Inl NegativeTime
                             else if b64_le t time_to_cancel_v0 then
                               bind_err (Break_b64_rocketVelocity v0_cancel_path t) (\<lambda>vel.
                               Vec2_b64_add vel v0_parallel)
                             else if b64_le t (b64_add time_to_cancel_v0 alignTime) then
                               (let align_t = b64_sub t time_to_cancel_v0 in
                                bind_err (Vec2_b64_mul v0_perp_direction (b64_mul a_max align_t)) (\<lambda>e1.
                                Vec2_b64_sub v0_parallel e1))
                             else rocketVelocity64 final_path
                                    (b64_sub (b64_sub t time_to_cancel_v0) alignTime)) in
                Inr (delegating_b64 totalTime implementation)))))))))))))"

text \<open>A vector as the constructor of \<open>Vec2\<close> admits it: two finite numbers.\<close>

definition is_Vec2_b64 :: "Vec2_b64 \<Rightarrow> bool" where
  "is_Vec2_b64 v \<longleftrightarrow> is_b64 (x64 v) \<and> b64_finite (x64 v) \<and> is_b64 (y64 v) \<and> b64_finite (y64 v)"

section \<open>Example objects\<close>

text \<open>The object built by \<open>new LineFlightPath(new Vec2(0, 0), new Vec2(0, 0), 1)\<close>, a
  path of duration 0, and the state it is in at time 0.\<close>

definition restingLine :: LineFlightPath where
  "restingLine =
     \<lparr>line_p_start = Vec2 0 0, line_p_end = Vec2 0 0, line_a_max = 1,
      line_distance = 0, line_direction = Vec2_zero, line_t_max = 0\<rparr>"

definition restingState :: TrajectoryState where
  "restingState = \<lparr>position = Vec2 0 0, velocity = Vec2_zero, time = 0\<rparr>"

text \<open>
  The object built by \<open>new LineFlightPath(new Vec2(0, 0), new Vec2(1, 1), 1)\<close>, and the
  one built by \<open>new LineFlightPath(new Vec2(0, 0), new Vec2(1e-200, 0), 1)\<close>, where
  \<open>1e-200\<close> is the number \<open>1723641332219371 * 2 ^ -715\<close>.
\<close>

definition diagonalLine64 :: LineFlightPath_b64 where
  "diagonalLine64 =
     \<lparr>line_p_start64 = Vec2_b64 (Num \<lparr>mant = 0, expo = 0\<rparr>) (Num \<lparr>mant = 0, expo = 0\<rparr>),
      line_p_end64 = Vec2_b64 (Num \<lparr>mant = 1, expo = 0\<rparr>) (Num \<lparr>mant = 1, expo = 0\<rparr>),
      line_a_max64 = Num \<lparr>mant = 1, expo = 0\<rparr>,
      line_distance64 = Num \<lparr>mant = 6369051672525773, expo = - 52\<rparr>,
      line_direction64 = Vec2_b64 (Num \<lparr>mant = 6369051672525772, expo = - 53\<rparr>)
                                  (Num \<lparr>mant = 6369051672525772, expo = - 53\<rparr>),
      line_t_max64 = Num \<lparr>mant = 5355712719992597, expo = - 51\<rparr>\<rparr>"

definition underflowLine64 :: LineFlightPath_b64 where
  "underflowLine64 =
     \<lparr>line_p_start64 = Vec2_b64 (Num \<lparr>mant = 0, expo = 0\<rparr>) (Num \<lparr>mant = 0, expo = 0\<rparr>),
      line_p_end64 = Vec2_b64 (Num \<lparr>mant = 1723641332219371, expo = - 715\<rparr>) (Num \<lparr>mant = 0, expo = 0\<rparr>),
      line_a_max64 = Num \<lparr>mant = 1, expo = 0\<rparr>,
      line_distance64 = Num \<lparr>mant = 0, expo = 0\<rparr>,
      line_direction64 = Vec2_b64 (Num \<lparr>mant = 0, expo = 0\<rparr>) (Num \<lparr>mant = 0, expo = 0\<rparr>),
      line_t_max64 = Num \<lparr>mant = 0, expo = 0\<rparr>\<rparr>"

text \<open>The object built by \<open>new LineFlightPath(new Vec2(0, 0), new Vec2(3, 4), 2)\<close>.\<close>

definition exampleLine64 :: LineFlightPath_b64 where
  "exampleLine64 =
     \<lparr>line_p_start64 = Vec2_b64 (Num \<lparr>mant = 0, expo = 0\<rparr>) (Num \<lparr>mant = 0, expo = 0\<rparr>),
      line_p_end64 = Vec2_b64 (Num \<lparr>mant = 3, expo = 0\<rparr>) (Num \<lparr>mant = 4, expo = 0\<rparr>),
      line_a_max64 = Num \<lparr>mant = 2, expo = 0\<rparr>,
      line_distance64 = Num \<lparr>mant = 5629499534213120, expo = - 50\<rparr>,
      line_direction64 = Vec2_b64 (Num \<lparr>mant = 5404319552844595, expo = - 53\<rparr>)
                                  (Num \<lparr>mant = 7205759403792794, expo = - 53\<rparr>),
      line_t_max64 = Num \<lparr>mant = 7120816245988179, expo = - 51\<rparr>\<rparr>"

text \<open>
  The objects inside \<open>new InitialVFlightPath(new Vec2(0, 0), new Vec2(1, 0), 10, new Vec2(0, 100))\<close>: the braking path of its
  fallback (for this input also the path that cancels the perpendicular velocity), the line
  path of its \<open>final_path\<close>, the \<open>final_path\<close> and the path itself.
\<close>

definition testBreak64 :: BreakFlightPath_b64 where
  "testBreak64 =
     \<lparr>time_to_break64 = Num \<lparr>mant = 5629499534213120, expo = - 49\<rparr>,
      dist_to_break64 = Num \<lparr>mant = 8796093022208000, expo = - 44\<rparr>,
      break_norm64 = Vec2_b64 (Num \<lparr>mant = 0, expo = 0\<rparr>) (Num \<lparr>mant = 4503599627370496, expo = - 52\<rparr>),
      break_p_end64 = Vec2_b64 (Num \<lparr>mant = 0, expo = 0\<rparr>) (Num \<lparr>mant = 8796093022208000, expo = - 44\<rparr>),
      break_a_max64 = Num \<lparr>mant = 10, expo = 0\<rparr>\<rparr>"

definition testLine64 :: LineFlightPath_b64 where
  "testLine64 =
     \<lparr>line_p_start64 = Vec2_b64 (Num \<lparr>mant = 0, expo = 0\<rparr>) (Num \<lparr>mant = 8796093022208000, expo = - 44\<rparr>),
      line_p_end64 = Vec2_b64 (Num \<lparr>mant = 1, expo = 0\<rparr>) (Num \<lparr>mant = 0, expo = 0\<rparr>),
      line_a_max64 = Num \<lparr>mant = 10, expo = 0\<rparr>,
      line_distance64 = Num \<lparr>mant = 8796110614376452, expo = - 44\<rparr>,
      line_direction64 = Vec2_b64 (Num \<lparr>mant = 4611676795083021, expo = - 61\<rparr>) (Num \<lparr>mant = - 9007181240396526, expo = - 53\<rparr>),
      line_t_max64 = Num \<lparr>mant = 7961322551959865, expo = - 49\<rparr>\<rparr>"

definition testFinal64 :: FlightPath_b64 where
  "testFinal64 =
     delegating_b64 (b64_sub (getMaxTime64 (Line_b64_path testLine64)) b64_zero) (Line_b64_path testLine64)"

definition testFallback64 :: FlightPath_b64 where
  "testFallback64 =
     delegating_b64 (getMaxTime64 (combinePath_b64 (Break_b64_path testBreak64) testFinal64))
       (combinePath_b64 (Break_b64_path testBreak64) testFinal64)"

text \<open>
  The objects inside \<open>new InitialVFlightPath(new Vec2(0, 0), new Vec2(1, 0), 1, new Vec2(0, 1))\<close>: the braking path of its
  fallback (for this input also the path that cancels the perpendicular velocity), the line
  path of its \<open>final_path\<close> and the \<open>final_path\<close>.
\<close>

definition sampleBreak64 :: BreakFlightPath_b64 where
  "sampleBreak64 =
     \<lparr>time_to_break64 = Num \<lparr>mant = 4503599627370496, expo = - 52\<rparr>,
      dist_to_break64 = Num \<lparr>mant = 4503599627370496, expo = - 53\<rparr>,
      break_norm64 = Vec2_b64 (Num \<lparr>mant = 0, expo = 0\<rparr>) (Num \<lparr>mant = 4503599627370496, expo = - 52\<rparr>),
      break_p_end64 = Vec2_b64 (Num \<lparr>mant = 0, expo = 0\<rparr>) (Num \<lparr>mant = 4503599627370496, expo = - 53\<rparr>),
      break_a_max64 = Num \<lparr>mant = 1, expo = 0\<rparr>\<rparr>"

definition sampleLine64 :: LineFlightPath_b64 where
  "sampleLine64 =
     \<lparr>line_p_start64 = Vec2_b64 (Num \<lparr>mant = 0, expo = 0\<rparr>) (Num \<lparr>mant = 4503599627370496, expo = - 53\<rparr>),
      line_p_end64 = Vec2_b64 (Num \<lparr>mant = 1, expo = 0\<rparr>) (Num \<lparr>mant = 0, expo = 0\<rparr>),
      line_a_max64 = Num \<lparr>mant = 1, expo = 0\<rparr>,
      line_distance64 = Num \<lparr>mant = 5035177455121576, expo = - 52\<rparr>,
      line_direction64 = Vec2_b64 (Num \<lparr>mant = 8056283928194521, expo = - 53\<rparr>) (Num \<lparr>mant = - 8056283928194521, expo = - 54\<rparr>),
      line_t_max64 = Num \<lparr>mant = 4761976828023195, expo = - 51\<rparr>\<rparr>"

definition sampleFinal64 :: FlightPath_b64 where
  "sampleFinal64 =
     delegating_b64 (b64_sub (getMaxTime64 (Line_b64_path sampleLine64)) b64_zero) (Line_b64_path sampleLine64)"

section \<open>Basic facts\<close>

lemma bind_err_Inr [simp]: "bind_err (Inr v) f = f v"
  by (simp add: bind_err_def)

lemma bind_err_Inl [simp]: "bind_err (Inl e) f = Inl e"
  by (simp add: bind_err_def)

lemma Vec2_length_nonneg: "0 \<le> Vec2_length a"
  by (simp add: Vec2_length_def)

lemma Vec2_length_eq_0_iff: "Vec2_length a = 0 \<longleftrightarrow> a = Vec2 0 0"
proof (cases a)
  case (Vec2 x y)
  have "x * x + y * y = 0 \<longleftrightarrow> x = 0 \<and> y = 0"
    by (metis add.right_neutral add_nonneg_eq_0_iff mult_eq_0_iff zero_le_square)
  then show ?thesis using Vec2 by (simp add: Vec2_length_def)
qed

lemma Vec2_sub_length_0_iff: "Vec2_length (Vec2_sub b a) = 0 \<longleftrightarrow> a = b"
  by (cases a; cases b) (auto simp: Vec2_length_eq_0_iff Vec2_sub_def)

lemma Vec2_length_mul: "Vec2_length (Vec2_mul a s) = \<bar>s\<bar> * Vec2_length a"
proof -
  have "vx a * s * (vx a * s) + vy a * s * (vy a * s) = s\<^sup>2 * (vx a * vx a + vy a * vy a)"
    by (simp add: power2_eq_square algebra_simps)
  then show ?thesis
    by (simp add: Vec2_length_def Vec2_mul_def real_sqrt_mult)
qed

lemma Vec2_length_unit:
  assumes "Vec2_length a \<noteq> 0"
  shows "Vec2_length (Vec2 (vx a / Vec2_length a) (vy a / Vec2_length a)) = 1"
proof -
  let ?l = "Vec2_length a"
  have pos: "0 < ?l" using assms Vec2_length_nonneg [of a] by simp
  have sq: "?l * ?l = vx a * vx a + vy a * vy a"
    unfolding Vec2_length_def
    by (metis add_nonneg_nonneg real_sqrt_mult_self abs_of_nonneg zero_le_square)
  have "vx a / ?l * (vx a / ?l) + vy a / ?l * (vy a / ?l) = (vx a * vx a + vy a * vy a) / (?l * ?l)"
    by (simp add: add_divide_distrib)
  also have "\<dots> = 1" unfolding sq [symmetric] using pos by simp
  finally show ?thesis by (simp add: Vec2_length_def)
qed

lemma Vec2_normOrZero_total: "\<exists>nrm. Vec2_normOrZero v = Inr nrm"
  by (simp add: Vec2_normOrZero_def Vec2_div_def Let_def)

lemma Vec2_add_zero [simp]: "Vec2_add p Vec2_zero = p"
  by (cases p) (simp add: Vec2_add_def Vec2_zero_def)

lemma Vec2_sub_zero [simp]: "Vec2_sub p Vec2_zero = p"
  by (cases p) (simp add: Vec2_sub_def Vec2_zero_def)

lemma Vec2_mul_zero [simp]: "Vec2_mul n 0 = Vec2_zero"
  by (simp add: Vec2_mul_def Vec2_zero_def)

lemma BreakFlightPath_new_Inr:
  assumes "0 < a_max"
  shows "\<exists>b. BreakFlightPath_new p_start a_max v = Inr b
           \<and> time_to_break b = Vec2_length v / a_max
           \<and> break_a_max b = a_max
           \<and> dist_to_break b = 0.5 * a_max * (Vec2_length v / a_max) * (Vec2_length v / a_max)
           \<and> break_p_end b = Vec2_add p_start (Vec2_mul (break_norm b) (dist_to_break b))"
proof -
  obtain nrm where "Vec2_normOrZero v = Inr nrm"
    using Vec2_normOrZero_total by blast
  then show ?thesis using assms by (simp add: BreakFlightPath_new_def Let_def)
qed

lemma Break_end_state:
  assumes "0 \<le> time_to_break b"
  shows "Break_rocketPosition b (time_to_break b) = Inr (break_p_end b)"
    and "Break_rocketVelocity b (time_to_break b) = Inr Vec2_zero"
  using assms by (simp_all add: Break_rocketPosition_def Break_rocketVelocity_def)

section \<open>The line path\<close>

text \<open>
  In exact arithmetic, the numbers taken to be the reals, a \<open>LineFlightPath\<close> between two
  different points with \<open>a_max > 0\<close> has \<open>t_max = 2 * sqrt (distance / a_max)\<close>, is at
  \<open>start\<close> at time 0 and at \<open>end\<close> at \<open>t_max\<close>, is at rest at both times, and at
  \<open>t_max / 2\<close> its speed is \<open>a_max * (t_max / 2)\<close>. The numbers of the code round; what
  holds of them is in the section on the line path over binary64 numbers.
\<close>

lemma LineFlightPath_endpoints_real:
  assumes "p_start \<noteq> p_end" and "0 < a_max"
  shows "\<exists>l v. LineFlightPath_new p_start p_end a_max = Inr l
           \<and> t_max (Line_path l) = 2 * sqrt (Vec2_length (Vec2_sub p_end p_start) / a_max)
           \<and> rocketPosition (Line_path l) 0 = Inr p_start
           \<and> rocketPosition (Line_path l) (t_max (Line_path l)) = Inr p_end
           \<and> rocketVelocity (Line_path l) 0 = Inr Vec2_zero
           \<and> rocketVelocity (Line_path l) (t_max (Line_path l)) = Inr Vec2_zero
           \<and> rocketVelocity (Line_path l) (t_max (Line_path l) / 2) = Inr v
           \<and> Vec2_length v = a_max * (t_max (Line_path l) / 2)"
proof -
  let ?dd = "Vec2_sub p_end p_start"
  let ?d = "Vec2_length ?dd"
  let ?T = "2 * sqrt (?d / a_max)"
  let ?dir = "Vec2 (vx ?dd / ?d) (vy ?dd / ?d)"
  let ?l = "\<lparr>line_p_start = p_start, line_p_end = p_end, line_a_max = a_max,
             line_distance = ?d, line_direction = ?dir, line_t_max = ?T\<rparr>"
  have d0: "?d \<noteq> 0" using assms(1) by (simp add: Vec2_sub_length_0_iff)
  have dpos: "0 < ?d" using d0 Vec2_length_nonneg [of ?dd] by simp
  have Tpos: "0 < ?T" using dpos assms(2) by simp
  have new: "LineFlightPath_new p_start p_end a_max = Inr ?l"
    using d0 assms(2) by (simp add: LineFlightPath_new_def Let_def Vec2_div_def)
  have unit: "Vec2_length ?dir = 1" using Vec2_length_unit [OF d0] .
  have p0: "rocketPosition (Line_path ?l) 0 = Inr p_start"
    using d0 Tpos by (cases p_start) (simp add: Line_path_def Line_rocketPosition_def Vec2_add_def Vec2_mul_def)
  have pT: "rocketPosition (Line_path ?l) ?T = Inr p_end"
    using d0 Tpos by (cases p_end) (simp add: Line_path_def Line_rocketPosition_def Vec2_add_def Vec2_mul_def)
  have v0: "rocketVelocity (Line_path ?l) 0 = Inr Vec2_zero"
    using d0 Tpos by (simp add: Line_path_def Line_rocketVelocity_def Vec2_zero_def Vec2_mul_def)
  have vT: "rocketVelocity (Line_path ?l) ?T = Inr Vec2_zero"
    using d0 Tpos by (simp add: Line_path_def Line_rocketVelocity_def Vec2_zero_def Vec2_mul_def)
  have vm: "rocketVelocity (Line_path ?l) (?T / 2) = Inr (Vec2_mul ?dir (a_max * (?T / 2)))"
    using d0 Tpos by (simp add: Line_path_def Line_rocketVelocity_def)
  have len: "Vec2_length (Vec2_mul ?dir (a_max * (?T / 2))) = a_max * (?T / 2)"
    using unit Tpos assms(2) by (simp add: Vec2_length_mul abs_mult)
  have tm: "t_max (Line_path ?l) = ?T" by (simp add: Line_path_def)
  show ?thesis
    using new p0 pT v0 vT vm len tm by (intro exI [of _ ?l] exI [of _ "Vec2_mul ?dir (a_max * (?T / 2))"]) simp
qed

section \<open>The braking path\<close>



section \<open>Composition\<close>



section \<open>The alignment solve\<close>


section \<open>The sampling cache\<close>

lemma sequence_err_map_Inr:
  "(\<And>x. x \<in> set xs \<Longrightarrow> f x = Inr (g x)) \<Longrightarrow> sequence_err (map f xs) = Inr (map g xs)"
  by (induction xs) simp_all

lemma Array_from_Inr:
  assumes "\<And>i. i < n \<Longrightarrow> f i = Inr (g i)"
  shows "Array_from n f = Inr (map g [0..<n])"
  unfolding Array_from_def using assms by (intro sequence_err_map_Inr) simp

lemma samplePoint_t_max_0:
  assumes "t_max p = 0" and "rocketPosition p 0 = Inr pos" and "rocketVelocity p 0 = Inr vel"
  shows "samplePoint p i = Inr \<lparr>position = pos, velocity = vel, time = 0\<rparr>"
  using assms by (simp add: samplePoint_def)

lemma getCachedPoints_t_max_0:
  assumes "t_max p = 0" and "cachedPoints p = None"
    and "rocketPosition p 0 = Inr pos" and "rocketVelocity p 0 = Inr vel"
  shows "getCachedPoints p =
           Inr (replicate (cacheResolution + 1) \<lparr>position = pos, velocity = vel, time = 0\<rparr>,
                p\<lparr>cachedPoints := Some (replicate (cacheResolution + 1) \<lparr>position = pos, velocity = vel, time = 0\<rparr>)\<rparr>)"
proof -
  let ?s = "\<lparr>position = pos, velocity = vel, time = 0\<rparr>"
  have "Array_from (cacheResolution + 1) (samplePoint p) = Inr (map (\<lambda>i. ?s) [0..<cacheResolution + 1])"
    by (rule Array_from_Inr) (rule samplePoint_t_max_0 [OF assms(1,3,4)])
  then have "Array_from (cacheResolution + 1) (samplePoint p) = Inr (replicate (cacheResolution + 1) ?s)"
    by (simp add: map_replicate_const)
  then show ?thesis using assms(2) by (simp add: getCachedPoints_def)
qed

lemma restingLine_new: "LineFlightPath_new (Vec2 0 0) (Vec2 0 0) 1 = Inr restingLine"
  by (simp add: LineFlightPath_new_def restingLine_def Vec2_sub_def Vec2_length_def Let_def)

lemma restingLine_cache:
  "getCachedPoints (Line_path restingLine) =
     Inr (replicate 51 restingState,
          Line_path restingLine\<lparr>cachedPoints := Some (replicate 51 restingState)\<rparr>)"
proof -
  have "getCachedPoints (Line_path restingLine) =
     Inr (replicate (cacheResolution + 1) restingState,
          Line_path restingLine\<lparr>cachedPoints := Some (replicate (cacheResolution + 1) restingState)\<rparr>)"
    unfolding restingState_def
    by (rule getCachedPoints_t_max_0)
       (simp_all add: Line_path_def restingLine_def Line_rocketPosition_def Line_rocketVelocity_def)
  then show ?thesis by (simp add: cacheResolution_def)
qed

lemma sequence_err_all_Inr:
  "(\<And>r. r \<in> set rs \<Longrightarrow> \<exists>v. r = Inr v) \<Longrightarrow> \<exists>vs. sequence_err rs = Inr vs \<and> length vs = length rs"
proof (induction rs)
  case Nil
  then show ?case by simp
next
  case (Cons r rs)
  then obtain v where v: "r = Inr v" by auto
  from Cons obtain vs where "sequence_err rs = Inr vs" "length vs = length rs" by auto
  with v show ?case by simp
qed

lemma getCachedPoints_succeeds:
  assumes "0 \<le> t_max p" and "cachedPoints p = None"
    and pos: "\<And>s. 0 \<le> s \<Longrightarrow> \<exists>v. rocketPosition p s = Inr v"
    and vel: "\<And>s. 0 \<le> s \<Longrightarrow> \<exists>v. rocketVelocity p s = Inr v"
  shows "\<exists>pts. getCachedPoints p = Inr (pts, p\<lparr>cachedPoints := Some pts\<rparr>) \<and> length pts = cacheResolution + 1"
proof -
  have "\<exists>v. samplePoint p i = Inr v" for i
  proof -
    have t: "0 \<le> t_max p / real cacheResolution * real i" using assms(1) by simp
    from pos [OF t] vel [OF t] show ?thesis by (auto simp: samplePoint_def)
  qed
  then have "\<exists>vs. sequence_err (map (samplePoint p) [0..<cacheResolution + 1]) = Inr vs
      \<and> length vs = length (map (samplePoint p) [0..<cacheResolution + 1])"
    by (intro sequence_err_all_Inr) auto
  then show ?thesis using assms(2) by (auto simp: getCachedPoints_def Array_from_def)
qed

text \<open>
  Claim C2 says that a path with \<open>t_max = 0\<close> gets a cache of exactly one triple. The
  cache always has \<open>_cacheResolution + 1 = 51\<close> entries; for the resting line they are 51
  copies of the same state.
\<close>

theorem getCachedPoints_single_point_counterexample:
  "LineFlightPath_new (Vec2 0 0) (Vec2 0 0) 1 = Inr restingLine
   \<and> getMaxTime (Line_path restingLine) = 0
   \<and> getCachedPoints (Line_path restingLine) =
       Inr (replicate 51 restingState,
            Line_path restingLine\<lparr>cachedPoints := Some (replicate 51 restingState)\<rparr>)
   \<and> length (replicate 51 restingState) \<noteq> 1"
  using restingLine_new restingLine_cache
  by (simp add: getMaxTime_def Line_path_def restingLine_def)

text \<open>
  Claim C2, amended. For a path with \<open>t_max = 0\<close>, an empty cache, and a position and a
  velocity at time 0, \<open>getCachedPoints\<close> returns 51 triples, every one of them the state
  at time 0, and stores them in the cache.
\<close>

theorem getCachedPoints_degenerate:
  assumes "t_max p = 0" and "cachedPoints p = None"
    and "rocketPosition p 0 = Inr pos" and "rocketVelocity p 0 = Inr vel"
  shows "\<exists>pts p'. getCachedPoints p = Inr (pts, p')
           \<and> pts = replicate 51 \<lparr>position = pos, velocity = vel, time = 0\<rparr>
           \<and> length pts = 51
           \<and> cachedPoints p' = Some pts"
  using getCachedPoints_t_max_0 [OF assms] by (simp add: cacheResolution_def)

theorem getCachedPoints_degenerate_witness:
  "t_max (Line_path restingLine) = 0 \<and> cachedPoints (Line_path restingLine) = None
   \<and> rocketPosition (Line_path restingLine) 0 = Inr (Vec2 0 0)
   \<and> rocketVelocity (Line_path restingLine) 0 = Inr Vec2_zero
   \<and> (\<exists>pts p'. getCachedPoints (Line_path restingLine) = Inr (pts, p')
           \<and> pts = replicate 51 \<lparr>position = Vec2 0 0, velocity = Vec2_zero, time = 0\<rparr>
           \<and> length pts = 51
           \<and> cachedPoints p' = Some pts)"
proof -
  have h: "t_max (Line_path restingLine) = 0" "cachedPoints (Line_path restingLine) = None"
    "rocketPosition (Line_path restingLine) 0 = Inr (Vec2 0 0)"
    "rocketVelocity (Line_path restingLine) 0 = Inr Vec2_zero"
    by (simp_all add: Line_path_def restingLine_def Line_rocketPosition_def Line_rocketVelocity_def)
  show ?thesis using h getCachedPoints_degenerate [OF h] by blast
qed

section \<open>Interpolated states\<close>

text \<open>
  Past their duration the braking path and the line path hold their last state. The
  axial path of \<open>src/core/DirectedInitialVFlightPath.ts\<close> does not in its feasible
  branch, where it reads the unshifted line path: from \<open>(0, 0)\<close> to \<open>(1, 0)\<close> with
  \<open>a_max = 2\<close> and \<open>initial_v = 2\<close> it is at \<open>(0, 0)\<close> at \<open>t_max = 1\<close> and at \<open>(3/4, 0)\<close>
  at time \<open>3/2\<close>.
\<close>

lemma Break_clamped:
  assumes "0 \<le> time_to_break b" and "time_to_break b \<le> t"
  shows "rocketPosition (Break_path b) t = rocketPosition (Break_path b) (t_max (Break_path b))"
    and "rocketVelocity (Break_path b) t = rocketVelocity (Break_path b) (t_max (Break_path b))"
  using assms by (simp_all add: Break_path_def Break_rocketPosition_def Break_rocketVelocity_def)

lemma Line_clamped:
  assumes "line_distance l = 0 \<and> line_t_max l = 0 \<or> 0 < line_t_max l" and "line_t_max l \<le> t"
  shows "rocketPosition (Line_path l) t = rocketPosition (Line_path l) (t_max (Line_path l))"
    and "rocketVelocity (Line_path l) t = rocketVelocity (Line_path l) (t_max (Line_path l))"
  using assms by (auto simp: Line_path_def Line_rocketPosition_def Line_rocketVelocity_def)

lemma DirectedInitialVFlightPath_not_clamped:
  "\<exists>p. DirectedInitialVFlightPath_new (Vec2 0 0) (Vec2 1 0) 2 2 = Inr p
     \<and> t_max p = 1
     \<and> rocketPosition p (t_max p) = Inr (Vec2 0 0)
     \<and> rocketPosition p (3 / 2) = Inr (Vec2 (3 / 4) 0)"
proof -
  let ?b = "\<lparr>time_to_break = 1, dist_to_break = 1, break_norm = Vec2 1 0,
             break_p_end = Vec2 1 0, break_a_max = (2::real)\<rparr>"
  let ?l = "\<lparr>line_p_start = Vec2 (- 1) 0, line_p_end = Vec2 1 0, line_a_max = 2,
             line_distance = 2, line_direction = Vec2 1 0, line_t_max = 2\<rparr>"
  let ?p = "delegating (getMaxTime (Line_path ?l) - 1) (Line_path ?l)"
  have b: "BreakFlightPath_new (Vec2 0 0) 2 (Vec2 2 0) = Inr ?b"
    by (simp add: BreakFlightPath_new_def Let_def Vec2_length_def Vec2_normOrZero_def
          Vec2_div_def Vec2_add_def Vec2_mul_def)
  have l: "LineFlightPath_new (Vec2 (- 1) 0) (Vec2 1 0) 2 = Inr ?l"
    by (simp add: LineFlightPath_new_def Let_def Vec2_length_def Vec2_sub_def Vec2_div_def)
  have p: "DirectedInitialVFlightPath_new (Vec2 0 0) (Vec2 1 0) 2 2 = Inr ?p"
    using b l
    by (simp add: DirectedInitialVFlightPath_new_def Let_def Vec2_length_def Vec2_sub_def
          Vec2_div_def Vec2_mul_def getDistanceToBreak_def getTimeToBreak_def)
  have "t_max ?p = 1" "rocketPosition ?p 1 = Inr (Vec2 0 0)"
    "rocketPosition ?p (3 / 2) = Inr (Vec2 (3 / 4) 0)"
    by (simp_all add: delegating_def getMaxTime_def Line_path_def Line_rocketPosition_def
          Vec2_add_def Vec2_mul_def)
  with p show ?thesis by (intro exI [of _ ?p]) simp
qed

text \<open>
  On a path that lasts (\<open>t_max > 0\<close>), with an empty cache and with positions and
  velocities at every time from 0 on, \<open>getStateAtTime\<close> returns a state exactly for the
  times in \<open>[0, t_max]\<close>. On a path with \<open>t_max = 0\<close> it never returns one.
\<close>

lemma getStateAtTime_succeeds:
  assumes "0 < t_max p" and "cachedPoints p = None"
    and pos: "\<And>s. 0 \<le> s \<Longrightarrow> \<exists>v. rocketPosition p s = Inr v"
    and vel: "\<And>s. 0 \<le> s \<Longrightarrow> \<exists>v. rocketVelocity p s = Inr v"
  shows "(\<exists>r. getStateAtTime p t = Inr r) \<longleftrightarrow> 0 \<le> t \<and> t \<le> t_max p"
proof (cases "0 \<le> t \<and> t \<le> t_max p")
  case False
  then show ?thesis by (auto simp: getStateAtTime_def)
next
  case True
  obtain pts where pts: "getCachedPoints p = Inr (pts, p\<lparr>cachedPoints := Some pts\<rparr>)"
    and len: "length pts = cacheResolution + 1"
    using getCachedPoints_succeeds [OF _ assms(2) pos vel] assms(1) by force
  let ?step = "t_max p / real cacheResolution"
  have step: "0 < ?step" using assms(1) by (simp add: cacheResolution_def)
  have idx: "0 \<le> \<lfloor>t / ?step\<rfloor>" using True step by simp
  have "\<exists>r. getStateAtTime p t = Inr r"
    using True pts len step idx
    by (simp add: getStateAtTime_def Let_def array_get_def cacheResolution_def)
  with True show ?thesis by simp
qed

lemma getStateAtTime_t_max_0:
  assumes "t_max p = 0"
  shows "\<exists>e. getStateAtTime p t = Inl e"
proof (cases "getCachedPoints p")
  case (Inl e)
  then show ?thesis by (simp add: getStateAtTime_def)
next
  case (Inr r)
  then show ?thesis using assms by (cases r) (simp add: getStateAtTime_def)
qed

text \<open>
  Claim C3 says that \<open>getStateAtTime(t)\<close> succeeds for every \<open>t\<close> in \<open>[0, t_max]\<close>. On the
  resting line, \<open>t = 0\<close> is in \<open>[0, t_max]\<close> and the call fails: the time step is 0, the
  index is \<open>NaN\<close> and the state read at it is \<open>undefined\<close>.
\<close>

theorem getStateAtTime_degenerate_fails:
  "LineFlightPath_new (Vec2 0 0) (Vec2 0 0) 1 = Inr restingLine
   \<and> t_max (Line_path restingLine) = 0
   \<and> getStateAtTime (Line_path restingLine) 0 = Inl UndefinedRead"
  using restingLine_new restingLine_cache
  by (simp add: getStateAtTime_def Line_path_def restingLine_def)

section \<open>The general path between equal points\<close>

text \<open>
  Claim C8. An \<open>InitialVFlightPath\<close> built with \<open>start = end\<close>, \<open>a_max > 0\<close> and any
  initial velocity ends at rest at the start: at \<open>t_max\<close> (the braking time
  \<open>|v0| / a_max\<close>) the position is \<open>start\<close> and the velocity is zero, and at every time
  from \<open>t_max\<close> on the position is \<open>start\<close>.
\<close>

theorem InitialVFlightPath_zero_distance:
  assumes "0 < a_max"
  shows "\<exists>p. InitialVFlightPath_new p_start p_start a_max v0 = Inr p
           \<and> t_max p = Vec2_length v0 / a_max
           \<and> rocketPosition p (t_max p) = Inr p_start
           \<and> rocketVelocity p (t_max p) = Inr Vec2_zero
           \<and> (t_max p \<le> t \<longrightarrow> rocketPosition p t = Inr p_start)"
proof -
  obtain b where b: "BreakFlightPath_new p_start a_max v0 = Inr b"
    and ttb: "time_to_break b = Vec2_length v0 / a_max"
    using BreakFlightPath_new_Inr [OF assms] by blast
  have nonneg: "0 \<le> time_to_break b"
    using ttb assms Vec2_length_nonneg [of v0] by simp
  let ?impl = "CompositePath (getMaxTime (Break_path b))
                  (\<lambda>t. if t < 0 then Inl NegativeTime
                       else bind_err (Break_rocketPosition b t) (\<lambda>pos.
                            Inr (if t \<ge> getMaxTime (Break_path b) then p_start else pos)))
                  (\<lambda>t. Break_rocketVelocity b t)"
  let ?p = "delegating (getMaxTime (Break_path b)) ?impl"
  have dd: "Vec2_length (Vec2_sub p_start p_start) = 0"
    by (simp add: Vec2_sub_length_0_iff)
  have new: "InitialVFlightPath_new p_start p_start a_max v0 = Inr ?p"
    using assms b dd by (simp add: InitialVFlightPath_new_def Let_def)
  have tm: "t_max ?p = time_to_break b"
    by (simp add: delegating_def getMaxTime_def Break_path_def)
  have pos: "rocketPosition ?p s = Inr p_start" if "time_to_break b \<le> s" for s
    using that nonneg
    by (simp add: delegating_def CompositePath_def getMaxTime_def Break_path_def Break_rocketPosition_def)
  have vel: "rocketVelocity ?p (time_to_break b) = Inr Vec2_zero"
    using Break_end_state(2) [OF nonneg] by (simp add: delegating_def CompositePath_def)
  show ?thesis
    using new tm ttb pos vel by (intro exI [of _ ?p]) simp
qed

theorem InitialVFlightPath_zero_distance_witness:
  "(0::real) < 2 \<and>
   (\<exists>p. InitialVFlightPath_new (Vec2 0 0) (Vec2 0 0) 2 (Vec2 1 0) = Inr p
        \<and> t_max p = 1 / 2
        \<and> rocketPosition p (t_max p) = Inr (Vec2 0 0)
        \<and> rocketVelocity p (t_max p) = Inr Vec2_zero
        \<and> t_max p \<le> 1
        \<and> rocketPosition p 1 = Inr (Vec2 0 0))"
proof -
  obtain p where p: "InitialVFlightPath_new (Vec2 0 0) (Vec2 0 0) 2 (Vec2 1 0) = Inr p"
     "t_max p = Vec2_length (Vec2 1 0) / 2"
     "rocketPosition p (t_max p) = Inr (Vec2 0 0)"
     "rocketVelocity p (t_max p) = Inr Vec2_zero"
     "t_max p \<le> 1 \<longrightarrow> rocketPosition p 1 = Inr (Vec2 0 0)"
    using InitialVFlightPath_zero_distance [of 2 "Vec2 0 0" "Vec2 1 0" 1] by auto
  have tm: "t_max p = 1 / 2" using p(2) by (simp add: Vec2_length_def)
  then have le: "t_max p \<le> 1" by simp
  with p(5) have last: "rocketPosition p 1 = Inr (Vec2 0 0)" by blast
  have "(0::real) < 2" by simp
  with p(1,3,4) tm le last show ?thesis by blast
qed

section \<open>The fallback of the general path\<close>

lemma LineFlightPath_new_distinct:
  assumes "p_start \<noteq> p_end" and "0 < a_max"
  shows "\<exists>l. LineFlightPath_new p_start p_end a_max = Inr l
           \<and> line_p_start l = p_start \<and> line_p_end l = p_end \<and> line_a_max l = a_max
           \<and> line_distance l = Vec2_length (Vec2_sub p_end p_start)
           \<and> Vec2_div (Vec2_sub p_end p_start) (Vec2_length (Vec2_sub p_end p_start)) = Inr (line_direction l)
           \<and> line_t_max l = 2 * sqrt (Vec2_length (Vec2_sub p_end p_start) / a_max)
           \<and> line_distance l \<noteq> 0 \<and> 0 < line_t_max l"
proof -
  let ?dd = "Vec2_sub p_end p_start"
  have d0: "Vec2_length ?dd \<noteq> 0" using assms(1) by (simp add: Vec2_sub_length_0_iff)
  then have "0 < Vec2_length ?dd" using Vec2_length_nonneg [of ?dd] by simp
  then have "0 < 2 * sqrt (Vec2_length ?dd / a_max)" using assms(2) by simp
  then show ?thesis
    using d0 assms(2) by (simp add: LineFlightPath_new_def Let_def Vec2_div_def)
qed

lemma Line_end_state:
  assumes "line_distance l \<noteq> 0" and "0 < line_t_max l"
  shows "Line_rocketPosition l (line_t_max l) = Inr (line_p_end l)"
    and "Line_rocketVelocity l (line_t_max l) = Inr Vec2_zero"
  using assms by (simp_all add: Line_rocketPosition_def Line_rocketVelocity_def)

lemma BreakFlightPath_new_rest:
  assumes "0 < a_max"
  shows "BreakFlightPath_new p a_max Vec2_zero =
           Inr \<lparr>time_to_break = 0, dist_to_break = 0, break_norm = Vec2_zero,
                break_p_end = p, break_a_max = a_max\<rparr>"
proof -
  have "Vec2_length Vec2_zero = 0" by (simp add: Vec2_length_def Vec2_zero_def)
  then show ?thesis
    using assms by (simp add: BreakFlightPath_new_def Let_def Vec2_normOrZero_def)
qed

lemma DirectedInitialVFlightPath_new_rest:
  assumes "0 < a_max"
  shows "\<exists>fp. DirectedInitialVFlightPath_new s e a_max 0 = Inr fp
           \<and> 0 \<le> t_max fp \<and> (t_max fp = 0 \<longrightarrow> s = e)
           \<and> rocketPosition fp (t_max fp) = Inr e
           \<and> rocketVelocity fp (t_max fp) = Inr Vec2_zero"
proof (cases "s = e")
  case True
  let ?b = "\<lparr>time_to_break = 0, dist_to_break = 0, break_norm = Vec2_zero,
             break_p_end = s, break_a_max = a_max\<rparr>"
  let ?fp = "delegating (getMaxTime (Break_path ?b)) (Break_path ?b)"
  have dd: "Vec2_length (Vec2_sub e s) = 0" using True by (simp add: Vec2_sub_length_0_iff)
  have "DirectedInitialVFlightPath_new s e a_max 0 = Inr ?fp"
    using assms dd BreakFlightPath_new_rest [OF assms, of s]
    by (simp add: DirectedInitialVFlightPath_new_def Let_def Vec2_zero_def [symmetric])
  moreover have "t_max ?fp = 0"
    by (simp add: delegating_def getMaxTime_def Break_path_def)
  moreover have "rocketPosition ?fp 0 = Inr e" "rocketVelocity ?fp 0 = Inr Vec2_zero"
    using True by (simp_all add: delegating_def Break_path_def Break_rocketPosition_def Break_rocketVelocity_def)
  ultimately show ?thesis using True by (intro exI [of _ ?fp]) simp
next
  case False
  let ?dd = "Vec2_sub e s"
  obtain l where l: "LineFlightPath_new s e a_max = Inr l" "line_p_end l = e"
      "Vec2_div ?dd (Vec2_length ?dd) = Inr (line_direction l)"
      "line_distance l \<noteq> 0" "0 < line_t_max l"
    using LineFlightPath_new_distinct [OF False assms] by blast
  let ?fp = "delegating (getMaxTime (Line_path l) - 0) (Line_path l)"
  have d0: "Vec2_length ?dd \<noteq> 0" using False by (simp add: Vec2_sub_length_0_iff)
  then have dpos: "\<not> 0 > Vec2_length ?dd" using Vec2_length_nonneg [of ?dd] by simp
  have "DirectedInitialVFlightPath_new s e a_max 0 = Inr ?fp"
    using assms d0 dpos l(1,3) BreakFlightPath_new_rest [OF assms, of s]
    by (simp add: DirectedInitialVFlightPath_new_def Let_def
          getDistanceToBreak_def getTimeToBreak_def)
  moreover have "t_max ?fp = line_t_max l"
    by (simp add: delegating_def getMaxTime_def Line_path_def)
  moreover have "rocketPosition ?fp (line_t_max l) = Inr e"
    "rocketVelocity ?fp (line_t_max l) = Inr Vec2_zero"
    using Line_end_state [OF l(4,5)] l(2) by (simp_all add: delegating_def Line_path_def)
  ultimately show ?thesis using l(5) by (intro exI [of _ ?fp]) simp
qed

text \<open>
  In exact arithmetic, the numbers taken to be the reals, take an \<open>InitialVFlightPath\<close>
  with \<open>start \<noteq> end\<close>, \<open>a_max > 0\<close> and an initial velocity whose perpendicular part is
  not zero, for which \<open>calculateAlignmentTime\<close> returns no value. The path ends at the
  target at rest: at \<open>t_max\<close> the position is \<open>p_end\<close> and the velocity is zero. The
  premises name the constructor's local values (\<open>direction\<close>, \<open>v0_parallel_len\<close>,
  \<open>v0_parallel\<close>, \<open>v0_perp\<close>, \<open>v0_perp_direction\<close>, \<open>v0_cancel_path\<close>) as the
  constructor computes them. Over the reals \<open>(t1 + t2) - t1\<close> is \<open>t2\<close>; the numbers of the
  code round, and what holds of them is in the section on the fallback over binary64
  numbers.
\<close>

lemma InitialVFlightPath_fallback_real:
  assumes "p_start \<noteq> p_end" and "0 < a_max"
    and "Vec2_div (Vec2_sub p_end p_start) (Vec2_length (Vec2_sub p_end p_start)) = Inr direction"
    and "v0_parallel_len = Vec2_dot v0 direction"
    and "v0_parallel = Vec2_mul direction v0_parallel_len"
    and "v0_perp = Vec2_sub v0 v0_parallel"
    and "Vec2_length v0_perp \<noteq> 0"
    and "Vec2_div v0_perp (Vec2_length v0_perp) = Inr v0_perp_direction"
    and "BreakFlightPath_new p_start a_max v0_perp = Inr v0_cancel_path"
    and "calculateAlignmentTime p_end
           (calculatePositionAfterCancel v0_cancel_path v0_parallel (getTimeToBreak v0_cancel_path))
           v0_parallel_len direction v0_perp_direction a_max = None"
  shows "\<exists>p. InitialVFlightPath_new p_start p_end a_max v0 = Inr p
           \<and> rocketPosition p (t_max p) = Inr p_end
           \<and> rocketVelocity p (t_max p) = Inr Vec2_zero"
proof -
  obtain fb where fb: "BreakFlightPath_new p_start a_max v0 = Inr fb"
    and ttb: "time_to_break fb = Vec2_length v0 / a_max"
    using BreakFlightPath_new_Inr [OF assms(2)] by blast
  have T1: "0 \<le> time_to_break fb"
    using ttb assms(2) Vec2_length_nonneg [of v0] by simp
  obtain fp where fp: "DirectedInitialVFlightPath_new (getEndPosition fb) p_end a_max 0 = Inr fp"
    and T2: "0 \<le> t_max fp" and T2_0: "t_max fp = 0 \<longrightarrow> getEndPosition fb = p_end"
    and fp_pos: "rocketPosition fp (t_max fp) = Inr p_end"
    and fp_vel: "rocketVelocity fp (t_max fp) = Inr Vec2_zero"
    using DirectedInitialVFlightPath_new_rest [OF assms(2)] by blast
  let ?impl = "combinePath (Break_path fb) fp"
  let ?p = "delegating (getMaxTime ?impl) ?impl"
  have d0: "Vec2_length (Vec2_sub p_end p_start) \<noteq> 0"
    using assms(1) by (simp add: Vec2_sub_length_0_iff)
  have new: "InitialVFlightPath_new p_start p_end a_max v0 = Inr ?p"
    using assms(2,3,7,8,9,10) d0 fb fp
    unfolding assms(4,5,6)
    by (simp add: InitialVFlightPath_new_def Let_def)
  have tm: "t_max ?p = time_to_break fb + t_max fp"
    by (simp add: delegating_def combinePath_def getMaxTime_def Break_path_def)
  have pos: "rocketPosition ?p (time_to_break fb + t_max fp) = Inr p_end"
  proof (cases "t_max fp = 0")
    case True
    with T2_0 have "break_p_end fb = p_end" by (simp add: getEndPosition_def)
    then show ?thesis
      using True T1 Break_end_state(1) [OF T1]
      by (simp add: delegating_def combinePath_def getMaxTime_def Break_path_def)
  next
    case False
    with T2 have "0 < t_max fp" by simp
    then show ?thesis
      using T1 fp_pos
      by (simp add: delegating_def combinePath_def getMaxTime_def Break_path_def)
  qed
  have vel: "rocketVelocity ?p (time_to_break fb + t_max fp) = Inr Vec2_zero"
  proof (cases "t_max fp = 0")
    case True
    then show ?thesis
      using T1 Break_end_state(2) [OF T1]
      by (simp add: delegating_def combinePath_def getMaxTime_def Break_path_def)
  next
    case False
    with T2 have "0 < t_max fp" by simp
    then show ?thesis
      using T1 fp_vel
      by (simp add: delegating_def combinePath_def getMaxTime_def Break_path_def)
  qed
  show ?thesis
    using new tm pos vel by (intro exI [of _ ?p]) simp
qed

section \<open>The axial path with an initial speed\<close>

lemma Vec2_div_direction:
  assumes "Vec2_div dd (Vec2_length dd) = Inr u"
  shows "Vec2_length dd \<noteq> 0" and "Vec2_length u = 1" and "dd = Vec2_mul u (Vec2_length dd)"
proof -
  show d0: "Vec2_length dd \<noteq> 0"
    using assms by (auto simp: Vec2_div_def split: if_splits)
  then have u: "u = Vec2 (vx dd / Vec2_length dd) (vy dd / Vec2_length dd)"
    using assms by (simp add: Vec2_div_def)
  show "Vec2_length u = 1" unfolding u by (rule Vec2_length_unit [OF d0])
  show "dd = Vec2_mul u (Vec2_length dd)"
    using d0 unfolding u by (cases dd) (simp add: Vec2_mul_def)
qed

lemma Vec2_div_mul_cancel: "k \<noteq> 0 \<Longrightarrow> Vec2_div (Vec2_mul u k) k = Inr u"
  by (cases u) (simp add: Vec2_div_def Vec2_mul_def)

lemma Vec2_length_mul_unit: "Vec2_length u = 1 \<Longrightarrow> 0 \<le> k \<Longrightarrow> Vec2_length (Vec2_mul u k) = k"
  by (simp add: Vec2_length_mul)

lemma Vec2_normOrZero_mul_unit:
  assumes "Vec2_length u = 1" and "0 < k"
  shows "Vec2_normOrZero (Vec2_mul u k) = Inr u"
  using assms Vec2_div_mul_cancel [of k u]
  by (simp add: Vec2_normOrZero_def Vec2_length_mul_unit)

text \<open>
  In the JavaScript module the feasible branch shifts the time: with \<open>start \<noteq> end\<close>,
  \<open>a_max > 0\<close> and an initial speed \<open>initial_v \<ge> 0\<close> whose braking distance is at most
  the distance, the path is the line path from the fictive start read at
  \<open>t + time_to_break\<close>, and its velocity at time 0 is \<open>direction * initial_v\<close>.
\<close>

lemma DirectedInitialVFlightPath_js_suffix:
  assumes "p_start \<noteq> p_end" and "0 < a_max" and "0 \<le> initial_v"
    and dir: "Vec2_div (Vec2_sub p_end p_start) (Vec2_length (Vec2_sub p_end p_start)) = Inr direction"
    and brk: "BreakFlightPath_new p_start a_max (Vec2_mul direction initial_v) = Inr break_path"
    and caseB: "dist_to_break break_path \<le> Vec2_length (Vec2_sub p_end p_start)"
    and line: "LineFlightPath_new (Vec2_sub p_start (Vec2_mul direction (dist_to_break break_path))) p_end a_max
                 = Inr actual_path"
  shows "\<exists>p. DirectedInitialVFlightPath_js p_start p_end a_max initial_v = Inr p
           \<and> t_max p = t_max (Line_path actual_path) - time_to_break break_path
           \<and> (\<forall>t. rocketPosition p t = rocketPosition (Line_path actual_path) (t + time_to_break break_path))
           \<and> (\<forall>t. rocketVelocity p t = rocketVelocity (Line_path actual_path) (t + time_to_break break_path))
           \<and> rocketVelocity p 0 = Inr (Vec2_mul direction initial_v)"
proof -
  let ?dd = "Vec2_sub p_end p_start"
  let ?D = "Vec2_length ?dd"
  let ?ttb = "time_to_break break_path"
  let ?dtb = "dist_to_break break_path"
  let ?fictive = "Vec2_sub p_start (Vec2_mul direction ?dtb)"
  let ?p = "\<lparr>t_max = line_t_max actual_path - ?ttb,
             rocketPosition = (\<lambda>t. Line_rocketPosition actual_path (t + ?ttb)),
             rocketVelocity = (\<lambda>t. Line_rocketVelocity actual_path (t + ?ttb)),
             cachedPoints = None\<rparr>"
  note u = Vec2_div_direction [OF dir]
  have Dpos: "0 < ?D" using u(1) Vec2_length_nonneg [of ?dd] by simp
  have new: "DirectedInitialVFlightPath_js p_start p_end a_max initial_v = Inr ?p"
    using assms(2,3) u(1) dir brk caseB line
    by (simp add: DirectedInitialVFlightPath_js_def Let_def)
  have len_v: "Vec2_length (Vec2_mul direction initial_v) = initial_v"
    using Vec2_length_mul_unit [OF u(2) assms(3)] .
  have ttb: "?ttb = initial_v / a_max"
    and dtb: "?dtb = 0.5 * a_max * (initial_v / a_max) * (initial_v / a_max)"
    using BreakFlightPath_new_Inr [OF assms(2), of p_start "Vec2_mul direction initial_v"] brk len_v
    by auto
  have dtb0: "0 \<le> ?dtb" using dtb assms(2) by simp
  have ttb0: "0 \<le> ?ttb" using ttb assms(2,3) by simp
  have dd': "Vec2_sub p_end ?fictive = Vec2_mul direction (?D + ?dtb)"
  proof -
    have "Vec2_sub p_end ?fictive = Vec2_add ?dd (Vec2_mul direction ?dtb)"
      by (simp add: Vec2_sub_def Vec2_add_def Vec2_mul_def)
    also have "\<dots> = Vec2_add (Vec2_mul direction ?D) (Vec2_mul direction ?dtb)"
      using u(3) by simp
    also have "\<dots> = Vec2_mul direction (?D + ?dtb)"
      by (simp add: Vec2_add_def Vec2_mul_def algebra_simps)
    finally show ?thesis .
  qed
  have sum_pos: "0 < ?D + ?dtb" using Dpos dtb0 by simp
  have len': "Vec2_length (Vec2_sub p_end ?fictive) = ?D + ?dtb"
    unfolding dd' using Vec2_length_mul_unit [OF u(2), of "?D + ?dtb"] sum_pos by simp
  have ne: "?fictive \<noteq> p_end"
    using len' sum_pos Vec2_sub_length_0_iff [of p_end ?fictive] by auto
  have l: "line_distance actual_path \<noteq> 0" "line_a_max actual_path = a_max"
    "line_direction actual_path = direction"
    "line_t_max actual_path = 2 * sqrt ((?D + ?dtb) / a_max)"
    using LineFlightPath_new_distinct [OF ne assms(2)] line len' dd'
      Vec2_div_mul_cancel [of "?D + ?dtb" direction] sum_pos
    by auto
  have half: "?ttb \<le> line_t_max actual_path / 2"
  proof -
    have "?ttb\<^sup>2 = 2 * ?dtb / a_max"
      using assms(2) by (simp add: ttb dtb power2_eq_square)
    also have "\<dots> \<le> (?D + ?dtb) / a_max"
      using caseB assms(2) by (simp add: divide_le_cancel)
    finally have "?ttb \<le> sqrt ((?D + ?dtb) / a_max)" by (rule real_le_rsqrt)
    then show ?thesis by (simp add: l(4))
  qed
  have "Line_rocketVelocity actual_path ?ttb = Inr (Vec2_mul direction (a_max * ?ttb))"
    using ttb0 half l(1,2,3) by (simp add: Line_rocketVelocity_def)
  also have "a_max * ?ttb = initial_v" using assms(2) by (simp add: ttb)
  finally have v0: "rocketVelocity ?p 0 = Inr (Vec2_mul direction initial_v)" by simp
  show ?thesis
    using new v0 by (intro exI [of _ ?p]) (simp add: Line_path_def)
qed

text \<open>
  Under the same premises the class of \<open>src/core/DirectedInitialVFlightPath.ts\<close> has
  the same shortened \<open>t_max\<close>, reads the line path at \<open>t\<close> itself, and so starts at rest
  whatever \<open>initial_v\<close> is.
\<close>

lemma DirectedInitialVFlightPath_new_starts_at_rest:
  assumes "0 < a_max" and "0 \<le> initial_v"
    and dir: "Vec2_div (Vec2_sub p_end p_start) (Vec2_length (Vec2_sub p_end p_start)) = Inr direction"
    and brk: "BreakFlightPath_new p_start a_max (Vec2_mul direction initial_v) = Inr break_path"
    and caseB: "dist_to_break break_path \<le> Vec2_length (Vec2_sub p_end p_start)"
    and line: "LineFlightPath_new (Vec2_sub p_start (Vec2_mul direction (dist_to_break break_path))) p_end a_max
                 = Inr actual_path"
  shows "\<exists>p. DirectedInitialVFlightPath_new p_start p_end a_max initial_v = Inr p
           \<and> t_max p = t_max (Line_path actual_path) - time_to_break break_path
           \<and> (\<forall>t. rocketPosition p t = rocketPosition (Line_path actual_path) t)
           \<and> (\<forall>t. rocketVelocity p t = rocketVelocity (Line_path actual_path) t)
           \<and> rocketVelocity p 0 = Inr Vec2_zero"
proof -
  let ?p = "delegating (getMaxTime (Line_path actual_path) - getTimeToBreak break_path) (Line_path actual_path)"
  note u = Vec2_div_direction [OF dir]
  have new: "DirectedInitialVFlightPath_new p_start p_end a_max initial_v = Inr ?p"
    using assms(1,2) u(1) dir brk caseB line
    by (simp add: DirectedInitialVFlightPath_new_def Let_def getDistanceToBreak_def)
  have "0 \<le> line_t_max actual_path"
    using line assms(1)
    by (auto simp: LineFlightPath_new_def Let_def Vec2_div_def Vec2_length_nonneg split: if_splits)
  then have "Line_rocketVelocity actual_path 0 = Inr Vec2_zero"
    by (simp add: Line_rocketVelocity_def)
  then have "rocketVelocity ?p 0 = Inr Vec2_zero"
    by (simp add: delegating_def Line_path_def)
  with new show ?thesis
    by (intro exI [of _ ?p]) (simp add: delegating_def getMaxTime_def getTimeToBreak_def)
qed

text \<open>
  Claim C1 says the same of \<open>DirectedInitialVFlightPath\<close>: in the feasible branch
  \<open>rocketPosition(t)\<close> and \<open>rocketVelocity(t)\<close> are the line path's at
  \<open>t + time_to_break\<close>, and the velocity at time 0 is \<open>initial_v\<close> along the axis. The
  class of \<open>src/core/DirectedInitialVFlightPath.ts\<close> keeps the shortened \<open>t_max\<close> and
  drops the shift. For \<open>start = (0, 0)\<close>, \<open>end = (1, 0)\<close>, \<open>a_max = 2\<close> and
  \<open>initial_v = 2\<close> (braking time 1, braking distance 1, fictive start \<open>(-1, 0)\<close>) the path
  starts at the fictive start at rest, where the line path at \<open>0 + 1\<close> is at \<open>start\<close>
  with velocity \<open>(2, 0)\<close>; at its \<open>t_max = 1\<close> it is at \<open>start\<close>, where the line path at
  \<open>t_max + 1\<close> is at \<open>end\<close>.
\<close>

theorem DirectedInitialVFlightPath_no_time_shift:
  "\<exists>p actual_path.
      DirectedInitialVFlightPath_new (Vec2 0 0) (Vec2 1 0) 2 2 = Inr p
    \<and> LineFlightPath_new (Vec2 (- 1) 0) (Vec2 1 0) 2 = Inr actual_path
    \<and> t_max p = t_max (Line_path actual_path) - 1
    \<and> t_max p = 1
    \<and> rocketPosition p 0 = Inr (Vec2 (- 1) 0)
    \<and> rocketPosition (Line_path actual_path) (0 + 1) = Inr (Vec2 0 0)
    \<and> rocketVelocity p 0 = Inr (Vec2 0 0)
    \<and> rocketVelocity (Line_path actual_path) (0 + 1) = Inr (Vec2 2 0)
    \<and> rocketPosition p (t_max p) = Inr (Vec2 0 0)
    \<and> rocketPosition (Line_path actual_path) (t_max p + 1) = Inr (Vec2 1 0)"
proof -
  let ?b = "\<lparr>time_to_break = 1, dist_to_break = 1, break_norm = Vec2 1 0,
             break_p_end = Vec2 1 0, break_a_max = (2::real)\<rparr>"
  let ?l = "\<lparr>line_p_start = Vec2 (- 1) 0, line_p_end = Vec2 1 0, line_a_max = 2,
             line_distance = 2, line_direction = Vec2 1 0, line_t_max = 2\<rparr>"
  let ?p = "delegating (getMaxTime (Line_path ?l) - 1) (Line_path ?l)"
  have b: "BreakFlightPath_new (Vec2 0 0) 2 (Vec2 2 0) = Inr ?b"
    by (simp add: BreakFlightPath_new_def Let_def Vec2_length_def Vec2_normOrZero_def
          Vec2_div_def Vec2_add_def Vec2_mul_def)
  have l: "LineFlightPath_new (Vec2 (- 1) 0) (Vec2 1 0) 2 = Inr ?l"
    by (simp add: LineFlightPath_new_def Let_def Vec2_length_def Vec2_sub_def Vec2_div_def)
  have p: "DirectedInitialVFlightPath_new (Vec2 0 0) (Vec2 1 0) 2 2 = Inr ?p"
    using b l
    by (simp add: DirectedInitialVFlightPath_new_def Let_def Vec2_length_def Vec2_sub_def
          Vec2_div_def Vec2_mul_def getDistanceToBreak_def getTimeToBreak_def)
  have tm: "t_max ?p = 1" "t_max (Line_path ?l) = 2"
    by (simp_all add: delegating_def getMaxTime_def Line_path_def)
  have vals: "rocketPosition ?p 0 = Inr (Vec2 (- 1) 0)"
    "rocketPosition (Line_path ?l) (0 + 1) = Inr (Vec2 0 0)"
    "rocketVelocity ?p 0 = Inr (Vec2 0 0)"
    "rocketVelocity (Line_path ?l) (0 + 1) = Inr (Vec2 2 0)"
    "rocketPosition ?p 1 = Inr (Vec2 0 0)"
    "rocketPosition (Line_path ?l) (1 + 1) = Inr (Vec2 1 0)"
    by (simp_all add: delegating_def Line_path_def Line_rocketPosition_def Line_rocketVelocity_def
          Vec2_add_def Vec2_mul_def Vec2_zero_def)
  show ?thesis
    using p l tm vals by (intro exI [of _ ?p] exI [of _ ?l]) simp
qed

section \<open>Adding and subtracting vectors of numbers\<close>

lemma pw_nat: "(2::real) powr real_of_int (int n) = 2 ^ n"
  by (simp add: powr_realpow)

lemma pw_add: "(2::real) powr real_of_int (a + b) = 2 powr real_of_int a * 2 powr real_of_int b"
  by (simp add: powr_add)

lemma pw_nat_diff: "0 \<le> z \<Longrightarrow> (2::real) ^ nat z = 2 powr real_of_int z"
  using pw_nat [of "nat z"] by simp

lemma f64_value_powr: "f64_value d = of_int (mant d) * 2 powr real_of_int (expo d)"
proof (cases "0 \<le> expo d")
  case True
  then show ?thesis by (simp add: f64_value_def pw_nat_diff)
next
  case False
  then have "(2::real) ^ nat (- expo d) = 2 powr real_of_int (- expo d)"
    by (intro pw_nat_diff) simp
  then show ?thesis using False by (simp add: f64_value_def powr_minus field_simps)
qed

lemma f64_aligned:
  assumes "e \<le> expo a"
  shows "real_of_int (mant a * 2 ^ nat (expo a - e)) * 2 powr real_of_int e = f64_value a"
proof -
  have "(2::real) ^ nat (expo a - e) * 2 powr real_of_int e = 2 powr real_of_int (expo a)"
    using assms pw_nat_diff [of "expo a - e"] pw_add [of "expo a - e" e] by simp
  then show ?thesis by (simp add: f64_value_powr mult.assoc)
qed

lemma is_f64_iff:
  "is_f64 d \<longleftrightarrow> \<bar>mant d\<bar> \<le> 2 ^ 53 \<and> - 1074 \<le> expo d \<and> \<bar>f64_value d\<bar> < 2 ^ 1024"
proof -
  have "\<bar>f64_value d\<bar> = real_of_int (\<bar>mant d\<bar> * 2 ^ nat (expo d)) / 2 ^ nat (- expo d)"
    by (simp add: f64_value_def abs_mult)
  also have "\<dots> < 2 ^ 1024 \<longleftrightarrow> real_of_int (\<bar>mant d\<bar> * 2 ^ nat (expo d)) < real_of_int (2 ^ 1024 * 2 ^ nat (- expo d))"
    by (simp add: pos_divide_less_eq)
  also have "\<dots> \<longleftrightarrow> \<bar>mant d\<bar> * 2 ^ nat (expo d) < 2 ^ 1024 * 2 ^ nat (- expo d)"
    by (rule of_int_less_iff)
  finally show ?thesis by (simp add: is_f64_def)
qed

lemma f64_eq_iff: "f64_eq a b \<longleftrightarrow> f64_value a = f64_value b"
proof -
  let ?e = "min (expo a) (expo b)"
  let ?A = "mant a * 2 ^ nat (expo a - ?e)"
  let ?B = "mant b * 2 ^ nat (expo b - ?e)"
  have a: "real_of_int ?A * 2 powr real_of_int ?e = f64_value a"
    and b: "real_of_int ?B * 2 powr real_of_int ?e = f64_value b"
    by (rule f64_aligned, simp)+
  have "?A = ?B \<longleftrightarrow> real_of_int ?A = real_of_int ?B"
    by (rule of_int_eq_iff [symmetric])
  also have "\<dots> \<longleftrightarrow> real_of_int ?A * 2 powr real_of_int ?e = real_of_int ?B * 2 powr real_of_int ?e"
    by (simp only: mult_cancel_right) simp
  finally show ?thesis unfolding a b by (simp add: f64_eq_def Let_def)
qed

lemma f64_round_Finite: "f64_round M e = Finite d \<Longrightarrow> is_f64 d"
  by (auto simp: f64_round_def Let_def split: if_splits)

lemma round_to_even_dvd: "2 ^ k dvd M \<Longrightarrow> round_to_even M k = M div 2 ^ k"
  by (simp add: round_to_even_def Let_def mod_eq_0_iff_dvd)

text \<open>The rounded mantissa is within half a unit of \<open>M / 2 ^ k\<close>.\<close>

lemma round_to_even_nearest: "2 * \<bar>M - round_to_even M k * 2 ^ k\<bar> \<le> 2 ^ k"
proof -
  define q r where "q = M div 2 ^ k" and "r = M mod 2 ^ k"
  have M: "M = q * 2 ^ k + r" unfolding q_def r_def by (rule div_mult_mod_eq [symmetric])
  have r: "0 \<le> r" "r < 2 ^ k" by (simp_all add: r_def)
  have "round_to_even M k = q \<and> 2 * r \<le> 2 ^ k \<or> round_to_even M k = q + 1 \<and> 2 ^ k \<le> 2 * r"
    by (auto simp: round_to_even_def Let_def q_def [symmetric] r_def [symmetric])
  then show ?thesis
  proof (elim disjE conjE)
    assume "round_to_even M k = q" "2 * r \<le> 2 ^ k"
    then show ?thesis using r by (simp add: M)
  next
    assume *: "round_to_even M k = q + 1" "2 ^ k \<le> 2 * r"
    have "M - (q + 1) * 2 ^ k = r - 2 ^ k" by (simp add: M algebra_simps)
    then show ?thesis using r * by simp
  qed
qed

lemma round_to_even_0 [simp]: "round_to_even M 0 = M"
  by (simp add: round_to_even_def)

lemma f64_round_small:
  assumes "\<bar>M\<bar> < 2 ^ 53"
  shows "f64_round M e = (if is_f64 \<lparr>mant = M, expo = e\<rparr> then Finite \<lparr>mant = M, expo = e\<rparr> else Infinite)"
proof -
  have "bitlen \<bar>M\<bar> \<le> 53" using assms by (simp add: bitlen_le_iff_power)
  then have "nat (bitlen \<bar>M\<bar> - 53) = 0" by simp
  then show ?thesis by (simp add: f64_round_def)
qed

lemma f64_round_zero: "- 1074 \<le> e \<Longrightarrow> f64_round 0 e = Finite \<lparr>mant = 0, expo = e\<rparr>"
  by (simp add: f64_round_def is_f64_def)

lemma bitlen_eqI:
  assumes "2 ^ n \<le> x" and "x < 2 ^ Suc n"
  shows "bitlen x = int (Suc n)"
proof -
  have le: "bitlen x \<le> int (Suc n)"
    unfolding bitlen_le_iff_power nat_int using assms(2) by simp
  have "\<not> bitlen x \<le> int n"
    unfolding bitlen_le_iff_power nat_int using assms(1) by simp
  with le show ?thesis by linarith
qed

lemma bitlen_example: "bitlen 9007199254740993 = int (Suc 53)"
    by (rule bitlen_eqI) simp_all

lemma is_f64_example: "is_f64 \<lparr>mant = 4503599627370496, expo = 1\<rparr>"
  by (simp add: is_f64_def)

lemma f64_add_example:
  "f64_add \<lparr>mant = 1, expo = 0\<rparr> \<lparr>mant = 9007199254740992, expo = 0\<rparr>
     = Finite \<lparr>mant = 4503599627370496, expo = 1\<rparr>"
proof -
  have r: "round_to_even 9007199254740993 1 = 4503599627370496"
    by (simp add: round_to_even_def Let_def)
  have k: "nat (bitlen \<bar>9007199254740993\<bar> - 53) = 1"
    using bitlen_example by simp
  have "f64_round 9007199254740993 0 = Finite \<lparr>mant = 4503599627370496, expo = 1\<rparr>"
    unfolding f64_round_def Let_def k r using is_f64_example by simp
  then show ?thesis
    by (simp add: f64_add_def Let_def)
qed

lemma f64_zero_example:
  "f64_add \<lparr>mant = 0, expo = 0\<rparr> \<lparr>mant = 0, expo = 0\<rparr> = Finite \<lparr>mant = 0, expo = 0\<rparr>"
  "f64_sub \<lparr>mant = 0, expo = 0\<rparr> \<lparr>mant = 0, expo = 0\<rparr> = Finite \<lparr>mant = 0, expo = 0\<rparr>"
  by (simp_all add: f64_add_def f64_sub_def f64_round_zero)

lemma f64_sub_example:
  "f64_sub \<lparr>mant = 4503599627370496, expo = 1\<rparr> \<lparr>mant = 9007199254740992, expo = 0\<rparr>
     = Finite \<lparr>mant = 0, expo = 0\<rparr>"
  by (simp add: f64_sub_def f64_round_zero)

text \<open>
  A difference whose exact value is a number is computed exactly: rounding it changes
  nothing.
\<close>

lemma f64_round_exact_strict:
  fixes M e m0 e0 :: int
  assumes val: "real_of_int M * 2 powr real_of_int e = real_of_int m0 * 2 powr real_of_int e0"
    and m0: "\<bar>m0\<bar> < 2 ^ 53" and e: "- 1074 \<le> e"
    and mag: "\<bar>real_of_int m0 * 2 powr real_of_int e0\<bar> < 2 ^ 1024"
  shows "\<exists>r. f64_round M e = Finite r \<and> f64_value r = real_of_int m0 * 2 powr real_of_int e0"
proof -
  define k where "k = nat (bitlen \<bar>M\<bar> - 53)"
  have upper: "\<bar>M\<bar> < 2 ^ (53 + k)"
  proof -
    have "bitlen \<bar>M\<bar> \<le> int (53 + k)" by (simp add: k_def)
    then show ?thesis unfolding bitlen_le_iff_power nat_int by simp
  qed
  have dvd: "2 ^ k dvd M"
  proof (cases "k = 0")
    case True
    then show ?thesis by simp
  next
    case False
    then have bl: "bitlen \<bar>M\<bar> = int (53 + k)" by (simp add: k_def)
    then have "bitlen \<bar>M\<bar> \<noteq> 0" by simp
    then have Mpos: "0 < \<bar>M\<bar>" using bitlen_eq_zero_iff [of "\<bar>M\<bar>"] by linarith
    have "nat (bitlen \<bar>M\<bar> - 1) = 52 + k" using bl by simp
    with bitlen_bounds [OF Mpos] have lower: "(2::int) ^ (52 + k) \<le> \<bar>M\<bar>" by simp
    have "(2::real) powr real_of_int (int (52 + k) + e) = 2 ^ (52 + k) * 2 powr real_of_int e"
      by (simp only: pw_add pw_nat)
    also have "\<dots> \<le> real_of_int \<bar>M\<bar> * 2 powr real_of_int e"
    proof -
      have "real_of_int (2 ^ (52 + k)) \<le> real_of_int \<bar>M\<bar>"
        using lower by (simp only: of_int_le_iff)
      then show ?thesis by (simp add: mult_right_mono)
    qed
    also have "\<dots> = \<bar>real_of_int M * 2 powr real_of_int e\<bar>" by (simp add: abs_mult)
    also have "\<dots> = real_of_int \<bar>m0\<bar> * 2 powr real_of_int e0" by (simp add: val abs_mult)
    also have "\<dots> < 2 ^ 53 * 2 powr real_of_int e0"
    proof -
      have "real_of_int \<bar>m0\<bar> < real_of_int (2 ^ 53)"
        using m0 by (simp only: of_int_less_iff)
      then show ?thesis by (simp add: mult_strict_right_mono)
    qed
    also have "\<dots> = 2 powr real_of_int (int 53 + e0)"
      by (simp only: pw_add pw_nat)
    finally have "(2::real) powr real_of_int (int (52 + k) + e) < 2 powr real_of_int (int 53 + e0)" .
    then have "real_of_int (int (52 + k) + e) < real_of_int (int 53 + e0)"
      by (rule powr_less_cancel) simp
    then have ke: "int k \<le> e0 - e" by simp
    then have "e \<le> expo \<lparr>mant = m0, expo = e0\<rparr>" by simp
    from f64_aligned [OF this]
    have "real_of_int (m0 * 2 ^ nat (e0 - e)) * 2 powr real_of_int e = real_of_int M * 2 powr real_of_int e"
      by (simp add: f64_value_powr val)
    then have "real_of_int (m0 * 2 ^ nat (e0 - e)) = real_of_int M"
      by (simp only: mult_cancel_right) simp
    then have "M = m0 * 2 ^ nat (e0 - e)" by (simp only: of_int_eq_iff)
    moreover have "(2::int) ^ k dvd 2 ^ nat (e0 - e)"
      using ke by (intro le_imp_power_dvd) simp
    ultimately show ?thesis by simp
  qed
  let ?r = "\<lparr>mant = M div 2 ^ k, expo = e + int k\<rparr>"
  have rte: "round_to_even M k = M div 2 ^ k" by (rule round_to_even_dvd [OF dvd])
  have split: "M div 2 ^ k * 2 ^ k = M" using dvd by simp
  have P: "(2::real) powr real_of_int (e + int k) = 2 powr real_of_int e * 2 ^ k"
    by (simp only: pw_add pw_nat)
  have "f64_value ?r = real_of_int (M div 2 ^ k) * 2 powr real_of_int (e + int k)"
    by (simp add: f64_value_powr)
  also have "\<dots> = real_of_int (M div 2 ^ k) * (2 powr real_of_int e * 2 ^ k)"
    by (simp only: P)
  also have "\<dots> = real_of_int (M div 2 ^ k * 2 ^ k) * 2 powr real_of_int e"
    by simp
  finally have "value": "f64_value ?r = real_of_int M * 2 powr real_of_int e"
    unfolding split .
  have small: "\<bar>M div 2 ^ k\<bar> \<le> 2 ^ 53"
  proof -
    have "\<bar>M div 2 ^ k\<bar> * 2 ^ k = \<bar>M div 2 ^ k * 2 ^ k\<bar>" by (simp add: abs_mult)
    also have "\<dots> < 2 ^ 53 * 2 ^ k" unfolding split using upper by (simp add: power_add)
    finally show ?thesis by simp
  qed
  have "is_f64 ?r" using small e mag "value" val by (simp add: is_f64_iff)
  then have "f64_round M e = Finite ?r"
    by (simp add: f64_round_def k_def [symmetric] rte Let_def)
  with "value" val show ?thesis by auto
qed

lemma f64_round_exact:
  fixes M e m0 e0 :: int
  assumes val: "real_of_int M * 2 powr real_of_int e = real_of_int m0 * 2 powr real_of_int e0"
    and m0: "\<bar>m0\<bar> \<le> 2 ^ 53" and e: "- 1074 \<le> e"
    and mag: "\<bar>real_of_int m0 * 2 powr real_of_int e0\<bar> < 2 ^ 1024"
  shows "\<exists>r. f64_round M e = Finite r \<and> f64_value r = real_of_int m0 * 2 powr real_of_int e0"
proof (cases "\<bar>m0\<bar> < 2 ^ 53")
  case True
  from f64_round_exact_strict [OF val True e mag] show ?thesis .
next
  case False
  with m0 have top: "\<bar>m0\<bar> = 2 ^ 53" by simp
  then have "m0 = 9007199254740992 \<or> m0 = - 9007199254740992" by auto
  then have even: "m0 div 2 * 2 = m0" and half: "\<bar>m0 div 2\<bar> < 2 ^ 53"
    by auto
  have "real_of_int (m0 div 2) * 2 powr real_of_int (e0 + 1) = real_of_int (m0 div 2 * 2) * 2 powr real_of_int e0"
    by (simp add: powr_add)
  then have same: "real_of_int (m0 div 2) * 2 powr real_of_int (e0 + 1) = real_of_int m0 * 2 powr real_of_int e0"
    unfolding even .
  from f64_round_exact_strict [of M e "m0 div 2" "e0 + 1", OF _ half e] val mag
  show ?thesis unfolding same by simp
qed

lemma f64_sub_exact:
  assumes a: "is_f64 a" and b: "is_f64 b" and c: "is_f64 c"
    and exact: "f64_value c = f64_value a + f64_value b"
  shows "\<exists>r. f64_sub c b = Finite r \<and> f64_eq r a"
proof -
  let ?e = "min (expo c) (expo b)"
  let ?C = "mant c * 2 ^ nat (expo c - ?e)"
  let ?B = "mant b * 2 ^ nat (expo b - ?e)"
  have C: "real_of_int ?C * 2 powr real_of_int ?e = f64_value c"
    and B: "real_of_int ?B * 2 powr real_of_int ?e = f64_value b"
    by (rule f64_aligned, simp)+
  have "real_of_int (?C - ?B) * 2 powr real_of_int ?e = f64_value c - f64_value b"
    unfolding C [symmetric] B [symmetric] by (simp only: of_int_diff left_diff_distrib)
  also have "\<dots> = real_of_int (mant a) * 2 powr real_of_int (expo a)"
    using exact by (simp add: f64_value_powr)
  finally have val: "real_of_int (?C - ?B) * 2 powr real_of_int ?e
      = real_of_int (mant a) * 2 powr real_of_int (expo a)" .
  have e: "- 1074 \<le> ?e" using b c by (simp add: is_f64_def)
  have m: "\<bar>mant a\<bar> \<le> 2 ^ 53"
    and mag: "\<bar>real_of_int (mant a) * 2 powr real_of_int (expo a)\<bar> < 2 ^ 1024"
    using a by (simp_all add: is_f64_iff f64_value_powr)
  from f64_round_exact [OF val m e mag]
  obtain r where "f64_round (?C - ?B) ?e = Finite r" and "f64_value r = f64_value a"
    by (auto simp: f64_value_powr)
  then show ?thesis by (auto simp: f64_sub_def Let_def f64_eq_iff)
qed

text \<open>In exact arithmetic, the vectors over the reals, the identity holds.\<close>

lemma Vec2_add_sub_equals_real: "Vec2_equals (Vec2_sub (Vec2_add a b) b) a"
  by (simp add: Vec2_equals_def Vec2_sub_def Vec2_add_def)

text \<open>
  Claim C9 says that \<open>(a.add(b)).sub(b).equals(a)\<close> is true for all vectors with finite
  components. With \<open>a = (1, 0)\<close> and \<open>b = (9007199254740992, 0)\<close>, that is \<open>2 ^ 53\<close>, the
  sum \<open>2 ^ 53 + 1\<close> is a tie and rounds to \<open>2 ^ 53\<close>, so \<open>a.add(b)\<close> is \<open>b\<close>, the
  difference is \<open>(0, 0)\<close> and \<open>equals\<close> is false.
\<close>

theorem Vec2_add_sub_equals_counterexample:
  "is_f64 \<lparr>mant = 1, expo = 0\<rparr> \<and> is_f64 \<lparr>mant = 0, expo = 0\<rparr>
   \<and> is_f64 \<lparr>mant = 9007199254740992, expo = 0\<rparr>
   \<and> f64_value \<lparr>mant = 1, expo = 0\<rparr> = 1
   \<and> f64_value \<lparr>mant = 9007199254740992, expo = 0\<rparr> = 9007199254740992
   \<and> Vec2_f64_add (Vec2_f64 \<lparr>mant = 1, expo = 0\<rparr> \<lparr>mant = 0, expo = 0\<rparr>)
                   (Vec2_f64 \<lparr>mant = 9007199254740992, expo = 0\<rparr> \<lparr>mant = 0, expo = 0\<rparr>)
       = Inr (Vec2_f64 \<lparr>mant = 4503599627370496, expo = 1\<rparr> \<lparr>mant = 0, expo = 0\<rparr>)
   \<and> Vec2_f64_sub (Vec2_f64 \<lparr>mant = 4503599627370496, expo = 1\<rparr> \<lparr>mant = 0, expo = 0\<rparr>)
                   (Vec2_f64 \<lparr>mant = 9007199254740992, expo = 0\<rparr> \<lparr>mant = 0, expo = 0\<rparr>)
       = Inr (Vec2_f64 \<lparr>mant = 0, expo = 0\<rparr> \<lparr>mant = 0, expo = 0\<rparr>)
   \<and> \<not> Vec2_f64_equals (Vec2_f64 \<lparr>mant = 0, expo = 0\<rparr> \<lparr>mant = 0, expo = 0\<rparr>)
                         (Vec2_f64 \<lparr>mant = 1, expo = 0\<rparr> \<lparr>mant = 0, expo = 0\<rparr>)"
proof -
  have "is_f64 \<lparr>mant = 1, expo = 0\<rparr>" "is_f64 \<lparr>mant = 0, expo = 0\<rparr>"
    "is_f64 \<lparr>mant = 9007199254740992, expo = 0\<rparr>"
    by (simp_all add: is_f64_def)
  moreover have "f64_value \<lparr>mant = 1, expo = 0\<rparr> = 1"
    "f64_value \<lparr>mant = 9007199254740992, expo = 0\<rparr> = 9007199254740992"
    by (simp_all add: f64_value_def)
  moreover have "\<not> Vec2_f64_equals (Vec2_f64 \<lparr>mant = 0, expo = 0\<rparr> \<lparr>mant = 0, expo = 0\<rparr>)
                         (Vec2_f64 \<lparr>mant = 1, expo = 0\<rparr> \<lparr>mant = 0, expo = 0\<rparr>)"
    by (simp add: Vec2_f64_equals_def f64_eq_def)
  ultimately show ?thesis
    using f64_add_example f64_zero_example f64_sub_example
    by (simp add: Vec2_f64_add_def Vec2_f64_sub_def Vec2_f64_new_def)
qed

text \<open>
  Claim C9, amended. For all vectors \<open>a\<close> and \<open>b\<close> with finite components for which
  \<open>a.add(b)\<close> returns a vector whose components are the exact sums (the additions do
  not round), \<open>(a.add(b)).sub(b)\<close> returns a vector and \<open>equals(a)\<close> is true on it.
\<close>

theorem Vec2_add_sub_equals_exact:
  assumes "is_f64 (fx a)" and "is_f64 (fy a)" and "is_f64 (fx b)" and "is_f64 (fy b)"
    and add: "Vec2_f64_add a b = Inr c"
    and "f64_value (fx c) = f64_value (fx a) + f64_value (fx b)"
    and "f64_value (fy c) = f64_value (fy a) + f64_value (fy b)"
  shows "\<exists>r. Vec2_f64_sub c b = Inr r \<and> Vec2_f64_equals r a"
proof -
  from add have "f64_add (fx a) (fx b) = Finite (fx c)" "f64_add (fy a) (fy b) = Finite (fy c)"
    by (auto simp: Vec2_f64_add_def Vec2_f64_new_def split: number.splits)
  then have "is_f64 (fx c)" "is_f64 (fy c)"
    by (auto simp: f64_add_def Let_def dest: f64_round_Finite)
  with assms obtain rx ry where "f64_sub (fx c) (fx b) = Finite rx" "f64_eq rx (fx a)"
    "f64_sub (fy c) (fy b) = Finite ry" "f64_eq ry (fy a)"
    using f64_sub_exact [of "fx a" "fx b" "fx c"] f64_sub_exact [of "fy a" "fy b" "fy c"] by blast
  then show ?thesis
    by (simp add: Vec2_f64_sub_def Vec2_f64_new_def Vec2_f64_equals_def)
qed

theorem Vec2_add_sub_equals_exact_witness:
  "is_f64 \<lparr>mant = 1, expo = 0\<rparr> \<and> is_f64 \<lparr>mant = 0, expo = 0\<rparr> \<and> is_f64 \<lparr>mant = 2, expo = 0\<rparr>
   \<and> Vec2_f64_add (Vec2_f64 \<lparr>mant = 1, expo = 0\<rparr> \<lparr>mant = 0, expo = 0\<rparr>)
                   (Vec2_f64 \<lparr>mant = 2, expo = 0\<rparr> \<lparr>mant = 0, expo = 0\<rparr>)
       = Inr (Vec2_f64 \<lparr>mant = 3, expo = 0\<rparr> \<lparr>mant = 0, expo = 0\<rparr>)
   \<and> f64_value \<lparr>mant = 3, expo = 0\<rparr> = f64_value \<lparr>mant = 1, expo = 0\<rparr> + f64_value \<lparr>mant = 2, expo = 0\<rparr>
   \<and> f64_value \<lparr>mant = 0, expo = 0\<rparr> = f64_value \<lparr>mant = 0, expo = 0\<rparr> + f64_value \<lparr>mant = 0, expo = 0\<rparr>
   \<and> (\<exists>r. Vec2_f64_sub (Vec2_f64 \<lparr>mant = 3, expo = 0\<rparr> \<lparr>mant = 0, expo = 0\<rparr>)
                        (Vec2_f64 \<lparr>mant = 2, expo = 0\<rparr> \<lparr>mant = 0, expo = 0\<rparr>) = Inr r
          \<and> Vec2_f64_equals r (Vec2_f64 \<lparr>mant = 1, expo = 0\<rparr> \<lparr>mant = 0, expo = 0\<rparr>))"
proof -
  let ?a = "Vec2_f64 \<lparr>mant = 1, expo = 0\<rparr> \<lparr>mant = 0, expo = 0\<rparr>"
  let ?b = "Vec2_f64 \<lparr>mant = 2, expo = 0\<rparr> \<lparr>mant = 0, expo = 0\<rparr>"
  let ?c = "Vec2_f64 \<lparr>mant = 3, expo = 0\<rparr> \<lparr>mant = 0, expo = 0\<rparr>"
  have f: "is_f64 \<lparr>mant = 1, expo = 0\<rparr>" "is_f64 \<lparr>mant = 0, expo = 0\<rparr>"
    "is_f64 \<lparr>mant = 2, expo = 0\<rparr>" "is_f64 \<lparr>mant = 3, expo = 0\<rparr>"
    by (simp_all add: is_f64_def)
  have add: "Vec2_f64_add ?a ?b = Inr ?c"
    using f by (simp add: Vec2_f64_add_def Vec2_f64_new_def f64_add_def f64_round_small)
  have ex: "f64_value (fx ?c) = f64_value (fx ?a) + f64_value (fx ?b)"
    "f64_value (fy ?c) = f64_value (fy ?a) + f64_value (fy ?b)"
    by (simp_all add: f64_value_def)
  have "\<exists>r. Vec2_f64_sub ?c ?b = Inr r \<and> Vec2_f64_equals r ?a"
    using f by (intro Vec2_add_sub_equals_exact [OF _ _ _ _ add ex]) simp_all
  with f add ex show ?thesis by simp
qed

section \<open>Facts about binary64 numbers\<close>

lemmas b64_sel_defs = b64_is_nan_def b64_finite_def b64_mant_def b64_expo_def
  b64_negative_def b64_is_zero_def

lemma b64_sel_simps [simp]:
  "b64_mant (Num d) = mant d" "b64_mant NegZero = 0" "b64_mant b64_zero = 0"
  "b64_expo (Num d) = expo d" "b64_expo NegZero = 0" "b64_expo b64_zero = 0"
  "b64_negative (Num d) = (mant d < 0)" "b64_negative NegZero" "\<not> b64_negative b64_zero"
  "\<not> b64_negative PosInf" "b64_negative NegInf" "\<not> b64_negative NaN"
  "b64_is_zero (Num d) = (mant d = 0)" "b64_is_zero NegZero" "b64_is_zero b64_zero"
  "\<not> b64_is_zero PosInf" "\<not> b64_is_zero NegInf" "\<not> b64_is_zero NaN"
  "\<not> b64_is_nan (Num d)" "\<not> b64_is_nan NegZero" "\<not> b64_is_nan b64_zero"
  "\<not> b64_is_nan PosInf" "\<not> b64_is_nan NegInf" "b64_is_nan NaN"
  by (simp_all add: b64_sel_defs b64_zero_def)

lemma b64_value_Num [simp]: "b64_value (Num d) = f64_value d"
  by (simp add: b64_value_def b64_sel_defs f64_value_def)

lemma b64_value_NegZero [simp]: "b64_value NegZero = 0"
  by (simp add: b64_value_def b64_sel_defs f64_value_def)

lemma b64_value_zero [simp]: "b64_value b64_zero = 0"
  by (simp add: b64_zero_def f64_value_def)

lemma b64_finite_simps [simp]:
  "b64_finite (Num d)" "b64_finite NegZero" "b64_finite b64_zero"
  "\<not> b64_finite PosInf" "\<not> b64_finite NegInf" "\<not> b64_finite NaN"
  by (simp_all add: b64_finite_def b64_zero_def)

lemma b64_finiteE:
  assumes "b64_finite x"
  obtains (Num) d where "x = Num d" | (NegZero) "x = NegZero"
  using assms by (cases x) simp_all

lemma b64_finite_not_nan: "b64_finite x \<Longrightarrow> \<not> b64_is_nan x"
  by (cases x) (simp_all add: b64_is_nan_def)

lemma b64_value_0_iff: "b64_value x = 0 \<longleftrightarrow> b64_mant x = 0"
  by (simp add: b64_value_def f64_value_powr)

lemma b64_aligned:
  assumes "e \<le> b64_expo x"
  shows "real_of_int (b64_mant x * 2 ^ nat (b64_expo x - e)) * 2 powr real_of_int e = b64_value x"
  using f64_aligned [of e "\<lparr>mant = b64_mant x, expo = b64_expo x\<rparr>"] assms
  by (simp add: b64_value_def)

lemma b64_aligned_less:
  "b64_mant x * 2 ^ nat (b64_expo x - min (b64_expo x) (b64_expo y))
     < b64_mant y * 2 ^ nat (b64_expo y - min (b64_expo x) (b64_expo y))
   \<longleftrightarrow> b64_value x < b64_value y"
proof -
  let ?e = "min (b64_expo x) (b64_expo y)"
  let ?A = "b64_mant x * 2 ^ nat (b64_expo x - ?e)"
  let ?B = "b64_mant y * 2 ^ nat (b64_expo y - ?e)"
  have a: "real_of_int ?A * 2 powr real_of_int ?e = b64_value x"
    and b: "real_of_int ?B * 2 powr real_of_int ?e = b64_value y"
    by (rule b64_aligned, simp)+
  have "?A < ?B \<longleftrightarrow> real_of_int ?A < real_of_int ?B"
    by (rule of_int_less_iff [symmetric])
  also have "\<dots> \<longleftrightarrow> real_of_int ?A * 2 powr real_of_int ?e < real_of_int ?B * 2 powr real_of_int ?e"
    using mult_less_cancel_right_pos [of "2 powr real_of_int ?e" "real_of_int ?A" "real_of_int ?B"]
    by simp
  finally show ?thesis unfolding a b .
qed

lemma b64_aligned_eq:
  "b64_mant x * 2 ^ nat (b64_expo x - min (b64_expo x) (b64_expo y))
     = b64_mant y * 2 ^ nat (b64_expo y - min (b64_expo x) (b64_expo y))
   \<longleftrightarrow> b64_value x = b64_value y"
proof -
  let ?e = "min (b64_expo x) (b64_expo y)"
  let ?A = "b64_mant x * 2 ^ nat (b64_expo x - ?e)"
  let ?B = "b64_mant y * 2 ^ nat (b64_expo y - ?e)"
  have a: "real_of_int ?A * 2 powr real_of_int ?e = b64_value x"
    and b: "real_of_int ?B * 2 powr real_of_int ?e = b64_value y"
    by (rule b64_aligned, simp)+
  have "?A = ?B \<longleftrightarrow> real_of_int ?A = real_of_int ?B"
    by (rule of_int_eq_iff [symmetric])
  also have "\<dots> \<longleftrightarrow> real_of_int ?A * 2 powr real_of_int ?e = real_of_int ?B * 2 powr real_of_int ?e"
    by (simp only: mult_cancel_right) simp
  finally show ?thesis unfolding a b .
qed

lemma b64_lt_iff:
  "b64_finite x \<Longrightarrow> b64_finite y \<Longrightarrow> b64_lt x y \<longleftrightarrow> b64_value x < b64_value y"
  by (simp add: b64_lt_def b64_finite_not_nan Let_def b64_aligned_less)

lemma b64_eq_iff:
  "b64_finite x \<Longrightarrow> b64_finite y \<Longrightarrow> b64_eq x y \<longleftrightarrow> b64_value x = b64_value y"
  by (simp add: b64_eq_def b64_finite_not_nan Let_def b64_aligned_eq)

lemma b64_le_iff:
  "b64_finite x \<Longrightarrow> b64_finite y \<Longrightarrow> b64_le x y \<longleftrightarrow> b64_value x \<le> b64_value y"
  by (auto simp: b64_le_def b64_lt_iff b64_eq_iff)

lemma round_to_even_nonneg: "0 \<le> M \<Longrightarrow> 0 \<le> round_to_even M k"
  by (auto simp: round_to_even_def Let_def pos_imp_zdiv_nonneg_iff)

lemma round_to_even_nonpos: "M \<le> 0 \<Longrightarrow> round_to_even M k \<le> 0"
proof (cases "M = 0")
  case True
  then show ?thesis by (simp add: round_to_even_def)
next
  case False
  assume "M \<le> 0"
  with False have "M < 0" by simp
  then have "M div 2 ^ k < 0" by (intro div_neg_pos_less0) simp_all
  then show ?thesis by (auto simp: round_to_even_def Let_def)
qed

lemma b64_round_cases:
  obtains (zero) "b64_round M e = b64_signed_zero (M < 0)"
  | (inf) "M \<noteq> 0" "b64_round M e = b64_signed_inf (M < 0)"
  | (num) d where "b64_round M e = Num d" "is_f64 d" "mant d \<noteq> 0"
      "0 \<le> M \<Longrightarrow> 0 < mant d" "M \<le> 0 \<Longrightarrow> mant d < 0"
proof -
  define k where "k = nat (max (bitlen \<bar>M\<bar> - 53) (- 1074 - e))"
  define m where "m = round_to_even M k"
  have r: "b64_round M e = (if m = 0 then b64_signed_zero (M < 0)
      else if is_f64 \<lparr>mant = m, expo = e + int k\<rparr> then Num \<lparr>mant = m, expo = e + int k\<rparr>
      else b64_signed_inf (M < 0))"
    by (simp add: b64_round_def Let_def k_def m_def)
  show thesis
  proof (cases "m = 0")
    case True
    with r show thesis by (intro zero) simp
  next
    case m0: False
    have M0: "M \<noteq> 0" using m0 by (auto simp: m_def round_to_even_def)
    show thesis
    proof (cases "is_f64 \<lparr>mant = m, expo = e + int k\<rparr>")
      case True
      have "0 \<le> M \<Longrightarrow> 0 < m" using round_to_even_nonneg [of M k] m0 by (simp add: m_def)
      moreover have "M \<le> 0 \<Longrightarrow> m < 0" using round_to_even_nonpos [of M k] m0 by (simp add: m_def)
      ultimately show thesis using r True m0 by (intro num [of "\<lparr>mant = m, expo = e + int k\<rparr>"]) simp_all
    next
      case False
      with r m0 M0 show thesis by (intro inf) simp_all
    qed
  qed
qed

lemma b64_signed_zero_simps [simp]:
  "b64_finite (b64_signed_zero n)" "b64_value (b64_signed_zero n) = 0"
  "b64_mant (b64_signed_zero n) = 0" "\<not> b64_is_nan (b64_signed_zero n)"
  by (simp_all add: b64_signed_zero_def b64_sel_defs b64_zero_def f64_value_def)

lemma b64_signed_inf_simps [simp]:
  "\<not> b64_finite (b64_signed_inf n)" "\<not> b64_is_nan (b64_signed_inf n)"
  by (simp_all add: b64_signed_inf_def b64_sel_defs)

lemma is_b64_round [simp]: "is_b64 (b64_round M e)"
  by (rule b64_round_cases [of M e])
     (simp_all add: is_b64_def b64_signed_zero_def b64_signed_inf_def b64_zero_def is_f64_def)

lemma b64_round_not_nan [simp]: "\<not> b64_is_nan (b64_round M e)"
  by (rule b64_round_cases [of M e]) (simp_all add: b64_finite_not_nan)

lemma b64_round_exact_strict:
  fixes M e m0 e0 :: int
  assumes val: "real_of_int M * 2 powr real_of_int e = real_of_int m0 * 2 powr real_of_int e0"
    and m0: "\<bar>m0\<bar> < 2 ^ 53" and e0: "- 1074 \<le> e0" and M: "M \<noteq> 0"
  shows "\<exists>r. f64_value r = real_of_int m0 * 2 powr real_of_int e0 \<and> mant r \<noteq> 0
              \<and> \<bar>mant r\<bar> \<le> 2 ^ 53 \<and> - 1074 \<le> expo r
              \<and> b64_round M e = (if is_f64 r then Num r else b64_signed_inf (M < 0))"
proof -
  define k where "k = nat (max (bitlen \<bar>M\<bar> - 53) (- 1074 - e))"
  have upper: "\<bar>M\<bar> < 2 ^ (53 + k)"
  proof -
    have "bitlen \<bar>M\<bar> \<le> int (53 + k)" unfolding k_def by linarith
    then show ?thesis unfolding bitlen_le_iff_power nat_int by simp
  qed
  have ke: "k = 0 \<or> int k \<le> e0 - e"
  proof (cases "k = 0")
    case True
    then show ?thesis by simp
  next
    case False
    then consider (bits) "int k = bitlen \<bar>M\<bar> - 53" | (low) "int k = - 1074 - e"
      by (auto simp: k_def max_def split: if_splits)
    then show ?thesis
    proof cases
      case low
      then show ?thesis using e0 by simp
    next
      case bits
      then have bl: "bitlen \<bar>M\<bar> = int (53 + k)" by simp
      have Mpos: "0 < \<bar>M\<bar>" using M by simp
      have "nat (bitlen \<bar>M\<bar> - 1) = 52 + k" using bl by simp
      with bitlen_bounds [OF Mpos] have lower: "(2::int) ^ (52 + k) \<le> \<bar>M\<bar>" by simp
      have "(2::real) powr real_of_int (int (52 + k) + e) = 2 ^ (52 + k) * 2 powr real_of_int e"
        by (simp only: pw_add pw_nat)
      also have "\<dots> \<le> real_of_int \<bar>M\<bar> * 2 powr real_of_int e"
      proof -
        have "real_of_int (2 ^ (52 + k)) \<le> real_of_int \<bar>M\<bar>"
          using lower by (simp only: of_int_le_iff)
        then show ?thesis by (simp add: mult_right_mono)
      qed
      also have "\<dots> = \<bar>real_of_int M * 2 powr real_of_int e\<bar>" by (simp add: abs_mult)
      also have "\<dots> = real_of_int \<bar>m0\<bar> * 2 powr real_of_int e0" by (simp add: val abs_mult)
      also have "\<dots> < 2 ^ 53 * 2 powr real_of_int e0"
      proof -
        have "real_of_int \<bar>m0\<bar> < real_of_int (2 ^ 53)"
          using m0 by (simp only: of_int_less_iff)
        then show ?thesis by (simp add: mult_strict_right_mono)
      qed
      also have "\<dots> = 2 powr real_of_int (int 53 + e0)"
        by (simp only: pw_add pw_nat)
      finally have "(2::real) powr real_of_int (int (52 + k) + e) < 2 powr real_of_int (int 53 + e0)" .
      then have "real_of_int (int (52 + k) + e) < real_of_int (int 53 + e0)"
        by (rule powr_less_cancel) simp
      then show ?thesis by simp
    qed
  qed
  have dvd: "2 ^ k dvd M"
  proof (cases "k = 0")
    case True
    then show ?thesis by simp
  next
    case False
    with ke have ke: "int k \<le> e0 - e" by simp
    then have "e \<le> expo \<lparr>mant = m0, expo = e0\<rparr>" by simp
    from f64_aligned [OF this]
    have "real_of_int (m0 * 2 ^ nat (e0 - e)) * 2 powr real_of_int e = real_of_int M * 2 powr real_of_int e"
      by (simp add: f64_value_powr val)
    then have "real_of_int (m0 * 2 ^ nat (e0 - e)) = real_of_int M"
      by (simp only: mult_cancel_right) simp
    then have "M = m0 * 2 ^ nat (e0 - e)" by (simp only: of_int_eq_iff)
    moreover have "(2::int) ^ k dvd 2 ^ nat (e0 - e)"
      using ke by (intro le_imp_power_dvd) simp
    ultimately show ?thesis by simp
  qed
  let ?r = "\<lparr>mant = M div 2 ^ k, expo = e + int k\<rparr>"
  have rte: "round_to_even M k = M div 2 ^ k" by (rule round_to_even_dvd [OF dvd])
  have split: "M div 2 ^ k * 2 ^ k = M" using dvd by simp
  have P: "(2::real) powr real_of_int (e + int k) = 2 powr real_of_int e * 2 ^ k"
    by (simp only: pw_add pw_nat)
  have "f64_value ?r = real_of_int (M div 2 ^ k) * 2 powr real_of_int (e + int k)"
    by (simp add: f64_value_powr)
  also have "\<dots> = real_of_int (M div 2 ^ k) * (2 powr real_of_int e * 2 ^ k)"
    by (simp only: P)
  also have "\<dots> = real_of_int (M div 2 ^ k * 2 ^ k) * 2 powr real_of_int e"
    by simp
  finally have "value": "f64_value ?r = real_of_int M * 2 powr real_of_int e"
    unfolding split .
  have small: "\<bar>M div 2 ^ k\<bar> \<le> 2 ^ 53"
  proof -
    have "\<bar>M div 2 ^ k\<bar> * 2 ^ k = \<bar>M div 2 ^ k * 2 ^ k\<bar>" by (simp add: abs_mult)
    also have "\<dots> < 2 ^ 53 * 2 ^ k" unfolding split using upper by (simp add: power_add)
    finally show ?thesis by simp
  qed
  have nz: "M div 2 ^ k \<noteq> 0" using split M by auto
  have low: "- 1074 \<le> e + int k" unfolding k_def by linarith
  have "b64_round M e = (if is_f64 ?r then Num ?r else b64_signed_inf (M < 0))"
    using nz by (simp add: b64_round_def k_def [symmetric] rte Let_def)
  with "value" val small nz low show ?thesis
    by (intro exI [of _ ?r]) simp
qed

lemma b64_round_exact_cases:
  fixes M e m0 e0 :: int
  assumes val: "real_of_int M * 2 powr real_of_int e = real_of_int m0 * 2 powr real_of_int e0"
    and m0: "\<bar>m0\<bar> \<le> 2 ^ 53" and e0: "- 1074 \<le> e0" and M: "M \<noteq> 0"
  shows "\<exists>r. f64_value r = real_of_int m0 * 2 powr real_of_int e0 \<and> mant r \<noteq> 0
              \<and> \<bar>mant r\<bar> \<le> 2 ^ 53 \<and> - 1074 \<le> expo r
              \<and> b64_round M e = (if is_f64 r then Num r else b64_signed_inf (M < 0))"
proof (cases "\<bar>m0\<bar> < 2 ^ 53")
  case True
  from b64_round_exact_strict [OF val True e0 M] show ?thesis .
next
  case False
  with m0 have top: "\<bar>m0\<bar> = 2 ^ 53" by simp
  then have "m0 = 9007199254740992 \<or> m0 = - 9007199254740992" by auto
  then have even: "m0 div 2 * 2 = m0" and half: "\<bar>m0 div 2\<bar> < 2 ^ 53"
    by auto
  have "real_of_int (m0 div 2) * 2 powr real_of_int (e0 + 1) = real_of_int (m0 div 2 * 2) * 2 powr real_of_int e0"
    by (simp add: powr_add)
  then have same: "real_of_int (m0 div 2) * 2 powr real_of_int (e0 + 1) = real_of_int m0 * 2 powr real_of_int e0"
    unfolding even .
  have e1: "- 1074 \<le> e0 + 1" using e0 by simp
  from b64_round_exact_strict [of M e "m0 div 2" "e0 + 1", OF _ half e1 M] val
  show ?thesis unfolding same by simp
qed

text \<open>A value that is a number is not changed by rounding.\<close>

lemma b64_round_exact:
  assumes val: "real_of_int M * 2 powr real_of_int e = f64_value d0" and d0: "is_f64 d0"
    and M: "M \<noteq> 0"
  shows "\<exists>r. b64_round M e = Num r \<and> is_f64 r \<and> mant r \<noteq> 0 \<and> f64_value r = f64_value d0"
proof -
  have m: "\<bar>mant d0\<bar> \<le> 2 ^ 53" and e0: "- 1074 \<le> expo d0" and mag: "\<bar>f64_value d0\<bar> < 2 ^ 1024"
    using d0 by (simp_all add: is_f64_iff)
  from b64_round_exact_cases [OF val [unfolded f64_value_powr] m e0 M]
  obtain r where r: "f64_value r = f64_value d0" "mant r \<noteq> 0" "\<bar>mant r\<bar> \<le> 2 ^ 53" "- 1074 \<le> expo r"
    "b64_round M e = (if is_f64 r then Num r else b64_signed_inf (M < 0))"
    by (auto simp: f64_value_powr)
  have "is_f64 r" using r(1,3,4) mag by (simp add: is_f64_iff)
  with r show ?thesis by auto
qed

lemma f64_value_nonneg_iff: "0 \<le> f64_value d \<longleftrightarrow> 0 \<le> mant d"
  by (simp add: f64_value_powr zero_le_mult_iff)

lemma f64_value_pos_iff: "0 < f64_value d \<longleftrightarrow> 0 < mant d"
  by (simp add: f64_value_powr zero_less_mult_iff)

lemma f64_value_0_iff: "f64_value d = 0 \<longleftrightarrow> mant d = 0"
  by (simp add: f64_value_powr)

lemma is_f64_zero [simp]: "is_f64 \<lparr>mant = 0, expo = 0\<rparr>"
  by (simp add: is_f64_def)

lemma f64_value_zero [simp]: "f64_value \<lparr>mant = 0, expo = 0\<rparr> = 0"
  by (simp add: f64_value_def)

lemma is_b64_simps [simp]:
  "is_b64 (Num d) = is_f64 d" "is_b64 NegZero" "is_b64 PosInf" "is_b64 NegInf" "is_b64 NaN"
  "is_b64 b64_zero" "is_b64 (b64_signed_zero n)" "is_b64 (b64_signed_inf n)"
  by (simp_all add: is_b64_def b64_zero_def b64_signed_zero_def b64_signed_inf_def)

lemma b64_neg_finite [simp]: "b64_finite (b64_neg y) = b64_finite y"
  by (cases y) (simp_all add: b64_neg_def)

lemma b64_neg_value [simp]: "b64_value (b64_neg y) = - b64_value y"
  by (cases y) (simp_all add: b64_neg_def b64_value_def b64_sel_defs f64_value_def b64_zero_def)

lemma is_b64_neg: "is_b64 x \<Longrightarrow> is_b64 (b64_neg x)"
  by (cases x) (simp_all add: b64_neg_def is_f64_def)

lemma b64_add_finite:
  assumes "b64_finite x" and "b64_finite y"
  shows "b64_add x y =
     (let e = min (b64_expo x) (b64_expo y);
          M = b64_mant x * 2 ^ nat (b64_expo x - e) + b64_mant y * 2 ^ nat (b64_expo y - e) in
      if M = 0 then b64_signed_zero (b64_negative x \<and> b64_negative y) else b64_round M e)"
  using assms by (simp add: b64_add_def b64_finite_not_nan)

lemma b64_add_aligned:
  "real_of_int (b64_mant x * 2 ^ nat (b64_expo x - min (b64_expo x) (b64_expo y))
      + b64_mant y * 2 ^ nat (b64_expo y - min (b64_expo x) (b64_expo y)))
     * 2 powr real_of_int (min (b64_expo x) (b64_expo y)) = b64_value x + b64_value y"
proof -
  let ?e = "min (b64_expo x) (b64_expo y)"
  let ?A = "b64_mant x * 2 ^ nat (b64_expo x - ?e)"
  let ?B = "b64_mant y * 2 ^ nat (b64_expo y - ?e)"
  have a: "real_of_int ?A * 2 powr real_of_int ?e = b64_value x"
    and b: "real_of_int ?B * 2 powr real_of_int ?e = b64_value y"
    by (rule b64_aligned, simp)+
  have "real_of_int (?A + ?B) * 2 powr real_of_int ?e
      = real_of_int ?A * 2 powr real_of_int ?e + real_of_int ?B * 2 powr real_of_int ?e"
    by (simp only: of_int_add distrib_right)
  then show ?thesis unfolding a b .
qed

text \<open>A sum whose exact value is a number is computed exactly.\<close>

lemma b64_add_exact:
  assumes x: "b64_finite x" and y: "b64_finite y" and d0: "is_f64 d0"
    and val: "b64_value x + b64_value y = f64_value d0"
  shows "b64_finite (b64_add x y) \<and> b64_value (b64_add x y) = f64_value d0"
proof -
  let ?e = "min (b64_expo x) (b64_expo y)"
  let ?M = "b64_mant x * 2 ^ nat (b64_expo x - ?e) + b64_mant y * 2 ^ nat (b64_expo y - ?e)"
  have sum: "real_of_int ?M * 2 powr real_of_int ?e = f64_value d0"
    using b64_add_aligned [of x y] val by simp
  show ?thesis
  proof (cases "?M = 0")
    case True
    with sum have "f64_value d0 = 0" by simp
    then show ?thesis using True by (simp add: b64_add_finite [OF x y] Let_def)
  next
    case False
    from b64_round_exact [OF sum d0 False]
    obtain r where "b64_round ?M ?e = Num r" "f64_value r = f64_value d0" by blast
    then show ?thesis using False by (simp add: b64_add_finite [OF x y] Let_def)
  qed
qed

lemma b64_sub_exact:
  assumes x: "b64_finite x" and y: "b64_finite y" and d0: "is_f64 d0"
    and val: "b64_value x - b64_value y = f64_value d0"
  shows "b64_finite (b64_sub x y) \<and> b64_value (b64_sub x y) = f64_value d0"
  unfolding b64_sub_def using b64_add_exact [of x "b64_neg y" d0] x y d0 val by simp

lemma b64_finite_is_b64E:
  assumes "b64_finite x" and "is_b64 x"
  obtains d where "is_f64 d" and "b64_value x = f64_value d"
proof (rule b64_finiteE [OF assms(1)])
  fix d assume "x = Num d"
  with assms(2) show ?thesis by (intro that [of d]) simp_all
next
  assume "x = NegZero"
  then show ?thesis by (intro that [of "\<lparr>mant = 0, expo = 0\<rparr>"]) simp_all
qed

text \<open>Adding or subtracting a zero changes nothing; the difference of equal numbers is a zero.\<close>

lemma b64_add_zero:
  assumes "b64_finite x" and "is_b64 x" and "b64_finite z" and "b64_value z = 0"
  shows "b64_finite (b64_add x z) \<and> b64_value (b64_add x z) = b64_value x"
proof -
  from assms(1,2) obtain d where d: "is_f64 d" "b64_value x = f64_value d"
    by (rule b64_finite_is_b64E)
  from b64_add_exact [OF assms(1,3) d(1)] assms(4) d(2) show ?thesis by simp
qed

lemma b64_sub_zero:
  assumes "b64_finite x" and "is_b64 x" and "b64_finite z" and "b64_value z = 0"
  shows "b64_finite (b64_sub x z) \<and> b64_value (b64_sub x z) = b64_value x"
  unfolding b64_sub_def using b64_add_zero [of x "b64_neg z"] assms by simp

lemma b64_sub_equal:
  assumes "b64_finite x" and "b64_finite y" and "b64_value x = b64_value y"
  shows "b64_finite (b64_sub x y) \<and> b64_value (b64_sub x y) = 0"
  using b64_sub_exact [OF assms(1,2) is_f64_zero] assms(3) by simp

lemma b64_mul_zero:
  assumes "b64_finite x" and "b64_finite z" and "b64_value z = 0"
  shows "b64_finite (b64_mul x z) \<and> b64_value (b64_mul x z) = 0"
    and "b64_finite (b64_mul z x) \<and> b64_value (b64_mul z x) = 0"
  using assms by (simp_all add: b64_mul_def b64_finite_not_nan b64_value_0_iff)

lemma is_b64_add [simp]: "is_b64 (b64_add x y)"
  by (cases x; cases y) (simp_all add: b64_add_def b64_sel_defs Let_def)

lemma is_b64_sub [simp]: "is_b64 (b64_sub x y)"
  by (simp add: b64_sub_def)

lemma is_b64_mul [simp]: "is_b64 (b64_mul x y)"
  by (simp add: b64_mul_def Let_def)

lemma is_b64_div [simp]: "is_b64 (b64_div x y)"
  by (simp add: b64_div_def Let_def)

text \<open>Halving a number does not overflow.\<close>

lemma b64_round_half_finite:
  assumes d: "is_f64 \<lparr>mant = M, expo = e + 1\<rparr>"
  shows "b64_finite (b64_round M e)"
proof -
  define k where "k = nat (max (bitlen \<bar>M\<bar> - 53) (- 1074 - e))"
  define m where "m = round_to_even M k"
  have M: "\<bar>M\<bar> \<le> 2 ^ 53" and e: "- 1074 \<le> e + 1"
    and mag: "\<bar>real_of_int M * 2 powr real_of_int (e + 1)\<bar> < 2 ^ 1024"
    using d by (simp_all add: is_f64_iff f64_value_powr)
  have r: "b64_round M e = (if m = 0 then b64_signed_zero (M < 0)
      else if is_f64 \<lparr>mant = m, expo = e + int k\<rparr> then Num \<lparr>mant = m, expo = e + int k\<rparr>
      else b64_signed_inf (M < 0))"
    by (simp add: b64_round_def Let_def k_def m_def)
  have "\<bar>M\<bar> < 2 ^ 54" using M by simp
  then have "bitlen \<bar>M\<bar> \<le> int 54" unfolding bitlen_le_iff_power nat_int by simp
  then have k01: "k = 0 \<or> k = 1" unfolding k_def using e by linarith
  have mag': "real_of_int \<bar>M\<bar> * 2 powr real_of_int (e + 1) < 2 ^ 1024"
    using mag by (simp add: abs_mult)
  have "m = 0 \<or> is_f64 \<lparr>mant = m, expo = e + int k\<rparr>"
  proof (cases "k = 0")
    case True
    then have "- 1074 \<le> e" unfolding k_def by linarith
    moreover have "m = M" using True by (simp add: m_def)
    moreover have "real_of_int \<bar>M\<bar> * 2 powr real_of_int e \<le> real_of_int \<bar>M\<bar> * 2 powr real_of_int (e + 1)"
      by (intro mult_left_mono powr_mono) simp_all
    ultimately show ?thesis using True M mag'
      by (simp add: is_f64_iff f64_value_powr abs_mult)
  next
    case False
    with k01 have k1: "k = 1" by simp
    show ?thesis
    proof (cases "M = 0")
      case True
      then show ?thesis by (simp add: m_def round_to_even_def)
    next
      case M0: False
      from round_to_even_nearest [of M k] have near: "\<bar>M - m * 2\<bar> \<le> 1"
        by (simp add: m_def k1)
      then have mM: "\<bar>m\<bar> \<le> \<bar>M\<bar>" using M0 by linarith
      then have "real_of_int \<bar>m\<bar> \<le> real_of_int \<bar>M\<bar>" by (simp only: of_int_le_iff)
      then have "real_of_int \<bar>m\<bar> * 2 powr real_of_int (e + 1) \<le> real_of_int \<bar>M\<bar> * 2 powr real_of_int (e + 1)"
        by (intro mult_right_mono) simp_all
      with mag' have "real_of_int \<bar>m\<bar> * 2 powr real_of_int (e + 1) < 2 ^ 1024" by linarith
      then show ?thesis using mM M e k1
        by (simp add: is_f64_iff f64_value_powr abs_mult)
    qed
  qed
  then show ?thesis by (auto simp: r)
qed

lemma b64_half_mul_finite:
  assumes "b64_finite a" and "is_b64 a"
  shows "b64_finite (b64_mul b64_half a)" and "b64_finite (b64_mul (b64_neg b64_half) a)"
proof -
  have h: "b64_neg b64_half = Num \<lparr>mant = - 1, expo = - 1\<rparr>"
    by (simp add: b64_neg_def b64_half_def)
  show "b64_finite (b64_mul b64_half a)"
  proof (rule b64_finiteE [OF assms(1)])
    fix d assume a: "a = Num d"
    with assms(2) have "is_f64 \<lparr>mant = mant d, expo = expo d - 1 + 1\<rparr>" by (simp add: is_f64_def)
    from b64_round_half_finite [OF this] show ?thesis
      by (simp add: a b64_mul_def b64_half_def Let_def)
  next
    assume "a = NegZero"
    then show ?thesis by (simp add: b64_mul_def b64_half_def)
  qed
  show "b64_finite (b64_mul (b64_neg b64_half) a)"
  proof (rule b64_finiteE [OF assms(1)])
    fix d assume a: "a = Num d"
    with assms(2) have "is_f64 \<lparr>mant = - mant d, expo = expo d - 1 + 1\<rparr>" by (simp add: is_f64_def)
    from b64_round_half_finite [OF this] show ?thesis
      by (simp add: a b64_mul_def h Let_def)
  next
    assume "a = NegZero"
    then show ?thesis by (simp add: b64_mul_def h)
  qed
qed

text \<open>Doubling is exact unless it overflows, and halving the double gives the number back.\<close>

lemma b64_mul_two_exact:
  assumes ds: "is_f64 ds" and nz: "mant ds \<noteq> 0"
    and fin: "b64_finite (b64_mul b64_two (Num ds))"
  shows "\<exists>dt. b64_mul b64_two (Num ds) = Num dt \<and> is_f64 dt \<and> mant dt \<noteq> 0
           \<and> f64_value dt = 2 * f64_value ds"
proof -
  have mul: "b64_mul b64_two (Num ds) = b64_round (2 * mant ds) (expo ds)"
    using nz by (simp add: b64_mul_def b64_two_def Let_def)
  have val: "real_of_int (2 * mant ds) * 2 powr real_of_int (expo ds)
      = real_of_int (mant ds) * 2 powr real_of_int (expo ds + 1)"
    by (simp add: powr_add)
  have m: "\<bar>mant ds\<bar> \<le> 2 ^ 53" and e: "- 1074 \<le> expo ds + 1"
    using ds by (simp_all add: is_f64_def)
  from b64_round_exact_cases [OF val m e] nz
  obtain r where r: "f64_value r = real_of_int (mant ds) * 2 powr real_of_int (expo ds + 1)"
    "mant r \<noteq> 0"
    "b64_round (2 * mant ds) (expo ds) = (if is_f64 r then Num r else b64_signed_inf (2 * mant ds < 0))"
    by auto
  have "is_f64 r" using fin r(3) unfolding mul by (cases "is_f64 r") simp_all
  moreover have "f64_value r = 2 * f64_value ds"
    using r(1) by (simp add: f64_value_powr powr_add)
  ultimately show ?thesis using r(2,3) mul by auto
qed

lemma bitlen_two: "bitlen 2 = 2"
  using bitlen_eqI [of 1 2] by simp

lemma b64_div_Num:
  assumes "mant x \<noteq> 0" and "mant y \<noteq> 0"
    and "A = \<bar>mant x\<bar>" and "B = \<bar>mant y\<bar>"
    and "sh = nat (bitlen B - bitlen A + 55)" and "N = A * 2 ^ sh"
    and "Mq = 2 * (N div B) + (if N mod B = 0 then 0 else 1)"
    and "s \<longleftrightarrow> (mant x < 0) \<noteq> (mant y < 0)"
  shows "b64_div (Num x) (Num y) = b64_round (if s then - Mq else Mq) (expo x - expo y - int sh - 1)"
  unfolding assms(3-8) using assms(1,2) by (simp add: b64_div_def Let_def)

lemma b64_div_two_round:
  assumes nz: "mant dt \<noteq> 0" and sh: "sh = nat (57 - bitlen \<bar>mant dt\<bar>)" and pos: "1 \<le> sh"
  shows "b64_div (Num dt) b64_two = b64_round (mant dt * 2 ^ sh) (expo dt - int sh - 1)"
proof -
  define N where "N = \<bar>mant dt\<bar> * 2 ^ sh"
  obtain j where j: "sh = Suc j" using pos by (cases sh) simp_all
  have even: "N mod 2 = 0" and half: "2 * (N div 2) = N"
    by (simp_all add: N_def j)
  have "b64_div (Num dt) (Num \<lparr>mant = 2, expo = 0\<rparr>)
      = b64_round (if mant dt < 0 then - N else N)
          (expo dt - expo \<lparr>mant = 2, expo = 0\<rparr> - int sh - 1)"
  proof (rule b64_div_Num [where A = "\<bar>mant dt\<bar>" and B = 2 and N = N and sh = sh])
    show "mant dt \<noteq> 0" by fact
    show "mant \<lparr>mant = 2, expo = 0\<rparr> \<noteq> 0" by simp
    show "\<bar>mant dt\<bar> = \<bar>mant dt\<bar>" ..
    show "2 = \<bar>mant \<lparr>mant = 2, expo = 0\<rparr>\<bar>" by simp
    show "sh = nat (bitlen 2 - bitlen \<bar>mant dt\<bar> + 55)" unfolding sh bitlen_two by simp
    show "N = \<bar>mant dt\<bar> * 2 ^ sh" by (rule N_def)
    show "N = 2 * (N div 2) + (if N mod 2 = 0 then 0 else 1)" unfolding half even by simp
    show "(mant dt < 0) \<longleftrightarrow> (mant dt < 0) \<noteq> (mant \<lparr>mant = 2, expo = 0\<rparr> < 0)" by simp
  qed
  moreover have "(if mant dt < 0 then - N else N) = mant dt * 2 ^ sh"
    by (simp add: N_def)
  ultimately show ?thesis by (simp add: b64_two_def)
qed

lemma b64_div_two_exact:
  assumes dt: "is_f64 dt" and nz: "mant dt \<noteq> 0" and ds: "is_f64 ds"
    and val: "f64_value dt = 2 * f64_value ds"
  shows "b64_finite (b64_div (Num dt) b64_two) \<and> b64_value (b64_div (Num dt) b64_two) = f64_value ds"
proof -
  define sh where "sh = nat (57 - bitlen \<bar>mant dt\<bar>)"
  have "\<bar>mant dt\<bar> < 2 ^ 54" using dt by (simp add: is_f64_def)
  then have "bitlen \<bar>mant dt\<bar> \<le> int 54" unfolding bitlen_le_iff_power nat_int by simp
  then have sh: "1 \<le> sh" unfolding sh_def by linarith
  let ?M = "mant dt * 2 ^ sh"
  have div: "b64_div (Num dt) b64_two = b64_round ?M (expo dt - int sh - 1)"
    by (rule b64_div_two_round [OF nz sh_def sh])
  have "real_of_int ?M * 2 powr real_of_int (expo dt - int sh - 1)
      = real_of_int (mant dt) * (2 ^ sh * 2 powr real_of_int (expo dt - int sh - 1))"
    by simp
  also have "(2::real) ^ sh * 2 powr real_of_int (expo dt - int sh - 1)
      = 2 powr real_of_int (int sh + (expo dt - int sh - 1))"
    by (simp only: pw_add pw_nat)
  also have "real_of_int (mant dt) * 2 powr real_of_int (int sh + (expo dt - int sh - 1))
      = f64_value dt / 2"
    by (simp add: f64_value_powr powr_diff)
  finally have v: "real_of_int ?M * 2 powr real_of_int (expo dt - int sh - 1) = f64_value ds"
    using val by simp
  have "?M \<noteq> 0" using nz by simp
  from b64_round_exact [OF v ds this]
  show ?thesis unfolding div by auto
qed

lemma isqrt_aux_nonneg: "0 \<le> r \<Longrightarrow> 0 \<le> isqrt_aux n r N"
  by (induction n arbitrary: r) (simp_all add: Let_def)

lemma isqrt_nonneg: "0 \<le> isqrt N"
  by (simp add: isqrt_def isqrt_aux_nonneg)

lemma b64_round_nonneg_cases:
  assumes "0 \<le> M"
  obtains (zero) "b64_round M e = b64_zero"
  | (inf) "b64_round M e = PosInf"
  | (num) d where "b64_round M e = Num d" "is_f64 d" "0 < mant d"
proof (rule b64_round_cases [of M e])
  assume "b64_round M e = b64_signed_zero (M < 0)"
  with assms show thesis by (intro zero) (simp add: b64_signed_zero_def)
next
  assume "b64_round M e = b64_signed_inf (M < 0)"
  with assms show thesis by (intro inf) (simp add: b64_signed_inf_def)
next
  fix d assume "b64_round M e = Num d" "is_f64 d" "0 \<le> M \<Longrightarrow> 0 < mant d"
  with assms show thesis by (intro num [of d]) simp_all
qed

lemma b64_sqrt_Num:
  assumes "0 < mant d" and "sh0 = nat (110 - bitlen (mant d))"
    and "sh = (if even (expo d - int sh0) then sh0 else sh0 + 1)"
    and "N = mant d * 2 ^ sh" and "st = (if isqrt N * isqrt N = N then 0 else 1)"
  shows "b64_sqrt (Num d) = b64_round (2 * isqrt N + st) ((expo d - int sh) div 2 - 1)"
proof -
  have c: "(mant d = 0) = False" "(mant d < 0) = False" using assms(1) by simp_all
  show ?thesis unfolding assms(2-5) b64_sqrt_def Let_def b64.case c if_False ..
qed

text \<open>\<open>Math.sqrt\<close> returns \<open>NaN\<close>, an infinity, a zero or a positive number.\<close>

lemma b64_sqrt_cases:
  obtains (nan) "b64_sqrt y = NaN"
  | (inf) "b64_sqrt y = PosInf"
  | (zero) "b64_finite (b64_sqrt y)" "b64_value (b64_sqrt y) = 0"
  | (num) d where "b64_sqrt y = Num d" "is_f64 d" "0 < mant d"
proof (cases y)
  case (Num d)
  show thesis
  proof (cases "mant d = 0")
    case True
    then have "b64_sqrt y = Num d" by (simp add: Num b64_sqrt_def)
    then show thesis using True by (intro zero) (simp_all add: f64_value_0_iff)
  next
    case nz: False
    show thesis
    proof (cases "mant d < 0")
      case True
      then show thesis using nz by (intro nan) (simp add: Num b64_sqrt_def)
    next
      case False
      define sh0 where "sh0 = nat (110 - bitlen (mant d))"
      define sh where "sh = (if even (expo d - int sh0) then sh0 else sh0 + 1)"
      define N where "N = mant d * 2 ^ sh"
      define st :: int where "st = (if isqrt N * isqrt N = N then 0 else 1)"
      have "0 < mant d" using nz False by simp
      from b64_sqrt_Num [OF this sh0_def sh_def N_def st_def]
      have s: "b64_sqrt y = b64_round (2 * isqrt N + st) ((expo d - int sh) div 2 - 1)"
        by (simp add: Num)
      have "0 \<le> 2 * isqrt N + st" using isqrt_nonneg [of N] by (simp add: st_def)
      then show thesis
      proof (cases rule: b64_round_nonneg_cases [where e = "(expo d - int sh) div 2 - 1"])
        case zero
        then show thesis using s by (intro that(3)) simp_all
      next
        case inf
        then show thesis using s by (intro that(2)) simp
      next
        case (num r)
        then show thesis using s by (intro that(4) [of r]) simp_all
      qed
    qed
  qed
next
  case NegZero
  then show thesis by (intro zero) (simp_all add: b64_sqrt_def)
next
  case PosInf
  then show thesis by (intro inf) (simp add: b64_sqrt_def)
next
  case NegInf
  then show thesis by (intro nan) (simp add: b64_sqrt_def)
next
  case NaN
  then show thesis by (intro nan) (simp add: b64_sqrt_def)
qed

lemma b64_lt_simps [simp]:
  "\<not> b64_lt NaN y" "\<not> b64_lt x NaN" "\<not> b64_lt PosInf y" "\<not> b64_lt x NegInf"
  "b64_finite x \<Longrightarrow> b64_lt x PosInf" "b64_finite y \<Longrightarrow> b64_lt NegInf y"
  "b64_lt NegInf PosInf"
  by (cases x; cases y; simp add: b64_lt_def b64_finite_not_nan)+

lemma b64_eq_simps [simp]:
  "\<not> b64_eq NaN y" "\<not> b64_eq x NaN"
  "b64_finite x \<Longrightarrow> \<not> b64_eq x PosInf" "b64_finite x \<Longrightarrow> \<not> b64_eq x NegInf"
  "b64_finite y \<Longrightarrow> \<not> b64_eq PosInf y" "b64_finite y \<Longrightarrow> \<not> b64_eq NegInf y"
  "b64_eq PosInf PosInf" "b64_eq NegInf NegInf" "\<not> b64_eq PosInf NegInf" "\<not> b64_eq NegInf PosInf"
  by (cases x; cases y; simp add: b64_eq_def b64_finite_not_nan)+

lemma b64_sqrt_not_lt:
  assumes "b64_finite z" and "b64_value z = 0"
  shows "\<not> b64_lt (b64_sqrt y) z"
proof (cases y rule: b64_sqrt_cases)
  case nan
  then show ?thesis by simp
next
  case inf
  then show ?thesis by simp
next
  case zero
  then show ?thesis using assms by (simp add: b64_lt_iff)
next
  case (num d)
  then show ?thesis using assms by (simp add: b64_lt_iff f64_value_pos_iff [symmetric] not_less less_imp_le)
qed

lemma b64_pos_NumE:
  assumes "b64_finite a" and "0 < b64_value a"
  obtains d where "a = Num d" and "0 < mant d"
  using assms by (cases a) (simp_all add: f64_value_pos_iff)

lemma b64_div_zero:
  assumes "b64_finite a" and "0 < b64_value a"
  shows "b64_div b64_zero a = b64_zero"
proof -
  from assms obtain d where "a = Num d" "0 < mant d" by (rule b64_pos_NumE)
  then show ?thesis by (simp add: b64_div_def b64_signed_zero_def)
qed

text \<open>Dividing a number that is not negative by a positive number gives no negative number.\<close>

lemma b64_div_not_lt_zero:
  assumes x: "\<not> b64_lt x b64_zero" and a: "b64_finite a" and pos: "0 < b64_value a"
  shows "\<not> b64_lt (b64_div x a) b64_zero"
proof -
  from a pos obtain da where da: "a = Num da" "0 < mant da" by (rule b64_pos_NumE)
  show ?thesis
  proof (cases x)
    case (Num d)
    with x have d: "0 \<le> mant d" by (simp add: b64_lt_iff f64_value_nonneg_iff [symmetric])
    show ?thesis
    proof (cases "mant d = 0")
      case True
      then show ?thesis using da by (simp add: Num b64_div_def b64_lt_iff)
    next
      case False
      define sh where "sh = nat (bitlen \<bar>mant da\<bar> - bitlen \<bar>mant d\<bar> + 55)"
      define N where "N = \<bar>mant d\<bar> * 2 ^ sh"
      define Mq where "Mq = 2 * (N div \<bar>mant da\<bar>) + (if N mod \<bar>mant da\<bar> = 0 then 0 else 1)"
      have div: "b64_div (Num d) (Num da) = b64_round (if False then - Mq else Mq)
          (expo d - expo da - int sh - 1)"
        using False da(2) d
        by (intro b64_div_Num [where A = "\<bar>mant d\<bar>" and B = "\<bar>mant da\<bar>" and N = N])
           (simp_all add: sh_def N_def Mq_def)
      have "0 \<le> N" by (simp add: N_def)
      then have "0 \<le> N div \<bar>mant da\<bar>" using da(2) by (simp add: pos_imp_zdiv_nonneg_iff)
      then have "0 \<le> Mq" by (simp add: Mq_def)
      then show ?thesis
      proof (cases rule: b64_round_nonneg_cases [where e = "expo d - expo da - int sh - 1"])
        case zero
        then show ?thesis using div by (simp add: Num da b64_lt_iff)
      next
        case inf
        then show ?thesis using div by (simp add: Num da)
      next
        case (num r)
        then show ?thesis using div
          by (simp add: Num da b64_lt_iff f64_value_pos_iff [symmetric] not_less less_imp_le)
      qed
    qed
  next
    case NegZero
    then show ?thesis using da by (simp add: b64_div_def b64_lt_iff)
  next
    case PosInf
    then show ?thesis using da by (simp add: b64_div_def b64_signed_inf_def)
  next
    case NegInf
    with x show ?thesis by simp
  next
    case NaN
    then show ?thesis by (simp add: b64_div_def)
  qed
qed

section \<open>The line path over binary64 numbers\<close>

lemma b64_eq_zero_iff: "b64_eq x b64_zero \<longleftrightarrow> b64_finite x \<and> b64_value x = 0"
  by (cases x) (simp_all add: b64_eq_iff)

lemma b64_lt_zero_zero [simp]: "\<not> b64_lt b64_zero b64_zero"
  by (simp add: b64_lt_iff)

lemma b64_eq_refl: "b64_finite x \<Longrightarrow> b64_eq x x"
  by (simp add: b64_eq_iff)

lemma b64_mul_eq_zero:
  assumes "b64_finite x" and "b64_eq z b64_zero"
  shows "b64_eq (b64_mul x z) b64_zero" and "b64_eq (b64_mul z x) b64_zero"
  using assms b64_mul_zero [of x z] by (simp_all add: b64_eq_zero_iff)

lemma Vec2_b64_new_Inr_iff:
  "Vec2_b64_new x y = Inr v \<longleftrightarrow> v = Vec2_b64 x y \<and> b64_finite x \<and> b64_finite y"
  by (auto simp: Vec2_b64_new_def)

lemma Vec2_b64_equals_zero_iff:
  "Vec2_b64_equals d Vec2_b64_zero \<longleftrightarrow>
     b64_finite (x64 d) \<and> b64_value (x64 d) = 0 \<and> b64_finite (y64 d) \<and> b64_value (y64 d) = 0"
  by (auto simp: Vec2_b64_equals_def Vec2_b64_zero_def b64_eq_zero_iff)

lemma Vec2_b64_equals_refl: "is_Vec2_b64 p \<Longrightarrow> Vec2_b64_equals p p"
  by (simp add: Vec2_b64_equals_def is_Vec2_b64_def b64_eq_refl)

lemma Vec2_b64_mul_zero:
  assumes "b64_finite (x64 a)" and "b64_finite (y64 a)" and "b64_eq c b64_zero"
  shows "\<exists>d. Vec2_b64_mul a c = Inr d \<and> Vec2_b64_equals d Vec2_b64_zero"
  using assms b64_mul_zero(1) [of "x64 a" c] b64_mul_zero(1) [of "y64 a" c]
  by (simp add: Vec2_b64_mul_def Vec2_b64_new_def Vec2_b64_equals_zero_iff b64_eq_zero_iff)

lemma Vec2_b64_add_zero:
  assumes "is_Vec2_b64 p" and "Vec2_b64_equals d Vec2_b64_zero"
  shows "\<exists>q. Vec2_b64_add p d = Inr q \<and> Vec2_b64_equals q p \<and> is_Vec2_b64 q"
proof -
  have p: "b64_finite (x64 p)" "is_b64 (x64 p)" "b64_finite (y64 p)" "is_b64 (y64 p)"
    using assms(1) by (simp_all add: is_Vec2_b64_def)
  have d: "b64_finite (x64 d)" "b64_value (x64 d) = 0" "b64_finite (y64 d)" "b64_value (y64 d) = 0"
    using assms(2) by (simp_all add: Vec2_b64_equals_zero_iff)
  have x: "b64_finite (b64_add (x64 p) (x64 d))" "b64_value (b64_add (x64 p) (x64 d)) = b64_value (x64 p)"
    using b64_add_zero [OF p(1,2) d(1,2)] by simp_all
  have y: "b64_finite (b64_add (y64 p) (y64 d))" "b64_value (b64_add (y64 p) (y64 d)) = b64_value (y64 p)"
    using b64_add_zero [OF p(3,4) d(3,4)] by simp_all
  show ?thesis
    using x y p
    by (simp add: Vec2_b64_add_def Vec2_b64_new_def Vec2_b64_equals_def is_Vec2_b64_def b64_eq_iff)
qed

lemma Vec2_b64_sub_zero:
  assumes "is_Vec2_b64 p" and "Vec2_b64_equals d Vec2_b64_zero"
  shows "\<exists>q. Vec2_b64_sub p d = Inr q \<and> Vec2_b64_equals q p \<and> is_Vec2_b64 q"
proof -
  have p: "b64_finite (x64 p)" "is_b64 (x64 p)" "b64_finite (y64 p)" "is_b64 (y64 p)"
    using assms(1) by (simp_all add: is_Vec2_b64_def)
  have d: "b64_finite (x64 d)" "b64_value (x64 d) = 0" "b64_finite (y64 d)" "b64_value (y64 d) = 0"
    using assms(2) by (simp_all add: Vec2_b64_equals_zero_iff)
  have x: "b64_finite (b64_sub (x64 p) (x64 d))" "b64_value (b64_sub (x64 p) (x64 d)) = b64_value (x64 p)"
    using b64_sub_zero [OF p(1,2) d(1,2)] by simp_all
  have y: "b64_finite (b64_sub (y64 p) (y64 d))" "b64_value (b64_sub (y64 p) (y64 d)) = b64_value (y64 p)"
    using b64_sub_zero [OF p(3,4) d(3,4)] by simp_all
  show ?thesis
    using x y p
    by (simp add: Vec2_b64_sub_def Vec2_b64_new_def Vec2_b64_equals_def is_Vec2_b64_def b64_eq_iff)
qed

text \<open>The fields of a line path whose duration is positive.\<close>

lemma LineFlightPath_b64_new_Inr:
  assumes "LineFlightPath_b64_new p_start p_end a_max = Inr l"
    and "b64_lt b64_zero (line_t_max64 l)"
  shows "\<not> b64_le a_max b64_zero"
    and "line_p_start64 l = p_start" and "line_p_end64 l = p_end" and "line_a_max64 l = a_max"
    and "\<not> b64_eq (line_distance64 l) b64_zero"
    and "b64_finite (x64 (line_direction64 l))" and "b64_finite (y64 (line_direction64 l))"
    and "line_t_max64 l = b64_mul b64_two (b64_sqrt (b64_div (line_distance64 l) a_max))"
  using assms
  by (auto simp: LineFlightPath_b64_new_def bind_err_def Let_def Vec2_b64_div_def
        Vec2_b64_new_def split: if_splits sum.splits)

lemma b64_sqrt_div_finite:
  assumes "b64_sqrt (b64_div x a) = Num ds" and "mant ds \<noteq> 0" and "\<not> b64_le a b64_zero"
  shows "b64_finite a \<and> 0 < b64_value a"
proof (cases a)
  case (Num d)
  with assms(3) show ?thesis by (simp add: b64_le_iff)
next
  case NegZero
  with assms(3) show ?thesis by (simp add: b64_le_iff)
next
  case PosInf
  with assms(1,2) show ?thesis
    by (cases x) (auto simp: b64_div_def b64_sqrt_def b64_signed_zero_def b64_zero_def split: if_splits)
next
  case NegInf
  with assms(3) show ?thesis by (simp add: b64_le_def)
next
  case NaN
  with assms(1) show ?thesis by (simp add: b64_div_def b64_sqrt_def)
qed

lemma b64_mul_two_cases:
  assumes fin: "b64_finite (b64_mul b64_two s)" and pos: "b64_lt b64_zero (b64_mul b64_two s)"
    and s: "s = b64_sqrt q"
  obtains ds where "s = Num ds" and "is_f64 ds" and "0 < mant ds"
proof (cases q rule: b64_sqrt_cases)
  case nan
  with fin s show ?thesis by (simp add: b64_mul_def)
next
  case inf
  with fin s show ?thesis by (simp add: b64_mul_def b64_two_def)
next
  case zero
  then have "b64_value (b64_mul b64_two s) = 0"
    using b64_mul_zero(1) [of b64_two s] s by (simp add: b64_two_def)
  with pos fin show ?thesis by (simp add: b64_lt_iff)
next
  case (num d)
  with s show ?thesis by (intro that [of d]) simp_all
qed

text \<open>The duration of a line path is twice a number, and half the duration is that number.\<close>

lemma Line_b64_times:
  assumes new: "LineFlightPath_b64_new p_start p_end a_max = Inr l"
    and fin: "b64_finite (line_t_max64 l)" and pos: "b64_lt b64_zero (line_t_max64 l)"
  obtains ds where "is_f64 ds" and "0 < f64_value ds"
    and "b64_value (line_t_max64 l) = 2 * f64_value ds"
    and "b64_finite (b64_div (line_t_max64 l) b64_two)"
    and "b64_value (b64_div (line_t_max64 l) b64_two) = f64_value ds"
    and "b64_finite a_max" and "0 < b64_value a_max"
proof -
  let ?s = "b64_sqrt (b64_div (line_distance64 l) a_max)"
  have T: "line_t_max64 l = b64_mul b64_two ?s"
    and a: "\<not> b64_le a_max b64_zero"
    using LineFlightPath_b64_new_Inr [OF new pos] by simp_all
  from fin pos obtain ds where ds: "?s = Num ds" "is_f64 ds" "0 < mant ds"
    unfolding T by (rule b64_mul_two_cases) simp
  from ds(3) have nz: "mant ds \<noteq> 0" by simp
  from b64_mul_two_exact [OF ds(2) nz] fin
  obtain dt where dt: "line_t_max64 l = Num dt" "is_f64 dt" "mant dt \<noteq> 0"
    "f64_value dt = 2 * f64_value ds"
    unfolding T ds(1) by blast
  from b64_div_two_exact [OF dt(2,3) ds(2) dt(4)]
  have h: "b64_finite (b64_div (line_t_max64 l) b64_two)"
    "b64_value (b64_div (line_t_max64 l) b64_two) = f64_value ds"
    by (simp_all add: dt(1))
  from b64_sqrt_div_finite [OF ds(1) nz a]
  have "b64_finite a_max" "0 < b64_value a_max" by simp_all
  then show ?thesis
    using ds(2,3) dt(1,4) h by (intro that [of ds]) (simp_all add: f64_value_pos_iff)
qed

lemma b64_lt_finiteE:
  assumes "b64_lt x y" and "b64_finite x"
  obtains (finite) "b64_finite y" "b64_value x < b64_value y" | (inf) "y = PosInf"
  using assms by (cases y) (simp_all add: b64_lt_iff)

lemma b64_eq_finiteD:
  assumes "b64_eq x y" and "b64_finite x"
  shows "b64_finite y \<and> b64_value x = b64_value y"
  using assms by (cases y) (simp_all add: b64_eq_iff)

lemma b64_half_mul_zero:
  assumes a: "b64_finite a" "is_b64 a" and t: "b64_eq t b64_zero"
  shows "b64_eq (b64_mul (b64_mul (b64_mul b64_half a) t) t) b64_zero"
    and "b64_eq (b64_mul (b64_mul (b64_mul (b64_neg b64_half) a) t) t) b64_zero"
proof -
  from t have tf: "b64_finite t" by (simp add: b64_eq_zero_iff)
  have 1: "b64_eq (b64_mul (b64_mul b64_half a) t) b64_zero"
    by (rule b64_mul_eq_zero(1) [OF b64_half_mul_finite(1) [OF a] t])
  then have "b64_finite (b64_mul (b64_mul b64_half a) t)" by (simp add: b64_eq_zero_iff)
  then show "b64_eq (b64_mul (b64_mul (b64_mul b64_half a) t) t) b64_zero"
    by (rule b64_mul_eq_zero(1) [OF _ t])
  have 2: "b64_eq (b64_mul (b64_mul (b64_neg b64_half) a) t) b64_zero"
    by (rule b64_mul_eq_zero(1) [OF b64_half_mul_finite(2) [OF a] t])
  then have "b64_finite (b64_mul (b64_mul (b64_neg b64_half) a) t)" by (simp add: b64_eq_zero_iff)
  then show "b64_eq (b64_mul (b64_mul (b64_mul (b64_neg b64_half) a) t) t) b64_zero"
    by (rule b64_mul_eq_zero(1) [OF _ t])
qed

text \<open>A line path of positive finite duration starts at \<open>start\<close>, at rest.\<close>

lemma Line_b64_start:
  assumes new: "LineFlightPath_b64_new p_start p_end a_max = Inr l"
    and fin: "b64_finite (line_t_max64 l)" and pos: "b64_lt b64_zero (line_t_max64 l)"
    and ps: "is_Vec2_b64 p_start" and a: "is_b64 a_max"
  shows "\<exists>p. Line_b64_rocketPosition l b64_zero = Inr p \<and> Vec2_b64_equals p p_start"
    and "\<exists>v. Line_b64_rocketVelocity l b64_zero = Inr v \<and> Vec2_b64_equals v Vec2_b64_zero"
proof -
  note l = LineFlightPath_b64_new_Inr [OF new pos]
  from new fin pos obtain ds where ds: "is_f64 ds" "0 < f64_value ds"
    "b64_finite (b64_div (line_t_max64 l) b64_two)"
    "b64_value (b64_div (line_t_max64 l) b64_two) = f64_value ds"
    and af: "b64_finite a_max"
    by (rule Line_b64_times)
  have z: "b64_eq b64_zero b64_zero" by (simp add: b64_eq_zero_iff)
  have branch: "\<not> b64_lt b64_zero b64_zero" "\<not> b64_eq (line_distance64 l) b64_zero"
    "b64_le b64_zero (b64_div (line_t_max64 l) b64_two)"
    using l(5) ds by (simp_all add: b64_le_iff)
  have "b64_eq (b64_mul (b64_mul (b64_mul b64_half a_max) b64_zero) b64_zero) b64_zero"
    by (rule b64_half_mul_zero(1) [OF af a z])
  from Vec2_b64_mul_zero [OF l(6,7) this]
  obtain d where d: "Vec2_b64_mul (line_direction64 l)
      (b64_mul (b64_mul (b64_mul b64_half a_max) b64_zero) b64_zero) = Inr d"
    "Vec2_b64_equals d Vec2_b64_zero" by blast
  from Vec2_b64_add_zero [OF ps d(2)]
  obtain q where "Vec2_b64_add p_start d = Inr q" "Vec2_b64_equals q p_start" by blast
  then show "\<exists>p. Line_b64_rocketPosition l b64_zero = Inr p \<and> Vec2_b64_equals p p_start"
    using branch d(1) by (simp add: Line_b64_rocketPosition_def l(2,4))
  have "b64_eq (b64_mul a_max b64_zero) b64_zero"
    by (rule b64_mul_eq_zero(1) [OF af z])
  from Vec2_b64_mul_zero [OF l(6,7) this]
  show "\<exists>v. Line_b64_rocketVelocity l b64_zero = Inr v \<and> Vec2_b64_equals v Vec2_b64_zero"
    using branch by (simp add: Line_b64_rocketVelocity_def l(4))
qed

text \<open>
  At its duration, and at every later time, a line path of positive finite duration is at
  \<open>end\<close>, at rest.
\<close>

lemma Line_b64_end:
  assumes new: "LineFlightPath_b64_new p_start p_end a_max = Inr l"
    and fin: "b64_finite (line_t_max64 l)" and pos: "b64_lt b64_zero (line_t_max64 l)"
    and pe: "is_Vec2_b64 p_end" and a: "is_b64 a_max"
    and t: "b64_le (line_t_max64 l) t"
  shows "\<exists>p. Line_b64_rocketPosition l t = Inr p \<and> Vec2_b64_equals p p_end"
    and "\<exists>v. Line_b64_rocketVelocity l t = Inr v \<and> Vec2_b64_equals v Vec2_b64_zero"
proof -
  note l = LineFlightPath_b64_new_Inr [OF new pos]
  let ?T = "line_t_max64 l"
  let ?h = "b64_div ?T b64_two"
  from new fin pos obtain ds where ds: "is_f64 ds" "0 < f64_value ds"
    "b64_value ?T = 2 * f64_value ds" "b64_finite ?h" "b64_value ?h = f64_value ds"
    and af: "b64_finite a_max"
    by (rule Line_b64_times)
  from t consider (eq) "b64_eq ?T t" | (later) "b64_lt ?T t" by (auto simp: b64_le_def)
  then have "(\<exists>p. Line_b64_rocketPosition l t = Inr p \<and> Vec2_b64_equals p p_end)
      \<and> (\<exists>v. Line_b64_rocketVelocity l t = Inr v \<and> Vec2_b64_equals v Vec2_b64_zero)"
  proof cases
    case eq
    from b64_eq_finiteD [OF eq fin] have tf: "b64_finite t" and tv: "b64_value t = b64_value ?T"
      by simp_all
    have branch: "\<not> b64_lt t b64_zero" "\<not> b64_eq (line_distance64 l) b64_zero"
      "\<not> b64_le t ?h" "b64_le t ?T"
      using l(5) ds tf tv fin by (simp_all add: b64_le_iff b64_lt_iff)
    have "b64_finite (b64_sub ?T t) \<and> b64_value (b64_sub ?T t) = 0"
      using b64_sub_equal [OF fin tf] tv by simp
    then have "b64_eq (b64_sub ?T t) b64_zero" by (simp add: b64_eq_zero_iff)
    from Vec2_b64_mul_zero [OF l(6,7) b64_half_mul_zero(2) [OF af a this]]
    obtain d where d: "Vec2_b64_mul (line_direction64 l)
        (b64_mul (b64_mul (b64_mul (b64_neg b64_half) a_max) (b64_sub ?T t)) (b64_sub ?T t)) = Inr d"
      "Vec2_b64_equals d Vec2_b64_zero" by blast
    from Vec2_b64_add_zero [OF pe d(2)]
    obtain q where "Vec2_b64_add p_end d = Inr q" "Vec2_b64_equals q p_end" by blast
    then have P: "\<exists>p. Line_b64_rocketPosition l t = Inr p \<and> Vec2_b64_equals p p_end"
      using branch d(1) by (simp add: Line_b64_rocketPosition_def Let_def l(3,4))
    have "b64_value t - b64_value ?h = f64_value ds" using tv ds by simp
    from b64_sub_exact [OF tf ds(4) ds(1) this]
    have td: "b64_finite (b64_sub t ?h)" "b64_value (b64_sub t ?h) = f64_value ds" by simp_all
    have "b64_finite (b64_sub ?h (b64_sub t ?h)) \<and> b64_value (b64_sub ?h (b64_sub t ?h)) = 0"
      using b64_sub_equal [OF ds(4) td(1)] td(2) ds(5) by simp
    then have "b64_eq (b64_sub ?h (b64_sub t ?h)) b64_zero" by (simp add: b64_eq_zero_iff)
    from Vec2_b64_mul_zero [OF l(6,7) b64_mul_eq_zero(1) [OF af this]]
    have V: "\<exists>v. Line_b64_rocketVelocity l t = Inr v \<and> Vec2_b64_equals v Vec2_b64_zero"
      using branch by (simp add: Line_b64_rocketVelocity_def Let_def l(4))
    from P V show ?thesis ..
  next
    case later
    have branch: "\<not> b64_lt t b64_zero \<and> \<not> b64_le t ?h \<and> \<not> b64_le t ?T"
      using later fin
    proof (cases rule: b64_lt_finiteE)
      case finite
      then show ?thesis using ds fin by (simp add: b64_le_iff b64_lt_iff)
    next
      case inf
      then show ?thesis using ds fin by (simp add: b64_le_def)
    qed
    have "Vec2_b64_equals p_end p_end" by (rule Vec2_b64_equals_refl [OF pe])
    moreover have "Vec2_b64_equals Vec2_b64_zero Vec2_b64_zero"
      by (simp add: Vec2_b64_equals_def Vec2_b64_zero_def b64_eq_refl)
    ultimately show ?thesis
      using branch l(5) by (simp add: Line_b64_rocketPosition_def Line_b64_rocketVelocity_def l(3))
  qed
  then show "\<exists>p. Line_b64_rocketPosition l t = Inr p \<and> Vec2_b64_equals p p_end"
    and "\<exists>v. Line_b64_rocketVelocity l t = Inr v \<and> Vec2_b64_equals v Vec2_b64_zero"
    by simp_all
qed

lemma Line_b64_midpoint:
  assumes new: "LineFlightPath_b64_new p_start p_end a_max = Inr l"
    and fin: "b64_finite (line_t_max64 l)" and pos: "b64_lt b64_zero (line_t_max64 l)"
  shows "Line_b64_rocketVelocity l (b64_div (line_t_max64 l) b64_two)
     = Vec2_b64_mul (line_direction64 l) (b64_mul a_max (b64_div (line_t_max64 l) b64_two))"
proof -
  note l = LineFlightPath_b64_new_Inr [OF new pos]
  from new fin pos obtain ds where ds: "is_f64 ds" "0 < f64_value ds"
    "b64_finite (b64_div (line_t_max64 l) b64_two)"
    "b64_value (b64_div (line_t_max64 l) b64_two) = f64_value ds"
    by (rule Line_b64_times)
  then show ?thesis
    using l(5) by (simp add: Line_b64_rocketVelocity_def l(4) b64_le_iff b64_lt_iff)
qed




section \<open>The fallback of the general path over binary64 numbers\<close>

lemma b64_lt_cases:
  "b64_lt x y \<longleftrightarrow>
     b64_finite x \<and> b64_finite y \<and> b64_value x < b64_value y
     \<or> b64_finite x \<and> y = PosInf \<or> x = NegInf \<and> b64_finite y \<or> x = NegInf \<and> y = PosInf"
  by (cases x; cases y; simp add: b64_lt_iff)

lemma b64_eq_cases:
  "b64_eq x y \<longleftrightarrow>
     b64_finite x \<and> b64_finite y \<and> b64_value x = b64_value y
     \<or> x = PosInf \<and> y = PosInf \<or> x = NegInf \<and> y = NegInf"
  by (cases x; cases y; simp add: b64_eq_iff)

lemma b64_le_pos:
  assumes "b64_finite x" and "0 < b64_value x" and "b64_le x y"
  shows "b64_lt b64_zero y"
  using assms by (auto simp: b64_le_def b64_lt_cases b64_eq_cases)

lemma b64_lt_not_le: "b64_lt x y \<Longrightarrow> \<not> b64_le y x"
  by (auto simp: b64_le_def b64_lt_cases b64_eq_cases)

lemma b64_lt_nonneg: "\<not> b64_lt x b64_zero \<Longrightarrow> b64_lt x y \<Longrightarrow> \<not> b64_lt y b64_zero"
  by (auto simp: b64_lt_cases)

lemma b64_le_cong:
  assumes "b64_finite x" and "b64_finite x'" and "b64_value x = b64_value x'"
  shows "b64_le x y \<longleftrightarrow> b64_le x' y"
  using assms by (auto simp: b64_le_def b64_lt_cases b64_eq_cases)

text \<open>A sum of two numbers that rounds to a positive number is positive.\<close>

lemma b64_add_pos:
  assumes x: "b64_finite x" and y: "b64_finite y" and pos: "b64_lt b64_zero (b64_add x y)"
  shows "0 < b64_value x + b64_value y"
proof -
  let ?e = "min (b64_expo x) (b64_expo y)"
  let ?M = "b64_mant x * 2 ^ nat (b64_expo x - ?e) + b64_mant y * 2 ^ nat (b64_expo y - ?e)"
  have sum: "real_of_int ?M * 2 powr real_of_int ?e = b64_value x + b64_value y"
    by (rule b64_add_aligned)
  have "0 < ?M"
  proof (rule ccontr)
    assume "\<not> 0 < ?M"
    then have le: "?M \<le> 0" by simp
    show False
    proof (cases "?M = 0")
      case True
      then have "b64_add x y = b64_signed_zero (b64_negative x \<and> b64_negative y)"
        by (simp add: b64_add_finite [OF x y] Let_def)
      with pos show False by (simp add: b64_lt_iff)
    next
      case False
      then have r: "b64_add x y = b64_round ?M ?e"
        by (simp add: b64_add_finite [OF x y] Let_def)
      show False
      proof (rule b64_round_cases [of ?M ?e])
        assume "b64_round ?M ?e = b64_signed_zero (?M < 0)"
        with pos r show False by (simp add: b64_lt_iff)
      next
        assume "b64_round ?M ?e = b64_signed_inf (?M < 0)"
        with pos r le False show False by (simp add: b64_signed_inf_def)
      next
        fix d assume "b64_round ?M ?e = Num d" "?M \<le> 0 \<Longrightarrow> mant d < 0"
        with pos r le show False by (simp add: b64_lt_iff f64_value_pos_iff)
      qed
    qed
  qed
  then have "0 < real_of_int ?M" by (simp only: of_int_0_less_iff)
  then have "0 < real_of_int ?M * 2 powr real_of_int ?e" by (intro mult_pos_pos) simp_all
  then show ?thesis unfolding sum .
qed

lemma b64_sub_pos_imp_lt:
  assumes "b64_lt b64_zero (b64_sub t u)"
  shows "b64_lt u t"
proof (cases "b64_finite t \<and> b64_finite u")
  case True
  then have "0 < b64_value t + b64_value (b64_neg u)"
    using assms by (intro b64_add_pos) (simp_all add: b64_sub_def)
  then show ?thesis using True by (simp add: b64_lt_iff)
next
  case False
  then show ?thesis using assms
    by (cases t; cases u) (simp_all add: b64_sub_def b64_add_def b64_neg_def split: if_splits)
qed

lemma b64_sub_zero_finite:
  assumes z: "b64_eq z b64_zero" and x: "is_b64 x" and fin: "b64_finite (b64_sub x z)"
  shows "b64_finite x \<and> b64_value (b64_sub x z) = b64_value x"
proof -
  from z have zf: "b64_finite z" "b64_value z = 0" by (simp_all add: b64_eq_zero_iff)
  have "b64_finite x"
    using fin zf(1) by (cases x) (simp_all add: b64_sub_def b64_add_def b64_finite_not_nan)
  with b64_sub_zero [OF _ x zf] show ?thesis by simp
qed

lemma Vec2_b64_length_zero:
  assumes "Vec2_b64_equals z Vec2_b64_zero"
  shows "Vec2_b64_length z = b64_zero"
proof -
  from assms have z: "b64_finite (x64 z)" "b64_mant (x64 z) = 0" "b64_finite (y64 z)" "b64_mant (y64 z) = 0"
    by (simp_all add: Vec2_b64_equals_zero_iff b64_value_0_iff)
  have "b64_mul (x64 z) (x64 z) = b64_zero" "b64_mul (y64 z) (y64 z) = b64_zero"
    using z by (simp_all add: b64_mul_def b64_finite_not_nan b64_signed_zero_def)
  then show ?thesis
    by (simp add: Vec2_b64_length_def b64_add_def b64_signed_zero_def b64_sqrt_def b64_zero_def)
qed

lemma Vec2_b64_add_is_Vec2: "Vec2_b64_add p d = Inr q \<Longrightarrow> is_Vec2_b64 q"
  by (auto simp: Vec2_b64_add_def Vec2_b64_new_Inr_iff is_Vec2_b64_def)

lemma BreakFlightPath_b64_new_Inr:
  assumes "BreakFlightPath_b64_new p a v = Inr b"
  shows "time_to_break64 b = b64_div (Vec2_b64_length v) a" and "is_Vec2_b64 (break_p_end64 b)"
  using assms
  by (auto simp: BreakFlightPath_b64_new_def bind_err_def Let_def Vec2_b64_add_is_Vec2
        split: if_splits sum.splits)

lemma Vec2_b64_length_not_lt:
  "b64_finite z \<Longrightarrow> b64_value z = 0 \<Longrightarrow> \<not> b64_lt (Vec2_b64_length v) z"
  unfolding Vec2_b64_length_def by (rule b64_sqrt_not_lt)

text \<open>The braking time of a \<open>BreakFlightPath\<close> is not negative.\<close>

lemma BreakFlightPath_b64_time_nonneg:
  assumes "BreakFlightPath_b64_new p a v = Inr b" and "b64_finite a" and "0 < b64_value a"
  shows "\<not> b64_lt (time_to_break64 b) b64_zero"
  unfolding BreakFlightPath_b64_new_Inr(1) [OF assms(1)]
  by (rule b64_div_not_lt_zero [OF Vec2_b64_length_not_lt assms(2,3)]) simp_all

text \<open>Braking from rest: no time, no distance, the same place.\<close>

lemma BreakFlightPath_b64_new_rest:
  assumes a: "b64_finite a" "is_b64 a" "0 < b64_value a" and s: "is_Vec2_b64 s"
    and z: "Vec2_b64_equals z Vec2_b64_zero"
  shows "\<exists>b. BreakFlightPath_b64_new s a z = Inr b
           \<and> time_to_break64 b = b64_zero \<and> b64_eq (dist_to_break64 b) b64_zero
           \<and> Vec2_b64_equals (break_p_end64 b) s \<and> is_Vec2_b64 (break_p_end64 b)"
proof -
  have len: "Vec2_b64_length z = b64_zero" by (rule Vec2_b64_length_zero [OF z])
  have ttb: "b64_div b64_zero a = b64_zero" by (rule b64_div_zero [OF a(1,3)])
  have z0: "b64_eq b64_zero b64_zero" by (simp add: b64_eq_zero_iff)
  have dtb: "b64_eq (b64_mul (b64_mul (b64_mul b64_half a) b64_zero) b64_zero) b64_zero"
    by (rule b64_half_mul_zero(1) [OF a(1,2) z0])
  have "b64_finite (x64 Vec2_b64_zero)" "b64_finite (y64 Vec2_b64_zero)"
    by (simp_all add: Vec2_b64_zero_def)
  from Vec2_b64_mul_zero [OF this dtb]
  obtain d where d: "Vec2_b64_mul Vec2_b64_zero
      (b64_mul (b64_mul (b64_mul b64_half a) b64_zero) b64_zero) = Inr d"
    "Vec2_b64_equals d Vec2_b64_zero" by blast
  from Vec2_b64_add_zero [OF s d(2)]
  obtain q where q: "Vec2_b64_add s d = Inr q" "Vec2_b64_equals q s" "is_Vec2_b64 q" by blast
  have "\<not> b64_le a b64_zero" using a by (simp add: b64_le_iff)
  then show ?thesis
    using len ttb dtb d(1) q z0
    by (simp add: BreakFlightPath_b64_new_def Let_def Vec2_b64_normOrZero_def)
qed

lemma LineFlightPath_b64_new_t_max: "LineFlightPath_b64_new f e a = Inr l \<Longrightarrow> is_b64 (line_t_max64 l)"
  by (auto simp: LineFlightPath_b64_new_def bind_err_def Let_def split: if_splits sum.splits)

text \<open>
  A \<open>DirectedInitialVFlightPath\<close> with the initial speed 0 and a positive duration is a line
  path from a point that equals its start.
\<close>

lemma DirectedInitialVFlightPath_b64_new_rest:
  assumes a: "b64_finite a" "is_b64 a" "0 < b64_value a" and s: "is_Vec2_b64 s"
    and new: "DirectedInitialVFlightPath_b64_new s e a b64_zero = Inr fp"
    and pos: "b64_lt b64_zero (t_max64 fp)"
  shows "\<exists>l f. LineFlightPath_b64_new f e a = Inr l
           \<and> t_max64 fp = b64_sub (line_t_max64 l) b64_zero
           \<and> rocketPosition64 fp = Line_b64_rocketPosition l
           \<and> rocketVelocity64 fp = Line_b64_rocketVelocity l"
proof -
  have na: "\<not> b64_le a b64_zero" using a by (simp add: b64_le_iff)
  have z0: "b64_eq b64_zero b64_zero" by (simp add: b64_eq_zero_iff)
  obtain dd where dd: "Vec2_b64_sub e s = Inr dd"
    using new na
    by (cases "Vec2_b64_sub e s") (simp_all add: DirectedInitialVFlightPath_b64_new_def)
  let ?dist = "Vec2_b64_length dd"
  show ?thesis
  proof (cases "b64_eq ?dist b64_zero")
    case True
    have v: "Vec2_b64_new b64_zero b64_zero = Inr Vec2_b64_zero"
      by (simp add: Vec2_b64_new_def Vec2_b64_zero_def)
    have "Vec2_b64_equals Vec2_b64_zero Vec2_b64_zero"
      by (simp add: Vec2_b64_equals_def Vec2_b64_zero_def b64_eq_refl)
    from BreakFlightPath_b64_new_rest [OF a s this]
    obtain b where b: "BreakFlightPath_b64_new s a Vec2_b64_zero = Inr b"
      "time_to_break64 b = b64_zero" by blast
    have "fp = delegating_b64 (getMaxTime64 (Break_b64_path b)) (Break_b64_path b)"
      using new na dd True v b(1)
      by (simp add: DirectedInitialVFlightPath_b64_new_def Let_def)
    then have "t_max64 fp = b64_zero"
      using b(2) by (simp add: delegating_b64_def getMaxTime64_def Break_b64_path_def)
    with pos show ?thesis by simp
  next
    case False
    obtain direction where dir: "Vec2_b64_div dd ?dist = Inr direction"
      using new na dd False
      by (cases "Vec2_b64_div dd ?dist")
         (simp_all add: DirectedInitialVFlightPath_b64_new_def Let_def)
    then have dfin: "b64_finite (x64 direction)" "b64_finite (y64 direction)"
      by (auto simp: Vec2_b64_div_def Vec2_b64_new_Inr_iff split: if_splits)
    from Vec2_b64_mul_zero [OF dfin z0]
    obtain v where v: "Vec2_b64_mul direction b64_zero = Inr v"
      "Vec2_b64_equals v Vec2_b64_zero" by blast
    from BreakFlightPath_b64_new_rest [OF a s v(2)]
    obtain bp where bp: "BreakFlightPath_b64_new s a v = Inr bp"
      "time_to_break64 bp = b64_zero" "b64_eq (dist_to_break64 bp) b64_zero" by blast
    have ngt: "\<not> b64_gt (dist_to_break64 bp) ?dist"
      unfolding b64_gt_def using bp(3)
      by (intro Vec2_b64_length_not_lt) (simp_all add: b64_eq_zero_iff)
    from Vec2_b64_mul_zero [OF dfin bp(3)]
    obtain d where d: "Vec2_b64_mul direction (dist_to_break64 bp) = Inr d"
      "Vec2_b64_equals d Vec2_b64_zero" by blast
    from Vec2_b64_sub_zero [OF s d(2)]
    obtain f where f: "Vec2_b64_sub s d = Inr f" by blast
    have step: "DirectedInitialVFlightPath_b64_new s e a b64_zero =
        bind_err (LineFlightPath_b64_new f e a) (\<lambda>actual_path.
          Inr (delegating_b64 (b64_sub (getMaxTime64 (Line_b64_path actual_path)) b64_zero)
                 (Line_b64_path actual_path)))"
      using na dd False dir v(1) bp(1,2) ngt d(1) f
      by (simp add: DirectedInitialVFlightPath_b64_new_def Let_def)
    obtain l where l: "LineFlightPath_b64_new f e a = Inr l"
      using new unfolding step by (cases "LineFlightPath_b64_new f e a") simp_all
    have fp: "fp = delegating_b64 (b64_sub (line_t_max64 l) b64_zero) (Line_b64_path l)"
      using new unfolding step l by (simp add: getMaxTime64_def Line_b64_path_def)
    show ?thesis
      using l by (intro exI [of _ l] exI [of _ f]) (simp add: fp delegating_b64_def Line_b64_path_def)
  qed
qed

text \<open>
  The constructors along the fallback, from the values of their local constants: the
  \<open>DirectedInitialVFlightPath\<close> with the initial speed 0 between points at a distance that
  is not 0, and the \<open>InitialVFlightPath\<close> whose alignment has no solution.
\<close>

lemma DirectedInitialVFlightPath_b64_new_rest_eval:
  assumes "\<not> b64_le a b64_zero"
    and "Vec2_b64_sub e s = Inr dd"
    and "\<not> b64_eq (Vec2_b64_length dd) b64_zero"
    and "Vec2_b64_div dd (Vec2_b64_length dd) = Inr direction"
    and "Vec2_b64_mul direction b64_zero = Inr v"
    and "BreakFlightPath_b64_new s a v = Inr break_path"
    and "\<not> b64_gt (dist_to_break64 break_path) (Vec2_b64_length dd)"
    and "Vec2_b64_mul direction (dist_to_break64 break_path) = Inr d"
    and "Vec2_b64_sub s d = Inr fictive_start"
    and "time_to_break64 break_path = b64_zero"
    and "LineFlightPath_b64_new fictive_start e a = Inr actual_path"
  shows "DirectedInitialVFlightPath_b64_new s e a b64_zero
     = Inr (delegating_b64 (b64_sub (getMaxTime64 (Line_b64_path actual_path)) b64_zero)
              (Line_b64_path actual_path))"
  using assms by (simp add: DirectedInitialVFlightPath_b64_new_def Let_def)

lemma InitialVFlightPath_b64_new_fallback_eval:
  assumes "\<not> b64_le a_max b64_zero"
    and "Vec2_b64_sub p_end p_start = Inr dd"
    and "\<not> b64_eq (Vec2_b64_length dd) b64_zero"
    and "Vec2_b64_div dd (Vec2_b64_length dd) = Inr direction"
    and "Vec2_b64_dot v0 direction = v0_parallel_len"
    and "Vec2_b64_mul direction v0_parallel_len = Inr v0_parallel"
    and "Vec2_b64_sub v0 v0_parallel = Inr v0_perp"
    and "\<not> b64_eq (Vec2_b64_length v0_perp) b64_zero"
    and "Vec2_b64_div v0_perp (Vec2_b64_length v0_perp) = Inr v0_perp_direction"
    and "BreakFlightPath_b64_new p_start a_max v0_perp = Inr v0_cancel_path"
    and "calculatePositionAfterCancel_b64 v0_cancel_path v0_parallel
           (time_to_break64 v0_cancel_path) = Inr pos_after_cancel"
    and "calculateAlignmentTime_b64 p_end pos_after_cancel v0_parallel_len direction
           v0_perp_direction a_max = Inr None"
    and "BreakFlightPath_b64_new p_start a_max v0 = Inr full_break_path"
    and "DirectedInitialVFlightPath_b64_new (break_p_end64 full_break_path) p_end a_max b64_zero
           = Inr final_path"
  shows "InitialVFlightPath_b64_new p_start p_end a_max v0
     = Inr (delegating_b64
              (getMaxTime64 (combinePath_b64 (Break_b64_path full_break_path) final_path))
              (combinePath_b64 (Break_b64_path full_break_path) final_path))"
  using assms by (simp add: InitialVFlightPath_b64_new_def Let_def)

text \<open>What the combined path of the fallback does at a time after the braking.\<close>

lemma fallback_b64_after_braking:
  assumes "\<not> b64_lt t b64_zero" and "\<not> b64_le t (time_to_break64 b)"
  shows "rocketPosition64
           (delegating_b64
              (getMaxTime64 (combinePath_b64 (Break_b64_path b)
                 (delegating_b64 tm (Line_b64_path l))))
              (combinePath_b64 (Break_b64_path b) (delegating_b64 tm (Line_b64_path l)))) t
         = Line_b64_rocketPosition l (b64_sub t (time_to_break64 b))"
    and "rocketVelocity64
           (delegating_b64
              (getMaxTime64 (combinePath_b64 (Break_b64_path b)
                 (delegating_b64 tm (Line_b64_path l))))
              (combinePath_b64 (Break_b64_path b) (delegating_b64 tm (Line_b64_path l)))) t
         = Line_b64_rocketVelocity l (b64_sub t (time_to_break64 b))"
  using assms
  by (simp_all add: delegating_b64_def combinePath_b64_def getMaxTime64_def Break_b64_path_def
        Line_b64_path_def)

lemma getMaxTime64_delegating: "getMaxTime64 (delegating_b64 tm implementation) = tm"
  by (simp add: getMaxTime64_def delegating_b64_def)

lemma fallback_b64_duration:
  "getMaxTime64
     (delegating_b64
        (getMaxTime64 (combinePath_b64 (Break_b64_path b) (delegating_b64 tm (Line_b64_path l))))
        (combinePath_b64 (Break_b64_path b) (delegating_b64 tm (Line_b64_path l))))
   = b64_add (time_to_break64 b) tm"
  by (simp add: delegating_b64_def combinePath_b64_def getMaxTime64_def Break_b64_path_def)



end
